theory Spec2Isabelle
  imports Complex_Main
begin

section \<open>Exceptions\<close>

text \<open>
  Every \<^verbatim>\<open>throw\<close> of the sources becomes a value of the type below, and a function
  that may throw returns \<open>exception + 'a\<close> with \<open>Inl\<close> for the exception.  The
  \<^verbatim>\<open>CATCH()\<close> macro of \<^verbatim>\<open>fastestlapc.cpp\<close> prints one line and throws the same
  exception again, so it does not change the outcome of an operation.

  Reading \<^verbatim>\<open>back()\<close> of an empty \<^verbatim>\<open>std::vector\<close> has no defined behaviour in C++; the
  model records it as the outcome \<open>Undefined_behaviour\<close>, which is not an exception that
  the program raises.
\<close>

datatype exception =
    Already_exists string string
  | Does_not_exist string
  | Multiply_defined string
  | Fastest_lap_exception string
  | Runtime_error string
  | Out_of_range
  | Undefined_behaviour string

section \<open>The dynamic model seen by \<^verbatim>\<open>optimal_laptime.hpp\<close>\<close>

text \<open>
  \<^verbatim>\<open>Optimal_laptime<Dynamic_model_t>\<close> is a template over the vehicle model, which is not
  among the sources at hand.  The record below holds what the template reads from it: the
  sizes and the two indices \<^verbatim>\<open>Road_type::ITIME\<close> and \<^verbatim>\<open>Road_type::IN\<close>, the track length
  and the track limits of the road, the bounds, and the call \<^verbatim>\<open>car(q, qa, u, s)\<close> that
  returns the pair of \<^verbatim>\<open>dqdt\<close> and \<^verbatim>\<open>dqa\<close>.  The call also refreshes values that the car
  keeps and that are read right after it (the extra constraints, the slips of the tires,
  the position on the road); each of them is a function of the arguments of that call.

  \<^verbatim>\<open>scalar\<close> is \<^verbatim>\<open>double\<close>, modelled by \<open>real\<close>; a \<^verbatim>\<open>CppAD::AD<scalar>\<close> is
  modelled by its value.  \<^verbatim>\<open>std::vector\<close> and \<^verbatim>\<open>std::array\<close> are lists.
\<close>

type_synonym vec = "real list"

record dynamic_model =
  NSTATE :: nat
  NALGEBRAIC :: nat
  NCONTROL :: nat
  N_OL_EXTRA_CONSTRAINTS :: nat
  ITIME :: nat
  IN :: nat
  track_length :: real
  get_left_track_limit :: "real \<Rightarrow> real"
  get_right_track_limit :: "real \<Rightarrow> real"
  equations :: "vec \<Rightarrow> vec \<Rightarrow> vec \<Rightarrow> real \<Rightarrow> vec \<times> vec"
  optimal_laptime_extra_constraints :: "vec \<Rightarrow> vec \<Rightarrow> vec \<Rightarrow> real \<Rightarrow> vec"
  tire_slips :: "vec \<Rightarrow> vec \<Rightarrow> vec \<Rightarrow> real \<Rightarrow> vec"
  road_position :: "vec \<Rightarrow> vec \<Rightarrow> vec \<Rightarrow> real \<Rightarrow> real \<times> real \<times> real"
  optimal_laptime_state_bounds :: "vec \<times> vec"
  optimal_laptime_algebraic_state_bounds :: "vec \<times> vec"
  optimal_laptime_control_bounds :: "vec \<times> vec \<times> vec \<times> vec"
  optimal_laptime_extra_constraints_bounds :: "vec \<times> vec"

text \<open>The members of an \<^verbatim>\<open>Optimal_laptime\<close> object that the constructors and the two
  \<^verbatim>\<open>compute\<close> functions write.\<close>

record optimal_laptime_object =
  opt_n_elements :: nat
  opt_n_points :: nat
  opt_s :: vec
  opt_q :: "vec list"
  opt_qa :: "vec list"
  opt_u :: "vec list"
  opt_x_coord :: vec
  opt_y_coord :: vec
  opt_psi :: vec
  opt_laptime :: real

section \<open>The interior-point solver\<close>

text \<open>\<^verbatim>\<open>CppAD::ipopt::solve\<close> is a parameter of the model: a function from the starting
  point, the four bound vectors and the function \<^verbatim>\<open>fg\<close> to a result with a status and
  a point.  The status values are those of \<^verbatim>\<open>CppAD::ipopt::solve_result\<close>.\<close>

datatype status_type =
    not_defined | success | maxiter_exceeded | stop_at_tiny_step | stop_at_acceptable_point
  | local_infeasibility | user_requested_stop | feasible_point_found | diverging_iterates
  | restoration_failure | error_in_step_computation | invalid_number_detected
  | too_few_degrees_of_freedom | internal_error | unknown

record solve_result =
  status :: status_type
  result_x :: vec

type_synonym solver = "vec \<Rightarrow> vec \<Rightarrow> vec \<Rightarrow> vec \<Rightarrow> vec \<Rightarrow> (vec \<Rightarrow> vec) \<Rightarrow> solve_result"

section \<open>Writing a vector through a running index\<close>

text \<open>A vector together with the index of the next write.  \<open>push v\<close> is the statement
  \<^verbatim>\<open>fg[k++] = v\<close>, and \<open>add_to_objective v\<close> is \<^verbatim>\<open>fg[0] += v\<close>.\<close>

definition push :: "real \<Rightarrow> nat \<times> vec \<Rightarrow> nat \<times> vec" where
  "push v c = (Suc (fst c), (snd c)[fst c := v])"

definition add_to_objective :: "real \<Rightarrow> nat \<times> vec \<Rightarrow> nat \<times> vec" where
  "add_to_objective v c = (fst c, (snd c)[0 := snd c ! 0 + v])"

text \<open>A loop \<^verbatim>\<open>for (j = a; j < b; ++j) arr[j] = x[k++]\<close>, for the indices \<open>js\<close>.\<close>

definition read_into :: "nat list \<Rightarrow> vec \<Rightarrow> nat \<times> vec \<Rightarrow> nat \<times> vec" where
  "read_into js x c = fold (\<lambda>j c. (Suc (fst c), (snd c)[j := x ! fst c])) js c"

section \<open>The function \<^verbatim>\<open>fg\<close> of the direct transcription\<close>

text \<open>
  Modelled from the spec: the declaration of the classes \<^verbatim>\<open>FG\<close>, \<^verbatim>\<open>FG_direct\<close> and
  \<^verbatim>\<open>FG_derivative\<close> (their members and constructors, in \<^verbatim>\<open>optimal_laptime.h\<close>) is
  missing from the sources; their \<^verbatim>\<open>operator()\<close> is there.  The members are the ones
  \<^verbatim>\<open>operator()\<close> names.  The stored arrays have \<^verbatim>\<open>n_points\<close> zero-valued entries of the
  model's sizes.  The numbers of variables and of constraints are the ones that the
  assertions \<^verbatim>\<open>assert(k == fg.get_n_variables())\<close>, \<^verbatim>\<open>assert(kc == fg.get_n_constraints())\<close>
  and \<^verbatim>\<open>assert(k == FG::_n_constraints+1)\<close> of the sources require: per element, the free
  variables are the states without the time, the algebraic states and the controls (and
  the control derivatives in the derivative transcription), and the constraints are one
  per state without the time, one per algebraic state and the extra constraints (and one
  per control in the derivative transcription).
\<close>

record FG =
  fg_n_elements :: nat
  fg_n_points :: nat
  fg_s :: vec
  fg_q0 :: vec
  fg_qa0 :: vec
  fg_u0 :: vec
  fg_dissipations :: vec
  fg_n_variables :: nat
  fg_n_constraints :: nat
  fg_q :: "vec list"
  fg_qa :: "vec list"
  fg_u :: "vec list"
  fg_dudt :: "vec list"

definition FG_direct ::
  "dynamic_model \<Rightarrow> nat \<Rightarrow> nat \<Rightarrow> vec \<Rightarrow> vec \<Rightarrow> vec \<Rightarrow> vec \<Rightarrow> vec \<Rightarrow> FG" where
  "FG_direct d n_elements n_points s q0 qa0 u0 dissipations =
     \<lparr>fg_n_elements = n_elements, fg_n_points = n_points, fg_s = s, fg_q0 = q0, fg_qa0 = qa0,
      fg_u0 = u0, fg_dissipations = dissipations,
      fg_n_variables = n_elements * (NSTATE d - 1 + NALGEBRAIC d + NCONTROL d),
      fg_n_constraints = n_elements * (NSTATE d - 1 + NALGEBRAIC d + N_OL_EXTRA_CONSTRAINTS d),
      fg_q = replicate n_points (replicate (NSTATE d) 0),
      fg_qa = replicate n_points (replicate (NALGEBRAIC d) 0),
      fg_u = replicate n_points (replicate (NCONTROL d) 0),
      fg_dudt = []\<rparr>"

definition FG_derivative ::
  "dynamic_model \<Rightarrow> nat \<Rightarrow> nat \<Rightarrow> vec \<Rightarrow> vec \<Rightarrow> vec \<Rightarrow> vec \<Rightarrow> vec \<Rightarrow> FG" where
  "FG_derivative d n_elements n_points s q0 qa0 u0 dissipations =
     \<lparr>fg_n_elements = n_elements, fg_n_points = n_points, fg_s = s, fg_q0 = q0, fg_qa0 = qa0,
      fg_u0 = u0, fg_dissipations = dissipations,
      fg_n_variables = n_elements * (NSTATE d - 1 + NALGEBRAIC d + NCONTROL d + NCONTROL d),
      fg_n_constraints =
        n_elements * (NSTATE d - 1 + NALGEBRAIC d + N_OL_EXTRA_CONSTRAINTS d + NCONTROL d),
      fg_q = replicate n_points (replicate (NSTATE d) 0),
      fg_qa = replicate n_points (replicate (NALGEBRAIC d) 0),
      fg_u = replicate n_points (replicate (NCONTROL d) 0),
      fg_dudt = replicate n_points (replicate (NCONTROL d) 0)\<rparr>"

text \<open>\<^verbatim>\<open>constexpr const size_t offset = (is_closed ? 0 : 1)\<close>.\<close>

definition offset :: "bool \<Rightarrow> nat" where
  "offset is_closed = (if is_closed then 0 else 1)"

text \<open>For an open track, node 0 is loaded from \<^verbatim>\<open>_q0\<close>, \<^verbatim>\<open>_qa0\<close> and \<^verbatim>\<open>_u0\<close>, entry by
  entry.\<close>

definition copy_first :: "nat \<Rightarrow> vec \<Rightarrow> vec list \<Rightarrow> vec list" where
  "copy_first n src arr = arr[0 := fold (\<lambda>j a. a[j := src ! j]) [0..<n] (arr ! 0)]"

definition load_first_node :: "dynamic_model \<Rightarrow> bool \<Rightarrow> FG \<Rightarrow> FG" where
  "load_first_node d is_closed F =
     (if \<not> is_closed then
        F\<lparr>fg_q := copy_first (NSTATE d) (fg_q0 F) (fg_q F),
          fg_qa := copy_first (NALGEBRAIC d) (fg_qa0 F) (fg_qa F),
          fg_u := copy_first (NCONTROL d) (fg_u0 F) (fg_u F)\<rparr>
      else F)"

text \<open>One turn of the loop that loads \<^verbatim>\<open>x\<close> into node \<open>i\<close>: the states before the
  time, the states after the time, the algebraic states, the controls.  The state is the
  index \<open>k\<close> into \<open>x\<close> and the object.\<close>

definition load_node_direct :: "dynamic_model \<Rightarrow> vec \<Rightarrow> nat \<Rightarrow> nat \<times> FG \<Rightarrow> nat \<times> FG" where
  "load_node_direct d x i kF =
     (let F = snd kF;
          c1 = read_into [0..<ITIME d] x (fst kF, fg_q F ! i);
          c2 = read_into [ITIME d + 1..<NSTATE d] x c1;
          c3 = read_into [0..<NALGEBRAIC d] x (fst c2, fg_qa F ! i);
          c4 = read_into [0..<NCONTROL d] x (fst c3, fg_u F ! i)
      in (fst c4, F\<lparr>fg_q := (fg_q F)[i := snd c2], fg_qa := (fg_qa F)[i := snd c3],
                      fg_u := (fg_u F)[i := snd c4]\<rparr>))"

definition load_direct :: "dynamic_model \<Rightarrow> bool \<Rightarrow> FG \<Rightarrow> vec \<Rightarrow> FG" where
  "load_direct d is_closed F x =
     snd (fold (load_node_direct d x) [offset is_closed..<fg_n_points F]
            (0, load_first_node d is_closed F))"

text \<open>\<^verbatim>\<open>_dqdt[i]\<close> and \<^verbatim>\<open>_dqa[i]\<close> hold the result of
  \<^verbatim>\<open>_car(_q[i],_qa[i],_u[i],_s[i])\<close>; the model computes them where they are read.\<close>

definition dqdt :: "dynamic_model \<Rightarrow> FG \<Rightarrow> nat \<Rightarrow> vec" where
  "dqdt d F i = fst (equations d (fg_q F ! i) (fg_qa F ! i) (fg_u F ! i) (fg_s F ! i))"

definition dqa :: "dynamic_model \<Rightarrow> FG \<Rightarrow> nat \<Rightarrow> vec" where
  "dqa d F i = snd (equations d (fg_q F ! i) (fg_qa F ! i) (fg_u F ! i) (fg_s F ! i))"

text \<open>The right-hand side of an equality constraint of element \<open>i\<close> and state \<open>j\<close>.\<close>

definition state_defect :: "dynamic_model \<Rightarrow> FG \<Rightarrow> nat \<Rightarrow> nat \<Rightarrow> real" where
  "state_defect d F i j =
     fg_q F ! i ! j - fg_q F ! (i - 1) ! j
       - 0.5 * (fg_s F ! i - fg_s F ! (i - 1)) * (dqdt d F (i - 1) ! j + dqdt d F i ! j)"

text \<open>The same for the element from the last node to the first node of a closed track.\<close>

definition periodic_state_defect :: "dynamic_model \<Rightarrow> FG \<Rightarrow> nat \<Rightarrow> real" where
  "periodic_state_defect d F j =
     hd (fg_q F) ! j - last (fg_q F) ! j
       - 0.5 * (track_length d - last (fg_s F))
           * (dqdt d F (fg_n_points F - 1) ! j + dqdt d F 0 ! j)"

text \<open>One turn of the loop over the nodes \<open>i = 1, ..., n_points - 1\<close> of
  \<^verbatim>\<open>FG_direct::operator()\<close>.\<close>

definition node_direct :: "dynamic_model \<Rightarrow> FG \<Rightarrow> nat \<Rightarrow> nat \<times> vec \<Rightarrow> nat \<times> vec" where
  "node_direct d F i c =
     (let c0 = add_to_objective
                 (0.5 * (fg_s F ! i - fg_s F ! (i - 1))
                    * (dqdt d F (i - 1) ! ITIME d + dqdt d F i ! ITIME d)) c;
          c1 = fold (\<lambda>j. push (state_defect d F i j)) [0..<ITIME d] c0;
          c2 = fold (\<lambda>j. push (state_defect d F i j)) [ITIME d + 1..<NSTATE d] c1;
          c3 = fold (\<lambda>j. push (dqa d F i ! j)) [0..<NALGEBRAIC d] c2
      in fold (\<lambda>j. push (optimal_laptime_extra_constraints d (fg_q F ! i) (fg_qa F ! i)
                           (fg_u F ! i) (fg_s F ! i) ! j))
           [0..<N_OL_EXTRA_CONSTRAINTS d] c3)"

text \<open>The penalisation of the controls of element \<open>i\<close>.\<close>

definition penalise_direct :: "dynamic_model \<Rightarrow> FG \<Rightarrow> nat \<Rightarrow> nat \<times> vec \<Rightarrow> nat \<times> vec" where
  "penalise_direct d F i c =
     fold (\<lambda>j. let derivative = (fg_u F ! i ! j - fg_u F ! (i - 1) ! j) / (fg_s F ! i - fg_s F ! (i - 1))
               in add_to_objective
                    (fg_dissipations F ! j * (derivative * derivative) * (fg_s F ! i - fg_s F ! (i - 1))))
       [0..<NCONTROL d] c"

text \<open>The periodic element of a closed track.\<close>

definition periodic_direct :: "dynamic_model \<Rightarrow> FG \<Rightarrow> nat \<times> vec \<Rightarrow> nat \<times> vec" where
  "periodic_direct d F c =
     (let L = track_length d;
          c0 = add_to_objective
                 (0.5 * (L - last (fg_s F))
                    * (dqdt d F 0 ! ITIME d + dqdt d F (fg_n_points F - 1) ! ITIME d)) c;
          c1 = fold (\<lambda>j. push (periodic_state_defect d F j)) [0..<ITIME d] c0;
          c2 = fold (\<lambda>j. push (periodic_state_defect d F j)) [ITIME d + 1..<NSTATE d] c1;
          c3 = fold (\<lambda>j. push (dqa d F 0 ! j)) [0..<NALGEBRAIC d] c2;
          c4 = fold (\<lambda>j. push (optimal_laptime_extra_constraints d (fg_q F ! 0) (fg_qa F ! 0)
                                (fg_u F ! 0) (fg_s F ! 0) ! j))
                 [0..<N_OL_EXTRA_CONSTRAINTS d] c3
      in fold (\<lambda>j. let derivative = (hd (fg_u F) ! j - last (fg_u F) ! j) / (L - last (fg_s F))
                   in add_to_objective
                        (fg_dissipations F ! j * (derivative * derivative) * (L - last (fg_s F))))
           [0..<NCONTROL d] c4)"

text \<open>
  \<^verbatim>\<open>FG_direct<is_closed>::operator()(fg, x)\<close>: the object after the call and the vector
  \<^verbatim>\<open>fg\<close>, which enters with \<^verbatim>\<open>1 + _n_constraints\<close> entries.  \<^verbatim>\<open>fg[0] = 0.0\<close> comes
  first and the index of the constraints starts at 1.
\<close>

definition FG_direct_call :: "dynamic_model \<Rightarrow> bool \<Rightarrow> FG \<Rightarrow> vec \<Rightarrow> FG \<times> vec" where
  "FG_direct_call d is_closed F0 x =
     (let F = load_direct d is_closed F0 x;
          fg0 = (replicate (1 + fg_n_constraints F) 0)[0 := 0];
          c1 = fold (node_direct d F) [1..<fg_n_points F] (1, fg0);
          c2 = fold (penalise_direct d F) [1..<fg_n_points F] c1;
          c3 = (if is_closed then periodic_direct d F c2 else c2)
      in (F, snd c3))"

section \<open>\<^verbatim>\<open>compute_direct\<close>\<close>

text \<open>The five vectors handed to the solver and the two running indices \<^verbatim>\<open>k\<close> and
  \<^verbatim>\<open>kc\<close> of the loop that fills them.\<close>

record bounds =
  kx :: nat
  kc :: nat
  x0 :: vec
  x_lb :: vec
  x_ub :: vec
  c_lb :: vec
  c_ub :: vec

text \<open>\<^verbatim>\<open>x0[k] = a; x_lb[k] = l; x_ub[k] = u; k++\<close> and
  \<^verbatim>\<open>c_lb[kc] = l; c_ub[kc] = u; kc++\<close>.\<close>

definition set_variable :: "real \<Rightarrow> real \<Rightarrow> real \<Rightarrow> bounds \<Rightarrow> bounds" where
  "set_variable a l u b =
     b\<lparr>x0 := (x0 b)[kx b := a], x_lb := (x_lb b)[kx b := l], x_ub := (x_ub b)[kx b := u],
       kx := Suc (kx b)\<rparr>"

definition set_constraint :: "real \<Rightarrow> real \<Rightarrow> bounds \<Rightarrow> bounds" where
  "set_constraint l u b =
     b\<lparr>c_lb := (c_lb b)[kc b := l], c_ub := (c_ub b)[kc b := u], kc := Suc (kc b)\<rparr>"

text \<open>The vectors before the loop: zeros for \<^verbatim>\<open>x0\<close>, \<^verbatim>\<open>c_lb\<close> and \<^verbatim>\<open>c_ub\<close>, and
  \<open>\<plusminus>1.0e24\<close> for the bounds of the variables.\<close>

definition initial_bounds :: "FG \<Rightarrow> bounds" where
  "initial_bounds F =
     \<lparr>kx = 0, kc = 0, x0 = replicate (fg_n_variables F) 0,
      x_lb = replicate (fg_n_variables F) (- (10 ^ 24)),
      x_ub = replicate (fg_n_variables F) (10 ^ 24),
      c_lb = replicate (fg_n_constraints F) 0, c_ub = replicate (fg_n_constraints F) 0\<rparr>"

text \<open>The part of a turn that the two transcriptions share: the states before the
  time, the lateral offset \<^verbatim>\<open>IN\<close> with the track limits at \<^verbatim>\<open>s[i]\<close>, the states after
  \<^verbatim>\<open>IN\<close>, and the algebraic states.  Each of these variables comes with one equality
  constraint.\<close>

definition bounds_states :: "dynamic_model \<Rightarrow> optimal_laptime_object \<Rightarrow> nat \<Rightarrow> bounds \<Rightarrow> bounds" where
  "bounds_states d ol i b =
     (let q_lb = fst (optimal_laptime_state_bounds d);
          q_ub = snd (optimal_laptime_state_bounds d);
          qa_lb = fst (optimal_laptime_algebraic_state_bounds d);
          qa_ub = snd (optimal_laptime_algebraic_state_bounds d);
          b1 = fold (\<lambda>j b. set_constraint 0 0 (set_variable (opt_q ol ! i ! j) (q_lb ! j) (q_ub ! j) b))
                 [0..<ITIME d] b;
          b2 = set_constraint 0 0
                 (set_variable (opt_q ol ! i ! IN d) (- get_left_track_limit d (opt_s ol ! i))
                    (get_right_track_limit d (opt_s ol ! i)) b1);
          b3 = fold (\<lambda>j b. set_constraint 0 0 (set_variable (opt_q ol ! i ! j) (q_lb ! j) (q_ub ! j) b))
                 [IN d + 1..<NSTATE d] b2
      in fold (\<lambda>j b. set_constraint 0 0 (set_variable (opt_qa ol ! i ! j) (qa_lb ! j) (qa_ub ! j) b))
           [0..<NALGEBRAIC d] b3)"

text \<open>One turn of the loop of \<^verbatim>\<open>compute_direct\<close>: then the controls, which have no
  constraint, and the bounds of the extra constraints.\<close>

definition bounds_node_direct :: "dynamic_model \<Rightarrow> optimal_laptime_object \<Rightarrow> nat \<Rightarrow> bounds \<Rightarrow> bounds" where
  "bounds_node_direct d ol i b =
     (let u_lb = fst (optimal_laptime_control_bounds d);
          u_ub = fst (snd (optimal_laptime_control_bounds d));
          c_extra_lb = fst (optimal_laptime_extra_constraints_bounds d);
          c_extra_ub = snd (optimal_laptime_extra_constraints_bounds d);
          b4 = bounds_states d ol i b;
          b5 = fold (\<lambda>j. set_variable (opt_u ol ! i ! j) (u_lb ! j) (u_ub ! j)) [0..<NCONTROL d] b4
      in fold (\<lambda>j. set_constraint (c_extra_lb ! j) (c_extra_ub ! j)) [0..<N_OL_EXTRA_CONSTRAINTS d] b5)"

definition bounds_direct :: "dynamic_model \<Rightarrow> bool \<Rightarrow> FG \<Rightarrow> optimal_laptime_object \<Rightarrow> bounds" where
  "bounds_direct d is_closed F ol =
     fold (bounds_node_direct d ol) [offset is_closed..<opt_n_points ol] (initial_bounds F)"

text \<open>\<^verbatim>\<open>front()\<close> and \<^verbatim>\<open>back()\<close> of a vector; on an empty vector the behaviour is not
  defined.\<close>

definition vector_front :: "'a list \<Rightarrow> exception + 'a" where
  "vector_front v = (case v of [] \<Rightarrow> Inl (Undefined_behaviour ''front() of an empty vector'') | a # _ \<Rightarrow> Inr a)"

definition vector_back :: "'a list \<Rightarrow> exception + 'a" where
  "vector_back v = (if v = [] then Inl (Undefined_behaviour ''back() of an empty vector'') else Inr (last v))"

text \<open>The export of the solution: the states, algebraic states and controls that the
  last call of \<^verbatim>\<open>fg\<close> left in the object, entry by entry.\<close>

definition export_solution :: "dynamic_model \<Rightarrow> FG \<Rightarrow> optimal_laptime_object \<Rightarrow> optimal_laptime_object" where
  "export_solution d F ol =
     ol\<lparr>opt_q := map (\<lambda>i. map (\<lambda>j. fg_q F ! i ! j) [0..<NSTATE d]) [0..<opt_n_points ol],
        opt_qa := map (\<lambda>i. map (\<lambda>j. fg_qa F ! i ! j) [0..<NALGEBRAIC d]) [0..<opt_n_points ol],
        opt_u := map (\<lambda>i. map (\<lambda>j. fg_u F ! i ! j) [0..<NCONTROL d]) [0..<opt_n_points ol],
        opt_x_coord := replicate (length (fg_q F)) 0,
        opt_y_coord := replicate (length (fg_q F)) 0,
        opt_psi := replicate (length (fg_q F)) 0\<rparr>"

text \<open>\<^verbatim>\<open>dtimeds_first\<close>: the car is called with the solved node 0 and the arclength
  \<^verbatim>\<open>0.0\<close>.\<close>

definition dtimeds_first :: "dynamic_model \<Rightarrow> FG \<Rightarrow> real" where
  "dtimeds_first d F = fst (equations d (fg_q F ! 0) (fg_qa F ! 0) (fg_u F ! 0) 0) ! ITIME d"

text \<open>\<^verbatim>\<open>dtimeds\<close> of the turn \<open>i\<close>: the car is called with the solved node \<open>i\<close> and
  \<^verbatim>\<open>s[i]\<close>.\<close>

definition dtimeds :: "dynamic_model \<Rightarrow> FG \<Rightarrow> vec \<Rightarrow> nat \<Rightarrow> real" where
  "dtimeds d F s i = fst (equations d (fg_q F ! i) (fg_qa F ! i) (fg_u F ! i) (s ! i)) ! ITIME d"

text \<open>The value of the variable \<^verbatim>\<open>dtimeds_prev\<close> when the turn \<open>i\<close> of the loop below
  starts: \<^verbatim>\<open>dtimeds_first\<close> for the first turn, and the \<^verbatim>\<open>dtimeds\<close> of the turn before
  otherwise.\<close>

definition dtimeds_prev_at :: "dynamic_model \<Rightarrow> FG \<Rightarrow> vec \<Rightarrow> nat \<Rightarrow> real" where
  "dtimeds_prev_at d F s i = (if i \<le> 1 then dtimeds_first d F else dtimeds d F s (i - 1))"

definition set_position :: "nat \<Rightarrow> real \<times> real \<times> real \<Rightarrow> optimal_laptime_object \<Rightarrow> optimal_laptime_object" where
  "set_position i p ol =
     ol\<lparr>opt_x_coord := (opt_x_coord ol)[i := fst p], opt_y_coord := (opt_y_coord ol)[i := fst (snd p)],
        opt_psi := (opt_psi ol)[i := snd (snd p)]\<rparr>"

text \<open>One turn of the loop that recomputes the time; the state is \<^verbatim>\<open>dtimeds_prev\<close> and
  the object.\<close>

definition recover_node ::
  "dynamic_model \<Rightarrow> FG \<Rightarrow> nat \<Rightarrow> real \<times> optimal_laptime_object \<Rightarrow> real \<times> optimal_laptime_object" where
  "recover_node d F i st =
     (let dtimeds_prev = fst st; ol = snd st; s = opt_s ol; q = opt_q ol;
          dt = dtimeds d F s i;
          q' = q[i := (q ! i)[ITIME d := q ! (i - 1) ! ITIME d
                                          + 0.5 * (s ! i - s ! (i - 1)) * (dt + dtimeds_prev)]]
      in (dt, set_position i (road_position d (fg_q F ! i) (fg_qa F ! i) (fg_u F ! i) (s ! i))
                (ol\<lparr>opt_q := q'\<rparr>)))"

definition recover_time ::
  "dynamic_model \<Rightarrow> FG \<Rightarrow> optimal_laptime_object \<Rightarrow> real \<times> optimal_laptime_object" where
  "recover_time d F ol =
     fold (recover_node d F) [1..<length (fg_q F)]
       (dtimeds_first d F,
        set_position 0 (road_position d (fg_q F ! 0) (fg_qa F ! 0) (fg_u F ! 0) 0) ol)"

text \<open>The last lines of \<^verbatim>\<open>compute_direct\<close>: the lap time.\<close>

definition laptime_direct :: "dynamic_model \<Rightarrow> bool \<Rightarrow> FG \<Rightarrow> real \<times> optimal_laptime_object \<Rightarrow> optimal_laptime_object" where
  "laptime_direct d is_closed F st =
     (let dtimeds_prev = fst st; ol = snd st; L = track_length d;
          laptime = last (opt_q ol) ! ITIME d
      in ol\<lparr>opt_laptime :=
              (if is_closed
               then laptime + 0.5 * (L - last (opt_s ol)) * (dtimeds_prev * dtimeds_first d F)
               else laptime)\<rparr>)"

text \<open>The call of the solver in \<^verbatim>\<open>compute_direct\<close>, with the vectors that the loop has
  filled.  The text of the solver options is left out.\<close>

definition call_solver_direct ::
  "dynamic_model \<Rightarrow> solver \<Rightarrow> bool \<Rightarrow> FG \<Rightarrow> optimal_laptime_object \<Rightarrow> solve_result" where
  "call_solver_direct d ipopt is_closed F ol =
     (let b = bounds_direct d is_closed F ol
      in ipopt (x0 b) (x_lb b) (x_ub b) (c_lb b) (c_ub b) (\<lambda>x. snd (FG_direct_call d is_closed F x)))"

text \<open>What \<^verbatim>\<open>compute_direct\<close> does once the solver has succeeded with the point \<open>x\<close>:
  the object \<^verbatim>\<open>fg\<close> is called once more with \<open>x\<close> (what that call leaves in the
  object does not depend on the calls the solver made before), then the solution is
  exported, the time is recomputed and the lap time is set.\<close>

definition finish_direct ::
  "dynamic_model \<Rightarrow> bool \<Rightarrow> FG \<Rightarrow> vec \<Rightarrow> optimal_laptime_object \<Rightarrow> optimal_laptime_object" where
  "finish_direct d is_closed F x ol =
     (let F' = fst (FG_direct_call d is_closed F x)
      in laptime_direct d is_closed F' (recover_time d F' (export_solution d F' ol)))"

text \<open>\<^verbatim>\<open>compute_direct<is_closed>(car, dissipations)\<close>.\<close>

definition compute_direct ::
  "dynamic_model \<Rightarrow> solver \<Rightarrow> bool \<Rightarrow> vec \<Rightarrow> optimal_laptime_object
     \<Rightarrow> exception + optimal_laptime_object" where
  "compute_direct d ipopt is_closed dissipations ol =
     (case vector_front (opt_q ol) of Inl e \<Rightarrow> Inl e
      | Inr q0 \<Rightarrow>
        (case vector_front (opt_qa ol) of Inl e \<Rightarrow> Inl e
         | Inr qa0 \<Rightarrow>
           (case vector_front (opt_u ol) of Inl e \<Rightarrow> Inl e
            | Inr u0 \<Rightarrow>
              (let F = FG_direct d (opt_n_elements ol) (opt_n_points ol) (opt_s ol) q0 qa0 u0
                         dissipations;
                   result = call_solver_direct d ipopt is_closed F ol
               in if status result \<noteq> success
                  then Inl (Runtime_error ''Optimization did not succeed'')
                  else Inr (finish_direct d is_closed F (result_x result) ol)))))"

section \<open>The derivative transcription\<close>

text \<open>For an open track \<^verbatim>\<open>FG_derivative::operator()\<close> also sets \<^verbatim>\<open>_dudt[0][j] = 0.0\<close>.\<close>

definition load_first_node_derivative :: "dynamic_model \<Rightarrow> bool \<Rightarrow> FG \<Rightarrow> FG" where
  "load_first_node_derivative d is_closed F =
     (if \<not> is_closed then
        (load_first_node d is_closed F)
          \<lparr>fg_dudt := (fg_dudt F)[0 := fold (\<lambda>j a. a[j := 0]) [0..<NCONTROL d] (fg_dudt F ! 0)]\<rparr>
      else F)"

definition load_node_derivative :: "dynamic_model \<Rightarrow> vec \<Rightarrow> nat \<Rightarrow> nat \<times> FG \<Rightarrow> nat \<times> FG" where
  "load_node_derivative d x i kF =
     (let F = snd kF;
          c1 = read_into [0..<ITIME d] x (fst kF, fg_q F ! i);
          c2 = read_into [ITIME d + 1..<NSTATE d] x c1;
          c3 = read_into [0..<NALGEBRAIC d] x (fst c2, fg_qa F ! i);
          c4 = read_into [0..<NCONTROL d] x (fst c3, fg_u F ! i);
          c5 = read_into [0..<NCONTROL d] x (fst c4, fg_dudt F ! i)
      in (fst c5, F\<lparr>fg_q := (fg_q F)[i := snd c2], fg_qa := (fg_qa F)[i := snd c3],
                      fg_u := (fg_u F)[i := snd c4], fg_dudt := (fg_dudt F)[i := snd c5]\<rparr>))"

definition load_derivative :: "dynamic_model \<Rightarrow> bool \<Rightarrow> FG \<Rightarrow> vec \<Rightarrow> FG" where
  "load_derivative d is_closed F x =
     snd (fold (load_node_derivative d x) [offset is_closed..<fg_n_points F]
            (0, load_first_node_derivative d is_closed F))"

text \<open>The equality constraint of element \<open>i\<close> and control \<open>j\<close>, and the one of the
  periodic element.\<close>

definition control_defect :: "dynamic_model \<Rightarrow> FG \<Rightarrow> nat \<Rightarrow> nat \<Rightarrow> real" where
  "control_defect d F i j =
     fg_u F ! i ! j - fg_u F ! (i - 1) ! j
       - 0.5 * (fg_s F ! i - fg_s F ! (i - 1))
           * (fg_dudt F ! (i - 1) ! j * dqdt d F (i - 1) ! ITIME d
              + fg_dudt F ! i ! j * dqdt d F i ! ITIME d)"

definition periodic_control_defect :: "dynamic_model \<Rightarrow> FG \<Rightarrow> nat \<Rightarrow> real" where
  "periodic_control_defect d F j =
     hd (fg_u F) ! j - last (fg_u F) ! j
       - 0.5 * (track_length d - last (fg_s F))
           * (last (fg_dudt F) ! j * dqdt d F (fg_n_points F - 1) ! ITIME d
              + hd (fg_dudt F) ! j * dqdt d F 0 ! ITIME d)"

text \<open>The six slips that the derivative transcription writes by name: \<^verbatim>\<open>kappa_left\<close>,
  \<^verbatim>\<open>kappa_right\<close>, \<^verbatim>\<open>lambda_front_left\<close>, \<^verbatim>\<open>lambda_front_right\<close>,
  \<^verbatim>\<open>lambda_rear_left\<close>, \<^verbatim>\<open>lambda_rear_right\<close>, read from the car after its call at
  node \<open>i\<close>.\<close>

definition push_tire_slips :: "dynamic_model \<Rightarrow> FG \<Rightarrow> nat \<Rightarrow> nat \<times> vec \<Rightarrow> nat \<times> vec" where
  "push_tire_slips d F i c =
     fold (\<lambda>j. push (tire_slips d (fg_q F ! i) (fg_qa F ! i) (fg_u F ! i) (fg_s F ! i) ! j))
       [0..<6] c"

definition node_derivative :: "dynamic_model \<Rightarrow> FG \<Rightarrow> nat \<Rightarrow> nat \<times> vec \<Rightarrow> nat \<times> vec" where
  "node_derivative d F i c =
     (let c0 = add_to_objective
                 (0.5 * (fg_s F ! i - fg_s F ! (i - 1))
                    * (dqdt d F (i - 1) ! ITIME d + dqdt d F i ! ITIME d)) c;
          c1 = fold (\<lambda>j. push (state_defect d F i j)) [0..<ITIME d] c0;
          c2 = fold (\<lambda>j. push (state_defect d F i j)) [ITIME d + 1..<NSTATE d] c1;
          c3 = fold (\<lambda>j. push (dqa d F i ! j)) [0..<NALGEBRAIC d] c2;
          c4 = push_tire_slips d F i c3
      in fold (\<lambda>j. push (control_defect d F i j)) [0..<NCONTROL d] c4)"

definition penalise_derivative :: "dynamic_model \<Rightarrow> FG \<Rightarrow> nat \<Rightarrow> nat \<times> vec \<Rightarrow> nat \<times> vec" where
  "penalise_derivative d F i c =
     fold (\<lambda>j. add_to_objective
                 (fg_dissipations F ! j * (fg_dudt F ! i ! j * fg_dudt F ! i ! j)
                    * (fg_s F ! i - fg_s F ! (i - 1))))
       [0..<NCONTROL d] c"

definition periodic_derivative :: "dynamic_model \<Rightarrow> FG \<Rightarrow> nat \<times> vec \<Rightarrow> nat \<times> vec" where
  "periodic_derivative d F c =
     (let L = track_length d;
          c0 = add_to_objective
                 (0.5 * (L - last (fg_s F))
                    * (dqdt d F 0 ! ITIME d + dqdt d F (fg_n_points F - 1) ! ITIME d)) c;
          c1 = fold (\<lambda>j. push (periodic_state_defect d F j)) [0..<ITIME d] c0;
          c2 = fold (\<lambda>j. push (periodic_state_defect d F j)) [ITIME d + 1..<NSTATE d] c1;
          c3 = fold (\<lambda>j. push (dqa d F 0 ! j)) [0..<NALGEBRAIC d] c2;
          c4 = push_tire_slips d F 0 c3;
          c5 = fold (\<lambda>j. push (periodic_control_defect d F j)) [0..<NCONTROL d] c4
      in fold (\<lambda>j. add_to_objective
                      (fg_dissipations F ! j * (fg_dudt F ! 0 ! j * fg_dudt F ! 0 ! j)
                         * (L - last (fg_s F))))
           [0..<NCONTROL d] c5)"

text \<open>\<^verbatim>\<open>FG_derivative<is_closed>::operator()(fg, x)\<close>.\<close>

definition FG_derivative_call :: "dynamic_model \<Rightarrow> bool \<Rightarrow> FG \<Rightarrow> vec \<Rightarrow> FG \<times> vec" where
  "FG_derivative_call d is_closed F0 x =
     (let F = load_derivative d is_closed F0 x;
          fg0 = (replicate (1 + fg_n_constraints F) 0)[0 := 0];
          c1 = fold (node_derivative d F) [1..<fg_n_points F] (1, fg0);
          c2 = fold (penalise_derivative d F) [1..<fg_n_points F] c1;
          c3 = (if is_closed then periodic_derivative d F c2 else c2)
      in (F, snd c3))"

text \<open>One turn of the loop of \<^verbatim>\<open>compute_derivative\<close>: after the shared part come the
  bounds of the extra constraints, the controls with one equality constraint each, and the
  control derivatives, which start at zero.\<close>

definition bounds_node_derivative ::
  "dynamic_model \<Rightarrow> optimal_laptime_object \<Rightarrow> nat \<Rightarrow> bounds \<Rightarrow> bounds" where
  "bounds_node_derivative d ol i b =
     (let u_lb = fst (optimal_laptime_control_bounds d);
          u_ub = fst (snd (optimal_laptime_control_bounds d));
          dudt_lb = fst (snd (snd (optimal_laptime_control_bounds d)));
          dudt_ub = snd (snd (snd (optimal_laptime_control_bounds d)));
          c_extra_lb = fst (optimal_laptime_extra_constraints_bounds d);
          c_extra_ub = snd (optimal_laptime_extra_constraints_bounds d);
          b4 = bounds_states d ol i b;
          b5 = fold (\<lambda>j. set_constraint (c_extra_lb ! j) (c_extra_ub ! j))
                 [0..<N_OL_EXTRA_CONSTRAINTS d] b4;
          b6 = fold (\<lambda>j b. set_constraint 0 0 (set_variable (opt_u ol ! i ! j) (u_lb ! j) (u_ub ! j) b))
                 [0..<NCONTROL d] b5
      in fold (\<lambda>j. set_variable 0 (dudt_lb ! j) (dudt_ub ! j)) [0..<NCONTROL d] b6)"

definition bounds_derivative :: "dynamic_model \<Rightarrow> bool \<Rightarrow> FG \<Rightarrow> optimal_laptime_object \<Rightarrow> bounds" where
  "bounds_derivative d is_closed F ol =
     fold (bounds_node_derivative d ol) [offset is_closed..<opt_n_points ol] (initial_bounds F)"

text \<open>The last lines of \<^verbatim>\<open>compute_derivative\<close>: the lap time.\<close>

definition laptime_derivative :: "dynamic_model \<Rightarrow> bool \<Rightarrow> FG \<Rightarrow> real \<times> optimal_laptime_object \<Rightarrow> optimal_laptime_object" where
  "laptime_derivative d is_closed F st =
     (let dtimeds_prev = fst st; ol = snd st; L = track_length d;
          laptime = last (opt_q ol) ! ITIME d
      in ol\<lparr>opt_laptime :=
              (if is_closed
               then laptime + 0.5 * (L - last (opt_s ol)) * (dtimeds_prev + dtimeds_first d F)
               else laptime)\<rparr>)"

definition call_solver_derivative ::
  "dynamic_model \<Rightarrow> solver \<Rightarrow> bool \<Rightarrow> FG \<Rightarrow> optimal_laptime_object \<Rightarrow> solve_result" where
  "call_solver_derivative d ipopt is_closed F ol =
     (let b = bounds_derivative d is_closed F ol
      in ipopt (x0 b) (x_lb b) (x_ub b) (c_lb b) (c_ub b)
           (\<lambda>x. snd (FG_derivative_call d is_closed F x)))"

definition finish_derivative ::
  "dynamic_model \<Rightarrow> bool \<Rightarrow> FG \<Rightarrow> vec \<Rightarrow> optimal_laptime_object \<Rightarrow> optimal_laptime_object" where
  "finish_derivative d is_closed F x ol =
     (let F' = fst (FG_derivative_call d is_closed F x)
      in laptime_derivative d is_closed F' (recover_time d F' (export_solution d F' ol)))"

text \<open>\<^verbatim>\<open>compute_derivative<is_closed>(car, dissipations)\<close>.\<close>

definition compute_derivative ::
  "dynamic_model \<Rightarrow> solver \<Rightarrow> bool \<Rightarrow> vec \<Rightarrow> optimal_laptime_object
     \<Rightarrow> exception + optimal_laptime_object" where
  "compute_derivative d ipopt is_closed dissipations ol =
     (case vector_front (opt_q ol) of Inl e \<Rightarrow> Inl e
      | Inr q0 \<Rightarrow>
        (case vector_front (opt_qa ol) of Inl e \<Rightarrow> Inl e
         | Inr qa0 \<Rightarrow>
           (case vector_front (opt_u ol) of Inl e \<Rightarrow> Inl e
            | Inr u0 \<Rightarrow>
              (let F = FG_derivative d (opt_n_elements ol) (opt_n_points ol) (opt_s ol) q0 qa0 u0
                         dissipations;
                   result = call_solver_derivative d ipopt is_closed F ol
               in if status result \<noteq> success
                  then Inl (Runtime_error ''Optimization did not succeed'')
                  else Inr (finish_derivative d is_closed F (result_x result) ol)))))"

section \<open>\<^verbatim>\<open>compute\<close> and the constructors\<close>

definition compute ::
  "dynamic_model \<Rightarrow> solver \<Rightarrow> bool \<Rightarrow> bool \<Rightarrow> vec \<Rightarrow> optimal_laptime_object
     \<Rightarrow> exception + optimal_laptime_object" where
  "compute d ipopt is_closed is_direct dissipations ol =
     (if is_direct then compute_direct d ipopt is_closed dissipations ol
      else compute_derivative d ipopt is_closed dissipations ol)"

text \<open>An object whose members have not been assigned: the vectors are empty.\<close>

definition new_object :: optimal_laptime_object where
  "new_object =
     \<lparr>opt_n_elements = 0, opt_n_points = 0, opt_s = [], opt_q = [], opt_qa = [], opt_u = [],
      opt_x_coord = [], opt_y_coord = [], opt_psi = [], opt_laptime = 0\<rparr>"

text \<open>The constructor from a number of elements \<^verbatim>\<open>n\<close>: a uniform mesh.  For an open
  track the last arclength is overwritten by the track length.\<close>

definition Optimal_laptime_uniform ::
  "dynamic_model \<Rightarrow> solver \<Rightarrow> nat \<Rightarrow> bool \<Rightarrow> bool \<Rightarrow> vec \<Rightarrow> vec \<Rightarrow> vec \<Rightarrow> vec
     \<Rightarrow> exception + optimal_laptime_object" where
  "Optimal_laptime_uniform d ipopt n is_closed is_direct q0 qa0 u0 dissipations =
     (let n_elements = n;
          n_points = (if is_closed then n_elements else n_elements + 1);
          L = track_length d;
          ds = L / real n_elements;
          s0 = fold (\<lambda>i s. s[i := real i * ds]) [1..<n_points] (replicate n_points 0);
          s = (if \<not> is_closed then s0[length s0 - 1 := L] else s0)
      in compute d ipopt is_closed is_direct dissipations
           (new_object\<lparr>opt_n_elements := n_elements, opt_n_points := n_points, opt_s := s,
              opt_q := replicate n_points q0, opt_qa := replicate n_points qa0,
              opt_u := replicate n_points u0\<rparr>))"

text \<open>The check of a given mesh that two constructors share.\<close>

definition verify_arclength :: "dynamic_model \<Rightarrow> bool \<Rightarrow> vec \<Rightarrow> exception + unit" where
  "verify_arclength d is_closed s =
     (let L = track_length d in
      if is_closed then
        if \<bar>hd s\<bar> > 1 / 10 ^ 12 then Inl (Runtime_error ''In closed circuits, s[0] should be 0.0'')
        else if last s > L - 1 / 10 ^ 10 then
          Inl (Runtime_error ''In closed circuits, s[end] should be < track_length'')
        else Inr ()
      else
        if s ! 0 < - (1 / 10 ^ 12) then Inl (Runtime_error ''s[0] must be >= 0'')
        else if last s > L then Inl (Runtime_error ''s[end] must be <= L'')
        else Inr ())"

text \<open>The constructor from a mesh (\<^verbatim>\<open>s_\<close> in the source) and one starting state for all nodes.  For a
  closed track it replaces the first and the last arclength by 0 and \<^verbatim>\<open>L\<close>.\<close>

definition Optimal_laptime_mesh ::
  "dynamic_model \<Rightarrow> solver \<Rightarrow> vec \<Rightarrow> bool \<Rightarrow> bool \<Rightarrow> vec \<Rightarrow> vec \<Rightarrow> vec \<Rightarrow> vec
     \<Rightarrow> exception + optimal_laptime_object" where
  "Optimal_laptime_mesh d ipopt s_in is_closed is_direct q0 qa0 u0 dissipations =
     (if length s_in \<le> 1 then Inl (Runtime_error ''Provide at least two values of arclength'')
      else
        (let n_points = length s_in;
             n_elements = (if is_closed then n_points else n_points - 1)
         in case verify_arclength d is_closed s_in of Inl e \<Rightarrow> Inl e
            | Inr _ \<Rightarrow>
              (let s = (if is_closed then (s_in[0 := 0])[length s_in - 1 := track_length d] else s_in)
               in compute d ipopt is_closed is_direct dissipations
                    (new_object\<lparr>opt_n_elements := n_elements, opt_n_points := n_points, opt_s := s,
                       opt_q := replicate n_points q0, opt_qa := replicate n_points qa0,
                       opt_u := replicate n_points u0\<rparr>))))"

text \<open>\<^verbatim>\<open>linspace(a, b, n)\<close> of the numerical library: \<open>n\<close> equally spaced numbers from
  \<open>a\<close> to \<open>b\<close>.\<close>

definition linspace :: "real \<Rightarrow> real \<Rightarrow> nat \<Rightarrow> vec" where
  "linspace a b n = map (\<lambda>i. a + (b - a) * real i / real (n - 1)) [0..<n]"

text \<open>
  The constructor from \<^verbatim>\<open>s_start\<close>, \<^verbatim>\<open>s_finish\<close> and \<^verbatim>\<open>n\<close>.  Its member initialiser
  list names \<^verbatim>\<open>options\<close> only, so the member \<^verbatim>\<open>s\<close> is an empty vector until step (3)
  assigns it; the second check of step (1) reads \<^verbatim>\<open>s.back()\<close>.
\<close>

definition Optimal_laptime_range ::
  "dynamic_model \<Rightarrow> solver \<Rightarrow> real \<Rightarrow> real \<Rightarrow> nat \<Rightarrow> bool \<Rightarrow> vec \<Rightarrow> vec \<Rightarrow> vec \<Rightarrow> vec
     \<Rightarrow> exception + optimal_laptime_object" where
  "Optimal_laptime_range d ipopt s_start s_finish n is_direct q0 qa0 u0 dissipations =
     (let ol = new_object in
      if s_start < - (1 / 10 ^ 12) then Inl (Runtime_error ''s_start must be >= 0'')
      else
        (let L = track_length d in
         case vector_back (opt_s ol) of Inl e \<Rightarrow> Inl e
         | Inr s_back \<Rightarrow>
           if s_back > L then Inl (Runtime_error ''s_finish must be <= L'')
           else
             (let n_elements = n; n_points = n + 1;
                  s = linspace s_start s_finish (n + 1)
              in compute d ipopt False is_direct dissipations
                   (ol\<lparr>opt_n_elements := n_elements, opt_n_points := n_points, opt_s := s,
                      opt_q := replicate n_points q0, opt_qa := replicate n_points qa0,
                      opt_u := replicate n_points u0\<rparr>))))"

text \<open>The constructor from a mesh and one starting state per node.  For a closed track it
  replaces the first arclength by 0.\<close>

definition Optimal_laptime_seeded ::
  "dynamic_model \<Rightarrow> solver \<Rightarrow> vec \<Rightarrow> bool \<Rightarrow> bool \<Rightarrow> vec list \<Rightarrow> vec list \<Rightarrow> vec list \<Rightarrow> vec
     \<Rightarrow> exception + optimal_laptime_object" where
  "Optimal_laptime_seeded d ipopt s_in is_closed is_direct q0 qa0 u0 dissipations =
     (if length s_in \<le> 1 then Inl (Runtime_error ''Provide at least two values of arclength'')
      else
        (let n_points = length s_in;
             n_elements = (if is_closed then n_points else n_points - 1)
         in case verify_arclength d is_closed s_in of Inl e \<Rightarrow> Inl e
            | Inr _ \<Rightarrow>
              (let s = (if is_closed then s_in[0 := 0] else s_in)
               in if length q0 \<noteq> n_points then Inl (Runtime_error ''q0 must have size of n_points'')
                  else if length qa0 \<noteq> n_points then
                    Inl (Runtime_error ''qa0 must have size of n_points'')
                  else if length u0 \<noteq> n_points then
                    Inl (Runtime_error ''u0 must have size of n_points'')
                  else
                    compute d ipopt is_closed is_direct dissipations
                      (new_object\<lparr>opt_n_elements := n_elements, opt_n_points := n_points,
                         opt_s := s, opt_q := q0, opt_qa := qa0, opt_u := u0\<rparr>))))"

section \<open>The layout of the variables and of the constraints\<close>

text \<open>
  The definitions of this section are not in the sources: they say where a state of a
  node sits in the vector of the variables and where a constraint of an element sits in
  the vector of the constraints, and they list what one turn of each loop writes.  The
  lemmas below prove that the loops of the sources produce this layout.

  A state \<open>j\<close> other than the time is the \<open>j\<close>-th free state of its node when it
  comes before the time, and the \<open>(j - 1)\<close>-th otherwise.
\<close>

definition position_without_time :: "dynamic_model \<Rightarrow> nat \<Rightarrow> nat" where
  "position_without_time d j = (if j < ITIME d then j else j - 1)"

definition variables_per_node :: "dynamic_model \<Rightarrow> bool \<Rightarrow> nat" where
  "variables_per_node d direct =
     NSTATE d - 1 + NALGEBRAIC d + NCONTROL d + (if direct then 0 else NCONTROL d)"

definition variable_index :: "dynamic_model \<Rightarrow> bool \<Rightarrow> bool \<Rightarrow> nat \<Rightarrow> nat \<Rightarrow> nat" where
  "variable_index d clo direct i j =
     (i - offset clo) * variables_per_node d direct + position_without_time d j"

definition constraints_per_element :: "dynamic_model \<Rightarrow> bool \<Rightarrow> nat" where
  "constraints_per_element d direct =
     NSTATE d - 1 + NALGEBRAIC d + N_OL_EXTRA_CONSTRAINTS d + (if direct then 0 else NCONTROL d)"

text \<open>The constraint of element \<open>i \<ge> 1\<close> and state \<open>j\<close>, counted from the first
  constraint (which is \<^verbatim>\<open>fg[1]\<close>, \<^verbatim>\<open>c_lb[0]\<close> and \<^verbatim>\<open>c_ub[0]\<close>).\<close>

definition constraint_index :: "dynamic_model \<Rightarrow> bool \<Rightarrow> nat \<Rightarrow> nat \<Rightarrow> nat" where
  "constraint_index d direct i j =
     (i - 1) * constraints_per_element d direct + position_without_time d j"

text \<open>What one turn of the loops of \<^verbatim>\<open>compute_direct\<close> and \<^verbatim>\<open>compute_derivative\<close>
  writes: the starting values, the lower and the upper bounds of the variables of a node,
  and the lower and the upper bounds of the constraints.\<close>

definition node_start :: "dynamic_model \<Rightarrow> bool \<Rightarrow> optimal_laptime_object \<Rightarrow> nat \<Rightarrow> vec" where
  "node_start d direct ol i =
     map (\<lambda>j. opt_q ol ! i ! j) [0..<ITIME d] @ [opt_q ol ! i ! IN d]
       @ map (\<lambda>j. opt_q ol ! i ! j) [IN d + 1..<NSTATE d]
       @ map (\<lambda>j. opt_qa ol ! i ! j) [0..<NALGEBRAIC d]
       @ map (\<lambda>j. opt_u ol ! i ! j) [0..<NCONTROL d]
       @ (if direct then [] else map (\<lambda>j. 0) [0..<NCONTROL d])"

definition node_lower_bounds :: "dynamic_model \<Rightarrow> bool \<Rightarrow> optimal_laptime_object \<Rightarrow> nat \<Rightarrow> vec" where
  "node_lower_bounds d direct ol i =
     map (\<lambda>j. fst (optimal_laptime_state_bounds d) ! j) [0..<ITIME d]
       @ [- get_left_track_limit d (opt_s ol ! i)]
       @ map (\<lambda>j. fst (optimal_laptime_state_bounds d) ! j) [IN d + 1..<NSTATE d]
       @ map (\<lambda>j. fst (optimal_laptime_algebraic_state_bounds d) ! j) [0..<NALGEBRAIC d]
       @ map (\<lambda>j. fst (optimal_laptime_control_bounds d) ! j) [0..<NCONTROL d]
       @ (if direct then []
          else map (\<lambda>j. fst (snd (snd (optimal_laptime_control_bounds d))) ! j) [0..<NCONTROL d])"

definition node_upper_bounds :: "dynamic_model \<Rightarrow> bool \<Rightarrow> optimal_laptime_object \<Rightarrow> nat \<Rightarrow> vec" where
  "node_upper_bounds d direct ol i =
     map (\<lambda>j. snd (optimal_laptime_state_bounds d) ! j) [0..<ITIME d]
       @ [get_right_track_limit d (opt_s ol ! i)]
       @ map (\<lambda>j. snd (optimal_laptime_state_bounds d) ! j) [IN d + 1..<NSTATE d]
       @ map (\<lambda>j. snd (optimal_laptime_algebraic_state_bounds d) ! j) [0..<NALGEBRAIC d]
       @ map (\<lambda>j. fst (snd (optimal_laptime_control_bounds d)) ! j) [0..<NCONTROL d]
       @ (if direct then []
          else map (\<lambda>j. snd (snd (snd (optimal_laptime_control_bounds d))) ! j) [0..<NCONTROL d])"

definition element_lower_bounds :: "dynamic_model \<Rightarrow> bool \<Rightarrow> vec" where
  "element_lower_bounds d direct =
     map (\<lambda>j. 0) [0..<ITIME d] @ [0] @ map (\<lambda>j. 0) [IN d + 1..<NSTATE d]
       @ map (\<lambda>j. 0) [0..<NALGEBRAIC d]
       @ map (\<lambda>j. fst (optimal_laptime_extra_constraints_bounds d) ! j) [0..<N_OL_EXTRA_CONSTRAINTS d]
       @ (if direct then [] else map (\<lambda>j. 0) [0..<NCONTROL d])"

definition element_upper_bounds :: "dynamic_model \<Rightarrow> bool \<Rightarrow> vec" where
  "element_upper_bounds d direct =
     map (\<lambda>j. 0) [0..<ITIME d] @ [0] @ map (\<lambda>j. 0) [IN d + 1..<NSTATE d]
       @ map (\<lambda>j. 0) [0..<NALGEBRAIC d]
       @ map (\<lambda>j. snd (optimal_laptime_extra_constraints_bounds d) ! j) [0..<N_OL_EXTRA_CONSTRAINTS d]
       @ (if direct then [] else map (\<lambda>j. 0) [0..<NCONTROL d])"

text \<open>What one turn of the loop over the elements of \<^verbatim>\<open>operator()\<close> writes into
  \<^verbatim>\<open>fg\<close>, after the objective.\<close>

definition element_constraints :: "dynamic_model \<Rightarrow> bool \<Rightarrow> FG \<Rightarrow> nat \<Rightarrow> vec" where
  "element_constraints d direct F i =
     map (state_defect d F i) [0..<ITIME d] @ map (state_defect d F i) [ITIME d + 1..<NSTATE d]
       @ map (\<lambda>j. dqa d F i ! j) [0..<NALGEBRAIC d]
       @ (if direct
          then map (\<lambda>j. optimal_laptime_extra_constraints d (fg_q F ! i) (fg_qa F ! i) (fg_u F ! i)
                           (fg_s F ! i) ! j) [0..<N_OL_EXTRA_CONSTRAINTS d]
          else map (\<lambda>j. tire_slips d (fg_q F ! i) (fg_qa F ! i) (fg_u F ! i) (fg_s F ! i) ! j) [0..<6]
                 @ map (control_defect d F i) [0..<NCONTROL d])"

text \<open>The vector of the constraints without the objective, with the index moved by
  one.\<close>

definition constraints_view :: "nat \<times> vec \<Rightarrow> nat \<times> vec" where
  "constraints_view c = (fst c - 1, tl (snd c))"

section \<open>The tables of \<^verbatim>\<open>fastestlapc.cpp\<close>\<close>

text \<open>
  The five process-wide \<^verbatim>\<open>std::unordered_map\<close>s are the fields of one record that
  every operation takes and returns.  The vehicle and track classes are not part of the
  sources at hand, so their values are type parameters (\<open>'k\<close> for
  \<^verbatim>\<open>lot2016kart_all\<close>, \<open>'f\<close> for \<^verbatim>\<open>limebeer2014f1_all\<close>, \<open>'t\<close> for
  \<^verbatim>\<open>Track_by_polynomial\<close>); \<^verbatim>\<open>scalar\<close> is \<^verbatim>\<open>double\<close>, modelled by \<open>real\<close>.
\<close>

record ('k, 'f, 't) tables =
  table_kart_6dof :: "string \<rightharpoonup> 'k"
  table_f1_3dof :: "string \<rightharpoonup> 'f"
  table_track :: "string \<rightharpoonup> 't"
  table_scalar :: "string \<rightharpoonup> real"
  table_vector :: "string \<rightharpoonup> real list"

text \<open>\<^verbatim>\<open>m.count(k)\<close>, \<^verbatim>\<open>m.insert({k, v})\<close> (which keeps an entry that is already
  there), \<^verbatim>\<open>m.at(k)\<close> (which throws \<^verbatim>\<open>std::out_of_range\<close>) and \<^verbatim>\<open>m.erase(k)\<close>.\<close>

definition count_entry :: "(string \<rightharpoonup> 'a) \<Rightarrow> string \<Rightarrow> nat" where
  "count_entry m k = (case m k of None \<Rightarrow> 0 | Some _ \<Rightarrow> 1)"

definition insert_entry :: "string \<Rightarrow> 'a \<Rightarrow> (string \<rightharpoonup> 'a) \<Rightarrow> (string \<rightharpoonup> 'a)" where
  "insert_entry k v m = (case m k of None \<Rightarrow> m(k \<mapsto> v) | Some _ \<Rightarrow> m)"

definition at_entry :: "(string \<rightharpoonup> 'a) \<Rightarrow> string \<Rightarrow> exception + 'a" where
  "at_entry m k = (case m k of None \<Rightarrow> Inl Out_of_range | Some v \<Rightarrow> Inr v)"

definition erase_entry :: "string \<Rightarrow> (string \<rightharpoonup> 'a) \<Rightarrow> (string \<rightharpoonup> 'a)" where
  "erase_entry k m = m(k := None)"

definition check_variable_exists_in_tables ::
  "('k, 'f, 't) tables \<Rightarrow> string \<Rightarrow> exception + unit" where
  "check_variable_exists_in_tables T name =
     (if count_entry (table_kart_6dof T) name \<noteq> 0 then Inl (Already_exists ''kart-6dof'' name)
      else if count_entry (table_f1_3dof T) name \<noteq> 0 then Inl (Already_exists ''f1-3dof'' name)
      else if count_entry (table_track T) name \<noteq> 0 then Inl (Already_exists ''Track'' name)
      else if count_entry (table_scalar T) name \<noteq> 0 then Inl (Already_exists ''Scalar'' name)
      else if count_entry (table_vector T) name \<noteq> 0 then Inl (Already_exists ''Vector'' name)
      else Inr ())"

text \<open>In each branch \<^verbatim>\<open>table.at(old_name)\<close> is guarded by \<^verbatim>\<open>table.count(old_name) != 0\<close>;
  the model keeps the guard and the lookup apart, as the source does.\<close>

definition copy_entry :: "string \<Rightarrow> string \<Rightarrow> (string \<rightharpoonup> 'a) \<Rightarrow> exception + (string \<rightharpoonup> 'a)" where
  "copy_entry old_name new_name m =
     (case at_entry m old_name of Inl e \<Rightarrow> Inl e | Inr v \<Rightarrow> Inr (insert_entry new_name v m))"

definition move_entry :: "string \<Rightarrow> string \<Rightarrow> (string \<rightharpoonup> 'a) \<Rightarrow> exception + (string \<rightharpoonup> 'a)" where
  "move_entry old_name new_name m =
     (case at_entry m old_name of Inl e \<Rightarrow> Inl e
      | Inr v \<Rightarrow> Inr (erase_entry old_name (insert_entry new_name v m)))"

definition copy_variable ::
  "('k, 'f, 't) tables \<Rightarrow> string \<Rightarrow> string \<Rightarrow> exception + ('k, 'f, 't) tables" where
  "copy_variable T old_name new_name =
     (case check_variable_exists_in_tables T new_name of Inl e \<Rightarrow> Inl e
      | Inr _ \<Rightarrow>
        if count_entry (table_kart_6dof T) old_name \<noteq> 0 then
          map_sum id (\<lambda>m. T\<lparr>table_kart_6dof := m\<rparr>) (copy_entry old_name new_name (table_kart_6dof T))
        else if count_entry (table_f1_3dof T) old_name \<noteq> 0 then
          map_sum id (\<lambda>m. T\<lparr>table_f1_3dof := m\<rparr>) (copy_entry old_name new_name (table_f1_3dof T))
        else if count_entry (table_track T) old_name \<noteq> 0 then
          map_sum id (\<lambda>m. T\<lparr>table_track := m\<rparr>) (copy_entry old_name new_name (table_track T))
        else if count_entry (table_vector T) old_name \<noteq> 0 then
          map_sum id (\<lambda>m. T\<lparr>table_vector := m\<rparr>) (copy_entry old_name new_name (table_vector T))
        else if count_entry (table_scalar T) old_name \<noteq> 0 then
          map_sum id (\<lambda>m. T\<lparr>table_scalar := m\<rparr>) (copy_entry old_name new_name (table_scalar T))
        else Inl (Does_not_exist old_name))"

definition move_variable ::
  "('k, 'f, 't) tables \<Rightarrow> string \<Rightarrow> string \<Rightarrow> exception + ('k, 'f, 't) tables" where
  "move_variable T old_name new_name =
     (case check_variable_exists_in_tables T new_name of Inl e \<Rightarrow> Inl e
      | Inr _ \<Rightarrow>
        if count_entry (table_kart_6dof T) old_name \<noteq> 0 then
          map_sum id (\<lambda>m. T\<lparr>table_kart_6dof := m\<rparr>) (move_entry old_name new_name (table_kart_6dof T))
        else if count_entry (table_f1_3dof T) old_name \<noteq> 0 then
          map_sum id (\<lambda>m. T\<lparr>table_f1_3dof := m\<rparr>) (move_entry old_name new_name (table_f1_3dof T))
        else if count_entry (table_track T) old_name \<noteq> 0 then
          map_sum id (\<lambda>m. T\<lparr>table_track := m\<rparr>) (move_entry old_name new_name (table_track T))
        else if count_entry (table_vector T) old_name \<noteq> 0 then
          map_sum id (\<lambda>m. T\<lparr>table_vector := m\<rparr>) (move_entry old_name new_name (table_vector T))
        else if count_entry (table_scalar T) old_name \<noteq> 0 then
          map_sum id (\<lambda>m. T\<lparr>table_scalar := m\<rparr>) (move_entry old_name new_name (table_scalar T))
        else Inl (Does_not_exist old_name))"

definition n_ocurrences :: "('k, 'f, 't) tables \<Rightarrow> string \<Rightarrow> nat" where
  "n_ocurrences T variable_name =
     count_entry (table_kart_6dof T) variable_name + count_entry (table_f1_3dof T) variable_name
     + count_entry (table_track T) variable_name + count_entry (table_vector T) variable_name
     + count_entry (table_scalar T) variable_name"

definition delete_variable ::
  "('k, 'f, 't) tables \<Rightarrow> string \<Rightarrow> exception + ('k, 'f, 't) tables" where
  "delete_variable T variable_name =
     (if n_ocurrences T variable_name > 1 then Inl (Multiply_defined variable_name)
      else if count_entry (table_kart_6dof T) variable_name \<noteq> 0 then
        Inr (T\<lparr>table_kart_6dof := erase_entry variable_name (table_kart_6dof T)\<rparr>)
      else if count_entry (table_f1_3dof T) variable_name \<noteq> 0 then
        Inr (T\<lparr>table_f1_3dof := erase_entry variable_name (table_f1_3dof T)\<rparr>)
      else if count_entry (table_track T) variable_name \<noteq> 0 then
        Inr (T\<lparr>table_track := erase_entry variable_name (table_track T)\<rparr>)
      else if count_entry (table_vector T) variable_name \<noteq> 0 then
        Inr (T\<lparr>table_vector := erase_entry variable_name (table_vector T)\<rparr>)
      else if count_entry (table_scalar T) variable_name \<noteq> 0 then
        Inr (T\<lparr>table_scalar := erase_entry variable_name (table_scalar T)\<rparr>)
      else Inl (Does_not_exist variable_name))"

text \<open>The sequence \<^verbatim>\<open>copy_variable(x, y); move_variable(y, z); delete_variable(z)\<close>: an
  exception in one call leaves the later calls undone.\<close>

definition copy_move_delete ::
  "('k, 'f, 't) tables \<Rightarrow> string \<Rightarrow> string \<Rightarrow> string \<Rightarrow> exception + ('k, 'f, 't) tables" where
  "copy_move_delete T x y z =
     (case copy_variable T x y of Inl e \<Rightarrow> Inl e
      | Inr T1 \<Rightarrow> (case move_variable T1 y z of Inl e \<Rightarrow> Inl e
                  | Inr T2 \<Rightarrow> delete_variable T2 z))"

section \<open>Collaborators of the C interface\<close>

text \<open>
  \<^verbatim>\<open>fastestlapc.cpp\<close> calls code that is not among the sources at hand: the XML
  library, the vehicle classes, the steady-state solver and the optimal-laptime solver
  of its own release.  Each of them enters the model as a parameter, so every statement
  proved below holds whatever these collaborators compute.
\<close>

datatype vehicle_type = Lot2016kart | Limebeer2014f1

text \<open>
  An \<^verbatim>\<open>Xml_document\<close> that has been parsed, seen through the calls the interface makes:
  \<^verbatim>\<open>has_element(path)\<close>, \<^verbatim>\<open>get_element(path).get_value(T())\<close> for the types \<open>T\<close> that
  occur, \<^verbatim>\<open>get_attribute\<close> and the names of \<^verbatim>\<open>get_children()\<close>.  What the library does
  for a path that is missing is whatever the document's accessor returns.
\<close>

record xml_document =
  has_element :: "string \<Rightarrow> bool"
  get_bool :: "string \<Rightarrow> exception + bool"
  get_int :: "string \<Rightarrow> exception + int"
  get_scalar :: "string \<Rightarrow> exception + real"
  get_vector :: "string \<Rightarrow> exception + real list"
  get_string :: "string \<Rightarrow> exception + string"
  get_attribute :: "string \<Rightarrow> string \<Rightarrow> exception + string"
  get_children :: "string \<Rightarrow> exception + string list"

text \<open>\<^verbatim>\<open>struct Optimal_laptime_configuration\<close>; the arrays of size \<^verbatim>\<open>NCONTROL\<close>,
  \<^verbatim>\<open>NSTATE\<close> and \<^verbatim>\<open>NALGEBRAIC\<close> are lists.\<close>

record configuration =
  warm_start :: bool
  save_warm_start :: bool
  write_xml :: bool
  xml_file_name :: string
  print_level :: nat
  steady_state_speed :: real
  is_direct :: bool
  is_closed :: bool
  set_initial_condition :: bool
  compute_sensitivity :: bool
  sigma :: real
  output_variables_prefix :: string
  variables_to_save :: "string list"
  integral_constraints :: "(string \<times> real \<times> real) list"
  control_type :: "string list"
  dissipations :: "real list"
  hypermeshes :: "real list list"
  q_start :: "real list"
  qa_start :: "real list"
  u_start :: "real list"

definition get_default_is_direct :: "vehicle_type \<Rightarrow> bool" where
  "get_default_is_direct vt = (case vt of Limebeer2014f1 \<Rightarrow> True | Lot2016kart \<Rightarrow> False)"

definition get_default_control_types :: "vehicle_type \<Rightarrow> string list" where
  "get_default_control_types vt =
     (case vt of Limebeer2014f1 \<Rightarrow> [''full-mesh'', ''full-mesh'', ''dont optimize'']
      | Lot2016kart \<Rightarrow> [''full-mesh'', ''full-mesh''])"

definition get_default_dissipations :: "vehicle_type \<Rightarrow> real list" where
  "get_default_dissipations vt =
     (case vt of Limebeer2014f1 \<Rightarrow> [5, 8 / 10000, 0]
      | Lot2016kart \<Rightarrow> [1 / 100, 200 * 200 * (1 / 10 ^ 10)])"

text \<open>The default member initialisers of the struct.  The three starting arrays have
  no initialiser; they are read only after the constructor has filled them.\<close>

definition default_configuration :: "vehicle_type \<Rightarrow> configuration" where
  "default_configuration vt =
     \<lparr>warm_start = False, save_warm_start = False, write_xml = False,
      xml_file_name = ''optimal_laptime.xml'', print_level = 0, steady_state_speed = 50,
      is_direct = get_default_is_direct vt, is_closed = True, set_initial_condition = False,
      compute_sensitivity = False, sigma = 1 / 2, output_variables_prefix = ''run/'',
      variables_to_save = [], integral_constraints = [],
      control_type = get_default_control_types vt,
      dissipations = get_default_dissipations vt,
      hypermeshes = replicate (length (get_default_control_types vt)) [],
      q_start = [], qa_start = [], u_start = []\<rparr>"

text \<open>A statement of the form \<^verbatim>\<open>if (present) field = value;\<close> where reading \<open>value\<close>
  may throw.\<close>

definition read_if :: "bool \<Rightarrow> exception + 'a \<Rightarrow> ('a \<Rightarrow> 'c \<Rightarrow> 'c) \<Rightarrow> 'c \<Rightarrow> exception + 'c" where
  "read_if present val upd c =
     (if present then (case val of Inl e \<Rightarrow> Inl e | Inr v \<Rightarrow> Inr (upd v c)) else Inr c)"

text \<open>Statements in sequence; the first exception ends the sequence.\<close>

fun run_steps :: "('c \<Rightarrow> exception + 'c) list \<Rightarrow> 'c \<Rightarrow> exception + 'c" where
  "run_steps [] c = Inr c"
| "run_steps (f # fs) c = (case f c of Inl e \<Rightarrow> Inl e | Inr c' \<Rightarrow> run_steps fs c')"

definition read_xml_file_name :: "xml_document \<Rightarrow> configuration \<Rightarrow> exception + configuration" where
  "read_xml_file_name doc c =
     read_if (write_xml c) (get_string doc ''options/xml_file_name'')
       (\<lambda>v c. c\<lparr>xml_file_name := v\<rparr>) c"

definition read_output_variables :: "xml_document \<Rightarrow> configuration \<Rightarrow> exception + configuration" where
  "read_output_variables doc c =
     (if has_element doc ''options/output_variables'' then
        (case get_string doc ''options/output_variables/prefix'' of Inl e \<Rightarrow> Inl e
         | Inr p \<Rightarrow>
           (case get_children doc ''options/output_variables/variables'' of Inl e \<Rightarrow> Inl e
            | Inr vs \<Rightarrow> Inr (c\<lparr>output_variables_prefix := p, variables_to_save := vs\<rparr>)))
      else Inr c)"

text \<open>The line under study in claim C3: the test names \<^verbatim>\<open>options/steady_state_speed\<close>,
  the read names \<^verbatim>\<open>options/initial_speed\<close>.\<close>

definition read_steady_state_speed :: "xml_document \<Rightarrow> configuration \<Rightarrow> exception + configuration" where
  "read_steady_state_speed doc c =
     read_if (has_element doc ''options/steady_state_speed'')
       (get_scalar doc ''options/initial_speed'') (\<lambda>v c. c\<lparr>steady_state_speed := v\<rparr>) c"

text \<open>The starting point of an open simulation is taken from three entries of
  \<^verbatim>\<open>table_vector\<close>, named by the attribute \<^verbatim>\<open>from_table\<close>.\<close>

definition from_table :: "xml_document \<Rightarrow> (string \<rightharpoonup> real list) \<Rightarrow> string \<Rightarrow> exception + real list" where
  "from_table doc tv path =
     (case get_attribute doc path ''from_table'' of Inl e \<Rightarrow> Inl e | Inr name \<Rightarrow> at_entry tv name)"

definition read_initial_condition ::
  "xml_document \<Rightarrow> (string \<rightharpoonup> real list) \<Rightarrow> configuration \<Rightarrow> exception + configuration" where
  "read_initial_condition doc tv c =
     (if \<not> is_closed c then
        if \<not> has_element doc ''options/initial_condition'' then
          Inl (Fastest_lap_exception ''For open simulations, the initial condition must be provided'')
        else
          (case from_table doc tv ''options/initial_condition/q'' of Inl e \<Rightarrow> Inl e
           | Inr vq \<Rightarrow>
             (case from_table doc tv ''options/initial_condition/qa'' of Inl e \<Rightarrow> Inl e
              | Inr vqa \<Rightarrow>
                (case from_table doc tv ''options/initial_condition/u'' of Inl e \<Rightarrow> Inl e
                 | Inr vu \<Rightarrow>
                   Inr (c\<lparr>set_initial_condition := True, q_start := vq, qa_start := vqa,
                          u_start := vu\<rparr>))))
      else Inr c)"

text \<open>\<^verbatim>\<open>std::find\<close> followed by \<^verbatim>\<open>std::distance\<close>: the first position of a name.\<close>

fun find_index_of :: "string \<Rightarrow> string list \<Rightarrow> nat option" where
  "find_index_of x [] = None"
| "find_index_of x (y # ys) =
     (if x = y then Some 0 else map_option Suc (find_index_of x ys))"

definition read_control_variable ::
  "xml_document \<Rightarrow> string list \<Rightarrow> string \<Rightarrow> configuration \<Rightarrow> exception + configuration" where
  "read_control_variable doc u_names variable c =
     (case find_index_of variable u_names of
        None \<Rightarrow> Inl (Fastest_lap_exception ''Control variable is not recognized'')
      | Some i_control \<Rightarrow>
        (case get_attribute doc (''options/control_variables/'' @ variable) ''type'' of
           Inl e \<Rightarrow> Inl e
         | Inr ty \<Rightarrow>
           (let c1 = c\<lparr>control_type := (control_type c)[i_control := ty]\<rparr> in
            if ty = ''dont optimize'' then Inr c1
            else if ty = ''constant'' then Inl (Fastest_lap_exception ''To be implemented'')
            else if ty = ''hypermesh'' then
              (case get_vector doc (''options/control_variables/'' @ variable @ ''/hypermesh'') of
                 Inl e \<Rightarrow> Inl e
               | Inr h \<Rightarrow> Inr (c1\<lparr>hypermeshes := (hypermeshes c1)[i_control := h]\<rparr>))
            else if ty = ''full-mesh'' then
              read_if (has_element doc (''options/control_variables/'' @ variable @ ''/dissipation''))
                (get_scalar doc (''options/control_variables/'' @ variable @ ''/dissipation''))
                (\<lambda>v c. c\<lparr>dissipations := (dissipations c)[i_control := v]\<rparr>) c1
            else Inl (Fastest_lap_exception ''Optimal control type not recognized''))))"

definition read_control_variables ::
  "xml_document \<Rightarrow> string list \<Rightarrow> configuration \<Rightarrow> exception + configuration" where
  "read_control_variables doc u_names c =
     (if has_element doc ''options/control_variables'' then
        (case get_children doc ''options/control_variables'' of Inl e \<Rightarrow> Inl e
         | Inr vs \<Rightarrow> run_steps (map (read_control_variable doc u_names) vs) c)
      else Inr c)"

definition read_integral_constraint ::
  "xml_document \<Rightarrow> string \<Rightarrow> configuration \<Rightarrow> exception + configuration" where
  "read_integral_constraint doc variable c =
     (case get_scalar doc (''options/integral_constraints/'' @ variable @ ''/lower_bound'') of
        Inl e \<Rightarrow> Inl e
      | Inr lo \<Rightarrow>
        (case get_scalar doc (''options/integral_constraints/'' @ variable @ ''/upper_bound'') of
           Inl e \<Rightarrow> Inl e
         | Inr up \<Rightarrow> Inr (c\<lparr>integral_constraints := integral_constraints c @ [(variable, lo, up)]\<rparr>)))"

definition read_integral_constraints ::
  "xml_document \<Rightarrow> configuration \<Rightarrow> exception + configuration" where
  "read_integral_constraints doc c =
     (if has_element doc ''options/integral_constraints'' then
        (case get_children doc ''options/integral_constraints'' of Inl e \<Rightarrow> Inl e
         | Inr vs \<Rightarrow> run_steps (map (read_integral_constraint doc) vs) c)
      else Inr c)"

text \<open>
  The constructor \<^verbatim>\<open>Optimal_laptime_configuration(const char* options)\<close>.  The options
  are \<open>None\<close> for the empty string and the parsed document otherwise;
  \<open>u_names\<close> stands for the control names of the vehicle class and \<open>tv\<close> is
  \<^verbatim>\<open>table_vector\<close>.
\<close>

definition Optimal_laptime_configuration ::
  "vehicle_type \<Rightarrow> string list \<Rightarrow> (string \<rightharpoonup> real list) \<Rightarrow> xml_document option
     \<Rightarrow> exception + configuration" where
  "Optimal_laptime_configuration vt u_names tv options =
     (case options of
        None \<Rightarrow> Inr (default_configuration vt)
      | Some doc \<Rightarrow>
        run_steps
          [read_if (has_element doc ''options/warm_start'') (get_bool doc ''options/warm_start'')
             (\<lambda>v c. c\<lparr>warm_start := v\<rparr>),
           read_if (has_element doc ''options/save_warm_start'')
             (get_bool doc ''options/save_warm_start'') (\<lambda>v c. c\<lparr>save_warm_start := v\<rparr>),
           read_if (has_element doc ''options/write_xml'') (get_bool doc ''options/write_xml'')
             (\<lambda>v c. c\<lparr>write_xml := v\<rparr>),
           read_xml_file_name doc,
           read_if (has_element doc ''options/print_level'') (get_int doc ''options/print_level'')
             (\<lambda>v c. c\<lparr>print_level := nat (v mod 2 ^ 64)\<rparr>),
           read_output_variables doc,
           read_steady_state_speed doc,
           read_if (has_element doc ''options/closed_simulation'')
             (get_bool doc ''options/closed_simulation'') (\<lambda>v c. c\<lparr>is_closed := v\<rparr>),
           read_initial_condition doc tv,
           read_if (has_element doc ''options/sigma'') (get_scalar doc ''options/sigma'')
             (\<lambda>v c. c\<lparr>sigma := v\<rparr>),
           read_if (has_element doc ''options/compute_sensitivity'')
             (get_bool doc ''options/compute_sensitivity'') (\<lambda>v c. c\<lparr>compute_sensitivity := v\<rparr>),
           read_control_variables doc u_names,
           read_integral_constraints doc]
          (default_configuration vt))"

section \<open>Operations of the C interface\<close>

text \<open>\<^verbatim>\<open>Steady_state::solve\<close> returns a state, an algebraic state and a control.\<close>

record steady_state_solution =
  ss_q :: "real list"
  ss_qa :: "real list"
  ss_u :: "real list"

text \<open>
  What \<^verbatim>\<open>compute_optimal_laptime\<close> reads from the solved \<^verbatim>\<open>Optimal_laptime\<close> object:
  the lap time, its derivatives with respect to the parameters, the values of the
  integral quantities, the value of a named output at node \<open>i\<close> (the long chain of
  comparisons of \<^verbatim>\<open>variable_name\<close> decides which names exist; the number comes from the
  vehicle evaluated at the solution) and the two derivative arrays that are exported.
\<close>

record optimal_laptime_output =
  ol_laptime :: real
  ol_dlaptimedp :: "real list"
  ol_integral_quantities :: "real list"
  ol_node_value :: "string \<Rightarrow> nat \<Rightarrow> real"
  ol_dqdp_u :: "nat \<Rightarrow> nat \<Rightarrow> real"
  ol_dqdp_time :: "nat \<Rightarrow> nat \<Rightarrow> real"

text \<open>What \<^verbatim>\<open>circuit_preprocessor\<close> reads from a \<^verbatim>\<open>Circuit_preprocessor\<close> object; a
  position is the pair of its \<open>x\<close> and \<open>y\<close>.\<close>

record circuit =
  cp_s :: "real list"
  cp_r_centerline :: "(real \<times> real) list"
  cp_r_left :: "(real \<times> real) list"
  cp_r_right :: "(real \<times> real) list"
  cp_r_left_measured :: "(real \<times> real) list"
  cp_r_right_measured :: "(real \<times> real) list"
  cp_kappa :: "real list"
  cp_nl :: "real list"
  cp_nr :: "real list"

datatype mode = EQUALLY_SPACED | REFINED

text \<open>\<^verbatim>\<open>struct Circuit_preprocessor_configuration\<close>.  Four of its fields bear the name
  of a field of \<open>configuration\<close> in the source and carry the prefix \<open>cp\<close> here.\<close>

record circuit_preprocessor_configuration =
  kml_file_left :: string
  kml_file_right :: string
  cp_mode :: mode
  clockwise :: bool
  cp_is_closed :: bool
  n_el :: nat
  s_distribution :: "real list"
  ds_distribution :: "real list"
  eps_d :: real
  eps_k :: real
  eps_n :: real
  eps_c :: real
  maximum_kappa :: real
  maximum_dkappa :: real
  maximum_dn :: real
  maximum_distance_find :: real
  adaption_aspect_ratio_max :: real
  cp_print_level :: int
  save_to_table :: bool
  save_as_xml :: bool
  output_variables_to_table :: bool
  cp_xml_file_name :: string
  cp_output_variables_prefix :: string
  insert_table_name :: string

text \<open>The collaborators.  Vehicles of both kinds have one type \<open>'v\<close> here and the
  vehicle kind is passed along; \<open>KMH\<close> is the unit constant of the numerical library.\<close>

record ('v, 't) collaborators =
  KMH :: real
  change_track :: "'v \<Rightarrow> 't \<Rightarrow> 'v"
  set_parameter :: "'v \<Rightarrow> string \<Rightarrow> real \<Rightarrow> exception + 'v"
  get_u_names :: "vehicle_type \<Rightarrow> string list"
  get_all_parameters_aliases :: "'v \<Rightarrow> string list"
  integral_quantities_names :: "vehicle_type \<Rightarrow> string list"
  steady_state_solve ::
    "vehicle_type \<Rightarrow> 'v \<Rightarrow> real \<Rightarrow> real \<Rightarrow> real \<Rightarrow> exception + steady_state_solution"
  steady_state_gg_diagram ::
    "vehicle_type \<Rightarrow> 'v \<Rightarrow> real \<Rightarrow> nat \<Rightarrow> exception + ((real \<times> real) list \<times> (real \<times> real) list)"
  construct_optimal_laptime ::
    "vehicle_type \<Rightarrow> 'v \<Rightarrow> real list \<Rightarrow> configuration \<Rightarrow> steady_state_solution
       \<Rightarrow> exception + optimal_laptime_output"
  read_kml_files :: "string \<Rightarrow> string \<Rightarrow> exception + unit"
  construct_circuit_preprocessor :: "circuit_preprocessor_configuration \<Rightarrow> exception + circuit"
  track_of_circuit :: "circuit \<Rightarrow> 't"

text \<open>An operation that writes to the tables before it may throw returns the tables it
  leaves together with the exception, if there is one.\<close>

fun run_writes :: "('s \<Rightarrow> 's \<times> exception option) list \<Rightarrow> 's \<Rightarrow> 's \<times> exception option" where
  "run_writes [] T = (T, None)"
| "run_writes (f # fs) T =
     (case f T of (T', None) \<Rightarrow> run_writes fs T' | (T', Some e) \<Rightarrow> (T', Some e))"

subsection \<open>\<^verbatim>\<open>vehicle_set_parameter\<close> and \<^verbatim>\<open>gg_diagram\<close>\<close>

definition vehicle_set_parameter ::
  "('v, 't) collaborators \<Rightarrow> ('v, 'v, 't) tables \<Rightarrow> string \<Rightarrow> string \<Rightarrow> real
     \<Rightarrow> exception + ('v, 'v, 't) tables" where
  "vehicle_set_parameter col T vehicle_name parameter val =
     (if count_entry (table_f1_3dof T) vehicle_name \<noteq> 0 then
        (case at_entry (table_f1_3dof T) vehicle_name of Inl e \<Rightarrow> Inl e
         | Inr vehicle \<Rightarrow>
           (case set_parameter col vehicle parameter val of Inl e \<Rightarrow> Inl e
            | Inr vehicle' \<Rightarrow>
              Inr (T\<lparr>table_f1_3dof := (table_f1_3dof T)(vehicle_name \<mapsto> vehicle')\<rparr>)))
      else Inr T)"

text \<open>\<^verbatim>\<open>compute_gg_diagram\<close> fills the first \<^verbatim>\<open>n_points\<close> entries of the three output
  arrays; the model returns what was written.\<close>

definition compute_gg_diagram ::
  "('v, 't) collaborators \<Rightarrow> vehicle_type \<Rightarrow> 'v \<Rightarrow> real \<Rightarrow> nat
     \<Rightarrow> exception + (real list \<times> real list \<times> real list)" where
  "compute_gg_diagram col vt car v n_points =
     (case steady_state_gg_diagram col vt car v n_points of Inl e \<Rightarrow> Inl e
      | Inr (sol_max, sol_min) \<Rightarrow>
        Inr (map (\<lambda>i. fst (sol_max ! i)) [0..<n_points],
             map (\<lambda>i. snd (sol_max ! i)) [0..<n_points],
             map (\<lambda>i. snd (sol_min ! i)) [0..<n_points]))"

text \<open>The result is \<open>None\<close> when the call returns without having written anything.\<close>

definition gg_diagram ::
  "('v, 't) collaborators \<Rightarrow> ('v, 'v, 't) tables \<Rightarrow> string \<Rightarrow> real \<Rightarrow> nat
     \<Rightarrow> exception + (real list \<times> real list \<times> real list) option" where
  "gg_diagram col T vehicle_name v n_points =
     (if count_entry (table_kart_6dof T) vehicle_name \<noteq> 0 then
        (case at_entry (table_kart_6dof T) vehicle_name of Inl e \<Rightarrow> Inl e
         | Inr car \<Rightarrow> map_sum id Some (compute_gg_diagram col Lot2016kart car v n_points))
      else if count_entry (table_f1_3dof T) vehicle_name \<noteq> 0 then
        (case at_entry (table_f1_3dof T) vehicle_name of Inl e \<Rightarrow> Inl e
         | Inr car \<Rightarrow> map_sum id Some (compute_gg_diagram col Limebeer2014f1 car v n_points))
      else Inr None)"

subsection \<open>\<^verbatim>\<open>compute_optimal_laptime\<close> and \<^verbatim>\<open>optimal_laptime\<close>\<close>

text \<open>The chain of comparisons that computes one vector output: which names it knows
  for which vehicle, and what it throws otherwise.\<close>

definition vector_variable_names :: "string list" where
  "vector_variable_names =
     [''x'', ''y'', ''s'', ''n'', ''alpha'', ''u'', ''v'', ''time'', ''delta'', ''psi'', ''omega'',
      ''throttle'',
      ''rear_axle.left_tire.x'', ''rear_axle.left_tire.y'',
      ''rear_axle.right_tire.x'', ''rear_axle.right_tire.y'',
      ''front_axle.left_tire.x'', ''front_axle.left_tire.y'',
      ''front_axle.right_tire.x'', ''front_axle.right_tire.y'',
      ''front_axle.left_tire.kappa'', ''front_axle.right_tire.kappa'',
      ''rear_axle.left_tire.kappa'', ''rear_axle.right_tire.kappa'',
      ''front_axle.left_tire.dissipation'', ''front_axle.right_tire.dissipation'',
      ''rear_axle.left_tire.dissipation'', ''rear_axle.right_tire.dissipation'',
      ''chassis.understeer_oversteer_indicator'', ''chassis.aerodynamics.cd'', ''ax'', ''ay'']"

definition f1_only_variable_names :: "string list" where
  "f1_only_variable_names = [''brake-bias'', ''Fz_fl'', ''Fz_fr'', ''Fz_rl'', ''Fz_rr'']"

definition vector_variable_check :: "vehicle_type \<Rightarrow> string \<Rightarrow> exception option" where
  "vector_variable_check vt variable_name =
     (if variable_name \<in> set vector_variable_names then None
      else if variable_name \<in> set f1_only_variable_names then
        (case vt of Limebeer2014f1 \<Rightarrow> None
         | Lot2016kart \<Rightarrow> Some (Fastest_lap_exception ''not available for this vehicle type''))
      else Some (Fastest_lap_exception ''Variable is not defined''))"

definition insert_scalar :: "string \<Rightarrow> real \<Rightarrow> ('k, 'f, 't) tables \<Rightarrow> ('k, 'f, 't) tables" where
  "insert_scalar name v T = T\<lparr>table_scalar := insert_entry name v (table_scalar T)\<rparr>"

definition insert_vector :: "string \<Rightarrow> real list \<Rightarrow> ('k, 'f, 't) tables \<Rightarrow> ('k, 'f, 't) tables" where
  "insert_vector name v T = T\<lparr>table_vector := insert_entry name v (table_vector T)\<rparr>"

text \<open>The derivative arrays \<^verbatim>\<open>ddatadp\<close>: filled for \<open>u\<close> and \<open>time\<close>, zero otherwise.\<close>

definition ddatadp :: "optimal_laptime_output \<Rightarrow> string \<Rightarrow> nat \<Rightarrow> nat \<Rightarrow> real list" where
  "ddatadp out variable_name n_points p =
     map (\<lambda>i. if variable_name = ''u'' then ol_dqdp_u out p i
              else if variable_name = ''time'' then ol_dqdp_time out p i else 0) [0..<n_points]"

text \<open>One turn of the loop (6.2) of \<^verbatim>\<open>compute_optimal_laptime\<close>.  The sensitivities are
  saved when \<^verbatim>\<open>opts.check_optimality\<close> holds, which is \<^verbatim>\<open>conf.compute_sensitivity\<close>.\<close>

definition save_variable ::
  "vehicle_type \<Rightarrow> string list \<Rightarrow> string list \<Rightarrow> configuration \<Rightarrow> optimal_laptime_output \<Rightarrow> nat
     \<Rightarrow> string \<Rightarrow> ('k, 'f, 't) tables \<Rightarrow> ('k, 'f, 't) tables \<times> exception option" where
  "save_variable vt parameter_aliases iq_names conf out n_points variable_name T =
     (let name = output_variables_prefix conf @ variable_name in
      if count_entry (table_scalar T) name \<noteq> 0 then (T, Some (Already_exists ''scalar'' name))
      else if count_entry (table_vector T) name \<noteq> 0 then (T, Some (Already_exists ''vector'' name))
      else if variable_name = ''laptime'' then
        (let T1 = insert_scalar name (ol_laptime out) T in
         if compute_sensitivity conf then
           (fold (\<lambda>i. insert_scalar
                    (output_variables_prefix conf @ ''derivatives/'' @ variable_name @ ''/''
                       @ parameter_aliases ! i) (ol_dlaptimedp out ! i))
              [0..<length parameter_aliases] T1, None)
         else (T1, None))
      else if take 20 variable_name = ''integral_quantities.'' then
        (case find_index_of (drop 20 variable_name) iq_names of
           None \<Rightarrow> (T, Some (Fastest_lap_exception ''Requested integral constraint was not found.''))
         | Some index \<Rightarrow> (insert_scalar name (ol_integral_quantities out ! index) T, None))
      else
        (case (if 0 < n_points then vector_variable_check vt variable_name else None) of
           Some e \<Rightarrow> (T, Some e)
         | None \<Rightarrow>
           (let T1 = insert_vector name (map (ol_node_value out variable_name) [0..<n_points]) T in
            if compute_sensitivity conf then
              (fold (\<lambda>p. insert_vector
                       (output_variables_prefix conf @ ''derivatives/'' @ variable_name @ ''/''
                          @ parameter_aliases ! p) (ddatadp out variable_name n_points p))
                 [0..<length parameter_aliases] T1, None)
            else (T1, None))))"

text \<open>The table that holds the vehicles of a kind.\<close>

definition vehicle_table :: "vehicle_type \<Rightarrow> ('v, 'v, 't) tables \<Rightarrow> (string \<rightharpoonup> 'v)" where
  "vehicle_table vt T = (case vt of Lot2016kart \<Rightarrow> table_kart_6dof T | Limebeer2014f1 \<Rightarrow> table_f1_3dof T)"

definition update_vehicle ::
  "vehicle_type \<Rightarrow> string \<Rightarrow> 'v \<Rightarrow> ('v, 'v, 't) tables \<Rightarrow> ('v, 'v, 't) tables" where
  "update_vehicle vt name v T =
     (case vt of Lot2016kart \<Rightarrow> T\<lparr>table_kart_6dof := (table_kart_6dof T)(name \<mapsto> v)\<rparr>
      | Limebeer2014f1 \<Rightarrow> T\<lparr>table_f1_3dof := (table_f1_3dof T)(name \<mapsto> v)\<rparr>)"

text \<open>The speed handed to the steady-state solver in step (4):
  \<^verbatim>\<open>scalar v = conf.steady_state_speed*KMH\<close>.\<close>

definition steady_state_seed_speed :: "('v, 't) collaborators \<Rightarrow> configuration \<Rightarrow> real" where
  "steady_state_seed_speed col conf = steady_state_speed conf * KMH col"

text \<open>
  \<^verbatim>\<open>compute_optimal_laptime(vehicle, track, n_points, s, options)\<close>.  The reference
  \<^verbatim>\<open>vehicle\<close> is the entry \<open>vehicle_name\<close> of the table of its kind, and
  \<^verbatim>\<open>change_track\<close> changes that entry in place.  \<^verbatim>\<open>n_points\<close> is an \<^verbatim>\<open>int\<close> in the
  source; the model covers the calls where it is not negative and \<open>s\<close> holds at least
  \<^verbatim>\<open>n_points\<close> numbers.  The kart's second steady-state control is set to zero.  The
  XML file written on request and the warm-start cache are not tables and are left out.
\<close>

definition compute_optimal_laptime ::
  "('v, 't) collaborators \<Rightarrow> vehicle_type \<Rightarrow> string \<Rightarrow> 't \<Rightarrow> nat \<Rightarrow> real list
     \<Rightarrow> xml_document option \<Rightarrow> ('v, 'v, 't) tables \<Rightarrow> ('v, 'v, 't) tables \<times> exception option" where
  "compute_optimal_laptime col vt vehicle_name track n_points s options T =
     (case at_entry (vehicle_table vt T) vehicle_name of Inl e \<Rightarrow> (T, Some e)
      | Inr vehicle \<Rightarrow>
        (case Optimal_laptime_configuration vt (get_u_names col vt) (table_vector T) options of
           Inl e \<Rightarrow> (T, Some e)
         | Inr conf \<Rightarrow>
           (let vehicle1 = change_track col vehicle track;
                T1 = update_vehicle vt vehicle_name vehicle1 T;
                v = steady_state_seed_speed col conf in
            case steady_state_solve col vt vehicle1 v 0 0 of Inl e \<Rightarrow> (T1, Some e)
            | Inr ss0 \<Rightarrow>
              (let ss = (case vt of Lot2016kart \<Rightarrow> ss0\<lparr>ss_u := (ss_u ss0)[1 := 0]\<rparr>
                         | Limebeer2014f1 \<Rightarrow> ss0) in
               case construct_optimal_laptime col vt vehicle1 (take n_points s) conf ss of
                 Inl e \<Rightarrow> (T1, Some e)
               | Inr out \<Rightarrow>
                 run_writes
                   (map (save_variable vt (get_all_parameters_aliases col vehicle1)
                           (integral_quantities_names col vt) conf out n_points)
                      (variables_to_save conf)) T1))))"

definition optimal_laptime ::
  "('v, 't) collaborators \<Rightarrow> ('v, 'v, 't) tables \<Rightarrow> string \<Rightarrow> string \<Rightarrow> nat \<Rightarrow> real list
     \<Rightarrow> xml_document option \<Rightarrow> ('v, 'v, 't) tables \<times> exception option" where
  "optimal_laptime col T vehicle_name track_name n_points s options =
     (if count_entry (table_kart_6dof T) vehicle_name \<noteq> 0 then
        (case at_entry (table_track T) track_name of Inl e \<Rightarrow> (T, Some e)
         | Inr track \<Rightarrow> compute_optimal_laptime col Lot2016kart vehicle_name track n_points s options T)
      else if count_entry (table_f1_3dof T) vehicle_name \<noteq> 0 then
        (case at_entry (table_track T) track_name of Inl e \<Rightarrow> (T, Some e)
         | Inr track \<Rightarrow> compute_optimal_laptime col Limebeer2014f1 vehicle_name track n_points s options T)
      else (T, None))"

subsection \<open>\<^verbatim>\<open>circuit_preprocessor\<close>\<close>

text \<open>The default member initialisers; the numbers are those of
  \<^verbatim>\<open>Circuit_preprocessor::Options\<close>.\<close>

definition default_circuit_preprocessor_configuration :: circuit_preprocessor_configuration where
  "default_circuit_preprocessor_configuration =
     \<lparr>kml_file_left = [], kml_file_right = [], cp_mode = EQUALLY_SPACED, clockwise = False,
      cp_is_closed = False, n_el = 0, s_distribution = [], ds_distribution = [],
      eps_d = 1 / 10, eps_k = 50000, eps_n = 1 / 10, eps_c = 1 / 10,
      maximum_kappa = 1 / 10, maximum_dkappa = 2 / 100, maximum_dn = 1,
      maximum_distance_find = 50, adaption_aspect_ratio_max = 12 / 10, cp_print_level = 0,
      save_to_table = False, save_as_xml = False, output_variables_to_table = False,
      cp_xml_file_name = [], cp_output_variables_prefix = [], insert_table_name = []\<rparr>"

text \<open>A statement of the form \<^verbatim>\<open>if (!doc.has_element(path)) throw ...\<close>.\<close>

definition mandatory :: "xml_document \<Rightarrow> string \<Rightarrow> 'c \<Rightarrow> exception + 'c" where
  "mandatory doc path c =
     (if \<not> has_element doc path then Inl (Fastest_lap_exception (''missing mandatory node '' @ path))
      else Inr c)"

definition read_mode ::
  "xml_document \<Rightarrow> circuit_preprocessor_configuration \<Rightarrow> exception + circuit_preprocessor_configuration" where
  "read_mode doc c =
     (case get_string doc ''options/mode'' of Inl e \<Rightarrow> Inl e
      | Inr mode_str \<Rightarrow>
        if mode_str = ''equally-spaced'' then Inr (c\<lparr>cp_mode := EQUALLY_SPACED\<rparr>)
        else if mode_str = ''refined'' then Inr (c\<lparr>cp_mode := REFINED\<rparr>)
        else Inl (Fastest_lap_exception ''invalid value for mode''))"

definition check_open_mode ::
  "circuit_preprocessor_configuration \<Rightarrow> exception + circuit_preprocessor_configuration" where
  "check_open_mode c =
     (if \<not> cp_is_closed c \<and> cp_mode c = REFINED then
        Inl (Fastest_lap_exception ''open tracks must be computed with mode=equally-spaced'')
      else Inr c)"

definition read_mesh ::
  "xml_document \<Rightarrow> circuit_preprocessor_configuration \<Rightarrow> exception + circuit_preprocessor_configuration" where
  "read_mesh doc c =
     (case cp_mode c of
        EQUALLY_SPACED \<Rightarrow>
          run_steps
            [mandatory doc ''options/number_of_elements'',
             read_if True (get_int doc ''options/number_of_elements'')
               (\<lambda>v c. c\<lparr>n_el := nat (v mod 2 ^ 64)\<rparr>)] c
      | REFINED \<Rightarrow>
          run_steps
            [mandatory doc ''options/mesh_refinement'',
             mandatory doc ''options/mesh_refinement/s'',
             mandatory doc ''options/mesh_refinement/ds'',
             read_if True (get_vector doc ''options/mesh_refinement/s'')
               (\<lambda>v c. c\<lparr>s_distribution := v\<rparr>),
             read_if True (get_vector doc ''options/mesh_refinement/ds'')
               (\<lambda>v c. c\<lparr>ds_distribution := v\<rparr>)] c)"

text \<open>Inside \<^verbatim>\<open>options/optimization\<close> the source reads \<^verbatim>\<open>cost_curvature\<close> twice, once
  into \<^verbatim>\<open>eps_k\<close> and once into \<^verbatim>\<open>eps_c\<close>; the model does the same.\<close>

definition read_optimization ::
  "xml_document \<Rightarrow> circuit_preprocessor_configuration \<Rightarrow> exception + circuit_preprocessor_configuration" where
  "read_optimization doc c =
     (if has_element doc ''options/optimization'' then
        run_steps
          [read_if (has_element doc ''options/optimization/cost_curvature'')
             (get_scalar doc ''options/optimization/cost_curvature'') (\<lambda>v c. c\<lparr>eps_k := v\<rparr>),
           read_if (has_element doc ''options/optimization/cost_track_limits_smoothness'')
             (get_scalar doc ''options/optimization/cost_track_limits_smoothness'')
             (\<lambda>v c. c\<lparr>eps_n := v\<rparr>),
           read_if (has_element doc ''options/optimization/cost_track_limits_errors'')
             (get_scalar doc ''options/optimization/cost_track_limits_errors'')
             (\<lambda>v c. c\<lparr>eps_d := v\<rparr>),
           read_if (has_element doc ''options/optimization/cost_curvature'')
             (get_scalar doc ''options/optimization/cost_curvature'') (\<lambda>v c. c\<lparr>eps_c := v\<rparr>),
           read_if (has_element doc ''options/optimization/maximum_kappa'')
             (get_scalar doc ''options/optimization/maximum_kappa'') (\<lambda>v c. c\<lparr>maximum_kappa := v\<rparr>),
           read_if (has_element doc ''options/optimization/maximum_dkappa'')
             (get_scalar doc ''options/optimization/maximum_dkappa'')
             (\<lambda>v c. c\<lparr>maximum_dkappa := v\<rparr>)] c
      else Inr c)"

definition read_table_outputs ::
  "xml_document \<Rightarrow> circuit_preprocessor_configuration \<Rightarrow> exception + circuit_preprocessor_configuration" where
  "read_table_outputs doc c =
     (if has_element doc ''options/output_variables'' then
        run_steps
          [mandatory doc ''options/output_variables/prefix'',
           read_if True (get_string doc ''options/output_variables/prefix'')
             (\<lambda>v c. c\<lparr>cp_output_variables_prefix := v\<rparr>)]
          (c\<lparr>output_variables_to_table := True\<rparr>)
      else Inr c)"

text \<open>The constructor \<^verbatim>\<open>Circuit_preprocessor_configuration(const char* options)\<close>, on
  the parsed document.  \<^verbatim>\<open>print_level\<close> is read as a \<^verbatim>\<open>scalar\<close> and stored in an
  \<^verbatim>\<open>int\<close>: the fraction is dropped.\<close>

definition Circuit_preprocessor_configuration ::
  "xml_document \<Rightarrow> exception + circuit_preprocessor_configuration" where
  "Circuit_preprocessor_configuration doc =
     run_steps
       [mandatory doc ''options/kml_files'',
        mandatory doc ''options/kml_files/left'',
        mandatory doc ''options/kml_files/right'',
        read_if True (get_string doc ''options/kml_files/left'') (\<lambda>v c. c\<lparr>kml_file_left := v\<rparr>),
        read_if True (get_string doc ''options/kml_files/right'') (\<lambda>v c. c\<lparr>kml_file_right := v\<rparr>),
        mandatory doc ''options/mode'',
        read_mode doc,
        mandatory doc ''options/is_closed'',
        read_if True (get_bool doc ''options/is_closed'') (\<lambda>v c. c\<lparr>cp_is_closed := v\<rparr>),
        check_open_mode,
        read_if (has_element doc ''options/clockwise'') (get_bool doc ''options/clockwise'')
          (\<lambda>v c. c\<lparr>clockwise := v\<rparr>),
        read_mesh doc,
        read_optimization doc,
        read_if (has_element doc ''options/print_level'') (get_scalar doc ''options/print_level'')
          (\<lambda>v c. c\<lparr>cp_print_level := (if 0 \<le> v then \<lfloor>v\<rfloor> else \<lceil>v\<rceil>)\<rparr>),
        read_if (has_element doc ''options/xml_file_name'') (get_string doc ''options/xml_file_name'')
          (\<lambda>v c. c\<lparr>save_as_xml := True, cp_xml_file_name := v\<rparr>),
        read_table_outputs doc,
        read_if (has_element doc ''options/insert_table_name'')
          (get_string doc ''options/insert_table_name'')
          (\<lambda>v c. c\<lparr>save_to_table := True, insert_table_name := v\<rparr>)]
       default_circuit_preprocessor_configuration"

text \<open>Step (2): an open track in equally spaced mode is not implemented; every other
  case builds the \<^verbatim>\<open>Circuit_preprocessor\<close>.\<close>

definition construct_circuit ::
  "('v, 't) collaborators \<Rightarrow> circuit_preprocessor_configuration \<Rightarrow> exception + circuit" where
  "construct_circuit col conf =
     (case cp_mode conf of
        EQUALLY_SPACED \<Rightarrow>
          if cp_is_closed conf then construct_circuit_preprocessor col conf
          else Inl (Fastest_lap_exception ''Not implemented'')
      | REFINED \<Rightarrow> construct_circuit_preprocessor col conf)"

text \<open>Step (3.1): only \<^verbatim>\<open>table_track\<close> is asked whether the name is in use.\<close>

definition save_track_to_table ::
  "('v, 't) collaborators \<Rightarrow> circuit_preprocessor_configuration \<Rightarrow> circuit
     \<Rightarrow> ('k, 'f, 't) tables \<Rightarrow> ('k, 'f, 't) tables \<times> exception option" where
  "save_track_to_table col conf cp T =
     (if save_to_table conf then
        if count_entry (table_track T) (insert_table_name conf) \<noteq> 0 then
          (T, Some (Already_exists ''track'' (insert_table_name conf)))
        else
          (T\<lparr>table_track := insert_entry (insert_table_name conf) (track_of_circuit col cp)
                               (table_track T)\<rparr>, None)
      else (T, None))"

text \<open>A \<^verbatim>\<open>std::transform\<close> into a vector of \<open>n\<close> zeros.  The source has no defined
  behaviour when the input is longer than \<open>n\<close>; the model keeps the first \<open>n\<close>.\<close>

definition transform_into :: "nat \<Rightarrow> real list \<Rightarrow> real list" where
  "transform_into n xs = take n xs @ replicate (n - length xs) 0"

text \<open>Step (3.3): the fourteen vectors, in the order of the source.\<close>

definition circuit_output_vectors :: "circuit \<Rightarrow> (string \<times> real list) list" where
  "circuit_output_vectors cp =
     (let n = length (cp_s cp) in
      [(''arclength'', cp_s cp),
       (''centerline/x'', transform_into n (map fst (cp_r_centerline cp))),
       (''centerline/y'', transform_into n (map snd (cp_r_centerline cp))),
       (''left/x'', transform_into n (map fst (cp_r_left cp))),
       (''left/y'', transform_into n (map snd (cp_r_left cp))),
       (''right/x'', transform_into n (map fst (cp_r_right cp))),
       (''right/y'', transform_into n (map snd (cp_r_right cp))),
       (''left_measured/x'', transform_into n (map fst (cp_r_left_measured cp))),
       (''left_measured/y'', transform_into n (map snd (cp_r_left_measured cp))),
       (''right_measured/x'', transform_into n (map fst (cp_r_right_measured cp))),
       (''right_measured/y'', transform_into n (map snd (cp_r_right_measured cp))),
       (''kappa'', cp_kappa cp),
       (''nl'', cp_nl cp),
       (''nr'', cp_nr cp)])"

text \<open>Each vector is saved after \<^verbatim>\<open>table_vector\<close> alone has been asked for its name.\<close>

definition save_circuit_vector ::
  "string \<Rightarrow> string \<times> real list \<Rightarrow> ('k, 'f, 't) tables \<Rightarrow> ('k, 'f, 't) tables \<times> exception option" where
  "save_circuit_vector pre entry T =
     (if count_entry (table_vector T) (pre @ fst entry) \<noteq> 0 then
        (T, Some (Already_exists ''vector'' (pre @ fst entry)))
      else (insert_vector (pre @ fst entry) (snd entry) T, None))"

definition save_circuit_variables ::
  "circuit_preprocessor_configuration \<Rightarrow> circuit \<Rightarrow> ('k, 'f, 't) tables
     \<Rightarrow> ('k, 'f, 't) tables \<times> exception option" where
  "save_circuit_variables conf cp T =
     (if output_variables_to_table conf then
        run_writes (map (save_circuit_vector (cp_output_variables_prefix conf))
                      (circuit_output_vectors cp)) T
      else (T, None))"

text \<open>\<^verbatim>\<open>circuit_preprocessor(options)\<close>.  The XML file of step (3.2) is not a table and is
  left out.\<close>

definition circuit_preprocessor ::
  "('v, 't) collaborators \<Rightarrow> ('k, 'f, 't) tables \<Rightarrow> xml_document
     \<Rightarrow> ('k, 'f, 't) tables \<times> exception option" where
  "circuit_preprocessor col T options =
     (case Circuit_preprocessor_configuration options of Inl e \<Rightarrow> (T, Some e)
      | Inr conf \<Rightarrow>
        (case read_kml_files col (kml_file_left conf) (kml_file_right conf) of Inl e \<Rightarrow> (T, Some e)
         | Inr _ \<Rightarrow>
           (case construct_circuit col conf of Inl e \<Rightarrow> (T, Some e)
            | Inr cp \<Rightarrow>
              run_writes [save_track_to_table col conf cp, save_circuit_variables conf cp] T)))"


section \<open>Concrete inputs\<close>

text \<open>A registry that holds one scalar named \<open>x\<close> and nothing else.\<close>

definition one_scalar_tables :: "(nat, nat, nat) tables" where
  "one_scalar_tables =
     \<lparr>table_kart_6dof = Map.empty, table_f1_3dof = Map.empty, table_track = Map.empty,
      table_scalar = [''x'' \<mapsto> 1], table_vector = Map.empty\<rparr>"

text \<open>Collaborators that always succeed, for the concrete runs below: the solver
  reports a lap of 90 seconds and the preprocessor a track of two nodes.\<close>

definition plain_collaborators :: "(nat, nat) collaborators" where
  "plain_collaborators =
     \<lparr>KMH = 10 / 36,
      change_track = (\<lambda>v t. v),
      set_parameter = (\<lambda>v p x. Inr v),
      get_u_names = (\<lambda>vt. case vt of Limebeer2014f1 \<Rightarrow> [''delta'', ''throttle'', ''brake-bias'']
                          | Lot2016kart \<Rightarrow> [''delta'', ''torque'']),
      get_all_parameters_aliases = (\<lambda>v. []),
      integral_quantities_names = (\<lambda>vt. []),
      steady_state_solve = (\<lambda>vt car v ax ay. Inr \<lparr>ss_q = [v], ss_qa = [], ss_u = [0, 0, 0]\<rparr>),
      steady_state_gg_diagram = (\<lambda>vt car v n. Inr (replicate n (0, 1), replicate n (0, -1))),
      construct_optimal_laptime =
        (\<lambda>vt car s conf ss.
           Inr \<lparr>ol_laptime = 90, ol_dlaptimedp = [], ol_integral_quantities = [],
                ol_node_value = (\<lambda>name i. 0), ol_dqdp_u = (\<lambda>p i. 0), ol_dqdp_time = (\<lambda>p i. 0)\<rparr>),
      read_kml_files = (\<lambda>l r. Inr ()),
      construct_circuit_preprocessor =
        (\<lambda>conf. Inr \<lparr>cp_s = [0, 1], cp_r_centerline = [(0, 0), (1, 0)],
                      cp_r_left = [(0, 1), (1, 1)], cp_r_right = [(0, -1), (1, -1)],
                      cp_r_left_measured = [(0, 1), (1, 1)], cp_r_right_measured = [(0, -1), (1, -1)],
                      cp_kappa = [0, 0], cp_nl = [1, 1], cp_nr = [1, 1]\<rparr>),
      track_of_circuit = (\<lambda>cp. 7)\<rparr>"

text \<open>A document without any element.\<close>

definition empty_document :: xml_document where
  "empty_document =
     \<lparr>has_element = (\<lambda>p. False),
      get_bool = (\<lambda>p. Inl (Fastest_lap_exception ''no such element'')),
      get_int = (\<lambda>p. Inl (Fastest_lap_exception ''no such element'')),
      get_scalar = (\<lambda>p. Inl (Fastest_lap_exception ''no such element'')),
      get_vector = (\<lambda>p. Inl (Fastest_lap_exception ''no such element'')),
      get_string = (\<lambda>p. Inl (Fastest_lap_exception ''no such element'')),
      get_attribute = (\<lambda>p a. Inl (Fastest_lap_exception ''no such element'')),
      get_children = (\<lambda>p. Inl (Fastest_lap_exception ''no such element''))\<rparr>"

text \<open>The options
  \<^verbatim>\<open><options> <steady_state_speed> 60 </steady_state_speed> <initial_speed> 70 </initial_speed> </options>\<close>.\<close>

definition two_speeds_document :: xml_document where
  "two_speeds_document =
     empty_document
       \<lparr>has_element := (\<lambda>p. p = ''options/steady_state_speed'' \<or> p = ''options/initial_speed''),
        get_scalar := (\<lambda>p. if p = ''options/steady_state_speed'' then Inr 60
                            else if p = ''options/initial_speed'' then Inr 70
                            else Inl (Fastest_lap_exception ''no such element''))\<rparr>"

text \<open>The options
  \<^verbatim>\<open><options> <output_variables> <prefix> run/ </prefix> <variables> <laptime/> </variables> </output_variables> </options>\<close>.\<close>

definition laptime_output_document :: xml_document where
  "laptime_output_document =
     empty_document
       \<lparr>has_element := (\<lambda>p. p = ''options/output_variables''
                             \<or> p = ''options/output_variables/prefix''
                             \<or> p = ''options/output_variables/variables''
                             \<or> p = ''options/output_variables/variables/laptime''),
        get_string := (\<lambda>p. if p = ''options/output_variables/prefix'' then Inr ''run/''
                            else Inl (Fastest_lap_exception ''no such element'')),
        get_children := (\<lambda>p. if p = ''options/output_variables'' then Inr [''prefix'', ''variables'']
                              else if p = ''options/output_variables/variables'' then Inr [''laptime'']
                              else Inl (Fastest_lap_exception ''no such element''))\<rparr>"

text \<open>A registry with the vehicle \<open>car\<close>, the track \<open>monza\<close> and a second track whose
  name is \<open>run/laptime\<close>.\<close>

definition car_and_tracks :: "(nat, nat, nat) tables" where
  "car_and_tracks =
     \<lparr>table_kart_6dof = Map.empty, table_f1_3dof = [''car'' \<mapsto> 1],
      table_track = [''monza'' \<mapsto> 2, ''run/laptime'' \<mapsto> 3],
      table_scalar = Map.empty, table_vector = Map.empty\<rparr>"

text \<open>The options of a closed, equally spaced preprocessor run that stores the track
  under the name \<open>x\<close>.\<close>

definition preprocessor_document :: xml_document where
  "preprocessor_document =
     empty_document
       \<lparr>has_element := (\<lambda>p. p \<in> set [''options/kml_files'', ''options/kml_files/left'',
                               ''options/kml_files/right'', ''options/mode'', ''options/is_closed'',
                               ''options/number_of_elements'', ''options/insert_table_name'']),
        get_bool := (\<lambda>p. if p = ''options/is_closed'' then Inr True
                          else Inl (Fastest_lap_exception ''no such element'')),
        get_int := (\<lambda>p. if p = ''options/number_of_elements'' then Inr 2
                         else Inl (Fastest_lap_exception ''no such element'')),
        get_string := (\<lambda>p. if p = ''options/kml_files/left'' then Inr ''left.kml''
                            else if p = ''options/kml_files/right'' then Inr ''right.kml''
                            else if p = ''options/mode'' then Inr ''equally-spaced''
                            else if p = ''options/insert_table_name'' then Inr ''x''
                            else Inl (Fastest_lap_exception ''no such element''))\<rparr>"

text \<open>The registry without any entry.\<close>

definition empty_tables :: "(nat, nat, nat) tables" where
  "empty_tables =
     \<lparr>table_kart_6dof = Map.empty, table_f1_3dof = Map.empty, table_track = Map.empty,
      table_scalar = Map.empty, table_vector = Map.empty\<rparr>"

text \<open>The invariant of claim C10: no name is registered more than once over the five
  tables.\<close>

definition registry_invariant :: "('k, 'f, 't) tables \<Rightarrow> bool" where
  "registry_invariant T = (\<forall>name. n_ocurrences T name \<le> 1)"

text \<open>A small model for the concrete runs of the solver: three states (a speed, the
  time at \<^verbatim>\<open>ITIME\<close> = 1, the lateral offset at \<^verbatim>\<open>IN\<close> = 2), no algebraic state, one
  control, six extra constraints, on a track of length 4.  The time needed per unit of
  arclength is \<open>1 + s\<close>, so it depends on the place on the track, as it does through
  the curvature for the vehicles of the repository.\<close>

definition toy_model :: dynamic_model where
  "toy_model =
     \<lparr>NSTATE = 3, NALGEBRAIC = 0, NCONTROL = 1, N_OL_EXTRA_CONSTRAINTS = 6, ITIME = 1, IN = 2,
      track_length = 4,
      get_left_track_limit = (\<lambda>s. 2 + s), get_right_track_limit = (\<lambda>s. 3 + s),
      equations = (\<lambda>q qa u s. ([u ! 0, 1 + s, 0], [])),
      optimal_laptime_extra_constraints = (\<lambda>q qa u s. replicate 6 0),
      tire_slips = (\<lambda>q qa u s. replicate 6 0),
      road_position = (\<lambda>q qa u s. (s, q ! 2, 0)),
      optimal_laptime_state_bounds = ([10, 0, -9], [90, 0, 9]),
      optimal_laptime_algebraic_state_bounds = ([], []),
      optimal_laptime_control_bounds = ([-1], [1], [-7], [7]),
      optimal_laptime_extra_constraints_bounds = (replicate 6 (- (1 / 10)), replicate 6 (1 / 10))\<rparr>"

text \<open>A solver that reports success at its starting point, and one that reports that the
  iteration limit was reached.\<close>

definition keep_start :: solver where
  "keep_start = (\<lambda>start lb ub cl cu fg. \<lparr>status = success, result_x = start\<rparr>)"

definition give_up :: solver where
  "give_up = (\<lambda>start lb ub cl cu fg. \<lparr>status = maxiter_exceeded, result_x = start\<rparr>)"

text \<open>An object with the two nodes \<open>s = 0\<close> and \<open>s = 2\<close> of the closed toy track, as
  the constructor for two elements builds it before it calls \<^verbatim>\<open>compute\<close>.\<close>

definition two_node_object :: optimal_laptime_object where
  "two_node_object =
     new_object\<lparr>opt_n_elements := 2, opt_n_points := 2, opt_s := [0, 2],
       opt_q := [[50, 0, 1], [50, 0, 1]], opt_qa := [[], []], opt_u := [[1 / 2], [1 / 2]]\<rparr>"

text \<open>An object with the two nodes \<open>s = 1\<close> and \<open>s = 2\<close> of the open toy track, as
  the constructor from the mesh \<open>[1, 2]\<close> builds it before it calls \<^verbatim>\<open>compute\<close>.\<close>

definition open_two_node_object :: optimal_laptime_object where
  "open_two_node_object =
     new_object\<lparr>opt_n_elements := 1, opt_n_points := 2, opt_s := [1, 2],
       opt_q := [[50, 0, 1], [50, 0, 1]], opt_qa := [[], []], opt_u := [[1 / 2], [1 / 2]]\<rparr>"

section \<open>Properties of the registry\<close>

lemma n_ocurrences_0:
  "n_ocurrences T y = 0 \<longleftrightarrow>
     table_kart_6dof T y = None \<and> table_f1_3dof T y = None \<and> table_track T y = None
     \<and> table_vector T y = None \<and> table_scalar T y = None"
  by (auto simp: n_ocurrences_def count_entry_def split: option.splits)

lemma n_ocurrences_1_cases:
  assumes "n_ocurrences T x = 1"
  obtains
    (kart) v where "table_kart_6dof T x = Some v" "table_f1_3dof T x = None"
      "table_track T x = None" "table_vector T x = None" "table_scalar T x = None"
  | (f1) v where "table_kart_6dof T x = None" "table_f1_3dof T x = Some v"
      "table_track T x = None" "table_vector T x = None" "table_scalar T x = None"
  | (track) v where "table_kart_6dof T x = None" "table_f1_3dof T x = None"
      "table_track T x = Some v" "table_vector T x = None" "table_scalar T x = None"
  | (vector) v where "table_kart_6dof T x = None" "table_f1_3dof T x = None"
      "table_track T x = None" "table_vector T x = Some v" "table_scalar T x = None"
  | (scalar) v where "table_kart_6dof T x = None" "table_f1_3dof T x = None"
      "table_track T x = None" "table_vector T x = None" "table_scalar T x = Some v"
  using assms by (auto simp: n_ocurrences_def count_entry_def split: option.splits)

lemmas registry_defs =
  copy_move_delete_def copy_variable_def move_variable_def delete_variable_def
  check_variable_exists_in_tables_def n_ocurrences_def count_entry_def copy_entry_def
  move_entry_def erase_entry_def at_entry_def insert_entry_def

lemma copy_move_delete_restores:
  assumes "n_ocurrences T x = 1" and "n_ocurrences T y = 0" and "n_ocurrences T z = 0"
    and "y \<noteq> z"
  shows "copy_move_delete T x y z = Inr T"
proof -
  note fresh = assms(2,3)[unfolded n_ocurrences_0]
  from assms(1) show ?thesis
  proof (cases rule: n_ocurrences_1_cases)
    case kart
    have "(table_kart_6dof T)(y := None, z := None) = table_kart_6dof T" using fresh by auto
    with kart fresh assms(4) show ?thesis by (simp add: registry_defs fun_upd_twist)
  next
    case f1
    have "(table_f1_3dof T)(y := None, z := None) = table_f1_3dof T" using fresh by auto
    with f1 fresh assms(4) show ?thesis by (simp add: registry_defs fun_upd_twist)
  next
    case track
    have "(table_track T)(y := None, z := None) = table_track T" using fresh by auto
    with track fresh assms(4) show ?thesis by (simp add: registry_defs fun_upd_twist)
  next
    case vector
    have "(table_vector T)(y := None, z := None) = table_vector T" using fresh by auto
    with vector fresh assms(4) show ?thesis by (simp add: registry_defs fun_upd_twist)
  next
    case scalar
    have "(table_scalar T)(y := None, z := None) = table_scalar T" using fresh by auto
    with scalar fresh assms(4) show ?thesis by (simp add: registry_defs fun_upd_twist)
  qed
qed

text \<open>
  Claim C9, as amended.  For a name \<open>x\<close> registered in exactly one table and two
  \<^emph>\<open>distinct\<close> names \<open>y\<close> and \<open>z\<close> registered in no table, the sequence
  \<^verbatim>\<open>copy_variable(x, y); move_variable(y, z); delete_variable(z)\<close> ends without an
  exception, and the registry it leaves has no entry named \<open>y\<close>, no entry named \<open>z\<close>
  and is the registry it started from, so the entry named \<open>x\<close> is unchanged.
\<close>

theorem copy_move_delete_distinct_fresh:
  assumes "n_ocurrences T x = 1" and "n_ocurrences T y = 0" and "n_ocurrences T z = 0"
    and "y \<noteq> z"
  shows "\<exists>T'. copy_move_delete T x y z = Inr T' \<and> n_ocurrences T' y = 0
           \<and> n_ocurrences T' z = 0 \<and> T' = T"
  using assms copy_move_delete_restores[OF assms] by simp

theorem copy_move_delete_distinct_fresh_witness:
  "n_ocurrences one_scalar_tables ''x'' = 1 \<and> n_ocurrences one_scalar_tables ''y'' = 0
   \<and> n_ocurrences one_scalar_tables ''z'' = 0 \<and> ''y'' \<noteq> ''z''
   \<and> (\<exists>T'. copy_move_delete one_scalar_tables ''x'' ''y'' ''z'' = Inr T'
          \<and> n_ocurrences T' ''y'' = 0 \<and> n_ocurrences T' ''z'' = 0 \<and> T' = one_scalar_tables)"
proof -
  have h: "n_ocurrences one_scalar_tables ''x'' = 1" "n_ocurrences one_scalar_tables ''y'' = 0"
    "n_ocurrences one_scalar_tables ''z'' = 0" "''y'' \<noteq> ''z''"
    by (simp_all add: one_scalar_tables_def n_ocurrences_def count_entry_def)
  from copy_move_delete_distinct_fresh[OF h] h show ?thesis by simp
qed

text \<open>
  Claim C9 as it is written lets \<open>y\<close> and \<open>z\<close> be the same fresh name.  Then
  \<^verbatim>\<open>copy_variable\<close> registers \<open>y\<close>, and \<^verbatim>\<open>move_variable(y, y)\<close> is stopped by
  \<^verbatim>\<open>check_variable_exists_in_tables\<close>: the sequence ends with an exception.
\<close>

theorem copy_move_delete_same_name_counterexample:
  "n_ocurrences one_scalar_tables ''x'' = 1 \<and> n_ocurrences one_scalar_tables ''y'' = 0
   \<and> copy_move_delete one_scalar_tables ''x'' ''y'' ''y'' = Inl (Already_exists ''Scalar'' ''y'')"
  by (simp add: one_scalar_tables_def registry_defs)

section \<open>The configuration of the optimal lap time\<close>

lemma run_steps_append:
  "run_steps (fs @ gs) c = (case run_steps fs c of Inl e \<Rightarrow> Inl e | Inr c' \<Rightarrow> run_steps gs c')"
  by (induction fs arbitrary: c) (auto split: sum.splits)

lemma run_steps_preserves:
  assumes "run_steps fs c = Inr c'"
    and "\<forall>f\<in>set fs. \<forall>c c'. f c = Inr c' \<longrightarrow> g c' = g c"
  shows "g c' = g c"
  using assms
proof (induction fs arbitrary: c)
  case Nil
  then show ?case by simp
next
  case (Cons f fs)
  from Cons.prems(1) obtain c1 where f: "f c = Inr c1" and rest: "run_steps fs c1 = Inr c'"
    by (auto split: sum.splits)
  have "g c' = g c1" using Cons.IH[OF rest] Cons.prems(2) by simp
  moreover have "g c1 = g c" using Cons.prems(2) f by simp
  ultimately show ?case by simp
qed

lemma read_if_preserves:
  assumes "\<And>v c. g (upd v c) = g c" and "read_if present val upd c = Inr c'"
  shows "g c' = g c"
  using assms by (auto simp: read_if_def split: if_splits sum.splits)

lemma read_initial_condition_speed:
  "read_initial_condition doc tv c = Inr c' \<Longrightarrow> steady_state_speed c' = steady_state_speed c"
  by (auto simp: read_initial_condition_def split: if_splits sum.splits)

lemma read_control_variable_speed:
  "read_control_variable doc un x c = Inr c' \<Longrightarrow> steady_state_speed c' = steady_state_speed c"
  by (auto simp: read_control_variable_def Let_def read_if_def split: if_splits sum.splits option.splits)

lemma read_control_variables_speed:
  "read_control_variables doc un c = Inr c' \<Longrightarrow> steady_state_speed c' = steady_state_speed c"
  unfolding read_control_variables_def
  by (auto split: if_splits sum.splits
      dest!: run_steps_preserves[where g = steady_state_speed] dest: read_control_variable_speed)

lemma read_integral_constraint_speed:
  "read_integral_constraint doc x c = Inr c' \<Longrightarrow> steady_state_speed c' = steady_state_speed c"
  by (auto simp: read_integral_constraint_def split: sum.splits)

lemma read_integral_constraints_speed:
  "read_integral_constraints doc c = Inr c' \<Longrightarrow> steady_state_speed c' = steady_state_speed c"
  unfolding read_integral_constraints_def
  by (auto split: if_splits sum.splits
      dest!: run_steps_preserves[where g = steady_state_speed] dest: read_integral_constraint_speed)

lemma read_xml_file_name_speed:
  "read_xml_file_name doc c = Inr c' \<Longrightarrow> steady_state_speed c' = steady_state_speed c"
  by (auto simp: read_xml_file_name_def read_if_def split: if_splits sum.splits)

lemma read_output_variables_speed:
  "read_output_variables doc c = Inr c' \<Longrightarrow> steady_state_speed c' = steady_state_speed c"
  by (auto simp: read_output_variables_def split: if_splits sum.splits)


lemma read_steady_state_speed_present:
  assumes "read_steady_state_speed doc c = Inr c'" and "has_element doc ''options/steady_state_speed''"
  shows "get_scalar doc ''options/initial_speed'' = Inr (steady_state_speed c')"
  using assms by (auto simp: read_steady_state_speed_def read_if_def split: sum.splits)

lemma read_steady_state_speed_absent:
  assumes "read_steady_state_speed doc c = Inr c'" and "\<not> has_element doc ''options/steady_state_speed''"
  shows "steady_state_speed c' = steady_state_speed c"
  using assms by (auto simp: read_steady_state_speed_def read_if_def split: sum.splits)

lemma configuration_split:
  assumes "Optimal_laptime_configuration vt un tv (Some doc) = Inr conf"
  obtains c6 c7 where "steady_state_speed c6 = 50"
    and "read_steady_state_speed doc c6 = Inr c7"
    and "steady_state_speed conf = steady_state_speed c7"
proof -
  define pre where "pre =
    [read_if (has_element doc ''options/warm_start'') (get_bool doc ''options/warm_start'')
       (\<lambda>v c. c\<lparr>warm_start := v\<rparr>),
     read_if (has_element doc ''options/save_warm_start'')
       (get_bool doc ''options/save_warm_start'') (\<lambda>v c. c\<lparr>save_warm_start := v\<rparr>),
     read_if (has_element doc ''options/write_xml'') (get_bool doc ''options/write_xml'')
       (\<lambda>v c. c\<lparr>write_xml := v\<rparr>),
     read_xml_file_name doc,
     read_if (has_element doc ''options/print_level'') (get_int doc ''options/print_level'')
       (\<lambda>v c. c\<lparr>print_level := nat (v mod 2 ^ 64)\<rparr>),
     read_output_variables doc]"
  define post where "post =
    [read_if (has_element doc ''options/closed_simulation'')
       (get_bool doc ''options/closed_simulation'') (\<lambda>v c. c\<lparr>is_closed := v\<rparr>),
     read_initial_condition doc tv,
     read_if (has_element doc ''options/sigma'') (get_scalar doc ''options/sigma'')
       (\<lambda>v c. c\<lparr>sigma := v\<rparr>),
     read_if (has_element doc ''options/compute_sensitivity'')
       (get_bool doc ''options/compute_sensitivity'') (\<lambda>v c. c\<lparr>compute_sensitivity := v\<rparr>),
     read_control_variables doc un,
     read_integral_constraints doc]"
  have "run_steps (pre @ read_steady_state_speed doc # post) (default_configuration vt) = Inr conf"
    using assms by (simp add: Optimal_laptime_configuration_def pre_def post_def)
  then obtain c6 c7 where c6: "run_steps pre (default_configuration vt) = Inr c6"
    and c7: "read_steady_state_speed doc c6 = Inr c7" and conf: "run_steps post c7 = Inr conf"
    by (auto simp: run_steps_append split: sum.splits)
  have pre_ok: "\<forall>f\<in>set pre. \<forall>c c'. f c = Inr c' \<longrightarrow> steady_state_speed c' = steady_state_speed c"
    unfolding pre_def
    by (auto dest: read_xml_file_name_speed read_output_variables_speed
        read_if_preserves[where g = steady_state_speed, rotated])
  have post_ok: "\<forall>f\<in>set post. \<forall>c c'. f c = Inr c' \<longrightarrow> steady_state_speed c' = steady_state_speed c"
    unfolding post_def
    by (auto dest: read_initial_condition_speed read_control_variables_speed
        read_integral_constraints_speed read_if_preserves[where g = steady_state_speed, rotated])
  have "steady_state_speed c6 = 50"
    using run_steps_preserves[OF c6 pre_ok] by (simp add: default_configuration_def)
  moreover have "steady_state_speed conf = steady_state_speed c7"
    using run_steps_preserves[OF conf post_ok] .
  ultimately show thesis using that c7 by blast
qed

lemma steady_state_speed_default:
  assumes "Optimal_laptime_configuration vt un tv options = Inr conf"
    and "\<forall>doc. options = Some doc \<longrightarrow> \<not> has_element doc ''options/steady_state_speed''"
  shows "steady_state_speed conf = 50"
proof (cases options)
  case None
  with assms(1) show ?thesis by (auto simp: Optimal_laptime_configuration_def default_configuration_def)
next
  case (Some doc)
  with assms(2) have absent: "\<not> has_element doc ''options/steady_state_speed''" by simp
  from assms(1)[unfolded Some] show ?thesis
  proof (rule configuration_split)
    fix c6 c7
    assume "steady_state_speed c6 = 50" "read_steady_state_speed doc c6 = Inr c7"
      "steady_state_speed conf = steady_state_speed c7"
    with read_steady_state_speed_absent[OF _ absent] show ?thesis by simp
  qed
qed

text \<open>
  Claim C3 says that a document with an \<^verbatim>\<open>options/steady_state_speed\<close> element sets the
  speed of the steady-state seed to the value of that element.  The constructor tests for
  that element and then reads another one: whenever it succeeds on such a document, the
  speed it stores is the value of \<^verbatim>\<open>options/initial_speed\<close>, and step (4) of
  \<^verbatim>\<open>compute_optimal_laptime\<close> hands that speed, times \<open>KMH\<close>, to the steady-state
  solver.
\<close>

theorem steady_state_speed_read_from_initial_speed:
  assumes "Optimal_laptime_configuration vt un tv (Some doc) = Inr conf"
    and "has_element doc ''options/steady_state_speed''"
  shows "get_scalar doc ''options/initial_speed'' = Inr (steady_state_speed conf)
         \<and> steady_state_seed_speed col conf = steady_state_speed conf * KMH col"
  using assms(1)
proof (rule configuration_split)
  fix c6 c7
  assume "read_steady_state_speed doc c6 = Inr c7" "steady_state_speed conf = steady_state_speed c7"
  with read_steady_state_speed_present[OF _ assms(2)] show ?thesis
    by (simp add: steady_state_seed_speed_def)
qed

text \<open>The run on the document that gives 60 for \<^verbatim>\<open>steady_state_speed\<close> and 70 for
  \<^verbatim>\<open>initial_speed\<close>: the configuration is built, and its speed is 70.\<close>

theorem steady_state_speed_read_from_initial_speed_witness:
  "Optimal_laptime_configuration Limebeer2014f1 (get_u_names plain_collaborators Limebeer2014f1)
      Map.empty (Some two_speeds_document)
     = Inr ((default_configuration Limebeer2014f1)\<lparr>steady_state_speed := 70\<rparr>)
   \<and> has_element two_speeds_document ''options/steady_state_speed''
   \<and> get_scalar two_speeds_document ''options/steady_state_speed'' = Inr 60
   \<and> get_scalar two_speeds_document ''options/initial_speed'' = Inr 70
   \<and> steady_state_seed_speed plain_collaborators
        ((default_configuration Limebeer2014f1)\<lparr>steady_state_speed := 70\<rparr>) = 70 * (10 / 36)"
proof -
  have c: "Optimal_laptime_configuration Limebeer2014f1 (get_u_names plain_collaborators Limebeer2014f1)
      Map.empty (Some two_speeds_document)
     = Inr ((default_configuration Limebeer2014f1)\<lparr>steady_state_speed := 70\<rparr>)"
    by (simp add: Optimal_laptime_configuration_def two_speeds_document_def empty_document_def
        read_if_def read_xml_file_name_def read_output_variables_def read_steady_state_speed_def
        read_initial_condition_def read_control_variables_def read_integral_constraints_def
        default_configuration_def)
  have h: "has_element two_speeds_document ''options/steady_state_speed''"
    by (simp add: two_speeds_document_def empty_document_def)
  from steady_state_speed_read_from_initial_speed[OF c h, of plain_collaborators] c h show ?thesis
    by (simp add: two_speeds_document_def empty_document_def plain_collaborators_def)
qed

section \<open>Vehicle names that are not registered\<close>

text \<open>
  Claim C4 says that \<^verbatim>\<open>optimal_laptime\<close>, \<^verbatim>\<open>gg_diagram\<close> and
  \<^verbatim>\<open>vehicle_set_parameter\<close> raise an error for a vehicle name that is in neither vehicle
  table.  Each of the three has the two tests \<^verbatim>\<open>count(vehicle_name) != 0\<close> and no
  \<^verbatim>\<open>else\<close> branch: for such a name they return normally, the tables are as before and
  the output arrays of \<^verbatim>\<open>gg_diagram\<close> have not been written.
\<close>

theorem absent_vehicle_returns_silently:
  assumes "table_kart_6dof T vehicle_name = None" and "table_f1_3dof T vehicle_name = None"
  shows "optimal_laptime col T vehicle_name track_name n_points s options = (T, None)
         \<and> gg_diagram col T vehicle_name v n = Inr None
         \<and> vehicle_set_parameter col T vehicle_name parameter val = Inr T"
  using assms
  by (simp add: optimal_laptime_def gg_diagram_def vehicle_set_parameter_def count_entry_def)

theorem absent_vehicle_returns_silently_witness:
  "table_kart_6dof empty_tables ''ghost'' = None \<and> table_f1_3dof empty_tables ''ghost'' = None
   \<and> optimal_laptime plain_collaborators empty_tables ''ghost'' ''monza'' 10 [] None
       = (empty_tables, None)
   \<and> gg_diagram plain_collaborators empty_tables ''ghost'' 30 50 = Inr None
   \<and> vehicle_set_parameter plain_collaborators empty_tables ''ghost'' ''chassis/mass'' 700
       = Inr empty_tables"
proof -
  have h: "table_kart_6dof empty_tables ''ghost'' = None" "table_f1_3dof empty_tables ''ghost'' = None"
    by (simp_all add: empty_tables_def)
  from absent_vehicle_returns_silently[OF h, of plain_collaborators "''monza''" 10 "[]" None 30 50
      "''chassis/mass''" 700] h
  show ?thesis by simp
qed

section \<open>Names registered twice\<close>

text \<open>
  Claim C10 says that every operation keeps each name in at most one of the five tables.
  \<^verbatim>\<open>compute_optimal_laptime\<close> asks only \<^verbatim>\<open>table_scalar\<close> and \<^verbatim>\<open>table_vector\<close> before
  it saves an output, and \<^verbatim>\<open>circuit_preprocessor\<close> asks only \<^verbatim>\<open>table_track\<close> before it
  saves the track.  Two runs from registries that satisfy the invariant: the first ends
  with \<open>run/laptime\<close> as a track and as a scalar, the second with \<open>x\<close> as a scalar
  and as a track.
\<close>

theorem saved_outputs_register_a_name_twice:
  "registry_invariant car_and_tracks
   \<and> optimal_laptime plain_collaborators car_and_tracks ''car'' ''monza'' 2 [0, 1]
         (Some laptime_output_document)
       = (car_and_tracks\<lparr>table_scalar := [''run/laptime'' \<mapsto> 90]\<rparr>, None)
   \<and> n_ocurrences (car_and_tracks\<lparr>table_scalar := [''run/laptime'' \<mapsto> 90]\<rparr>) ''run/laptime'' = 2
   \<and> \<not> registry_invariant (car_and_tracks\<lparr>table_scalar := [''run/laptime'' \<mapsto> 90]\<rparr>)
   \<and> registry_invariant one_scalar_tables
   \<and> circuit_preprocessor plain_collaborators one_scalar_tables preprocessor_document
       = (one_scalar_tables\<lparr>table_track := [''x'' \<mapsto> 7]\<rparr>, None)
   \<and> n_ocurrences (one_scalar_tables\<lparr>table_track := [''x'' \<mapsto> 7]\<rparr>) ''x'' = 2
   \<and> \<not> registry_invariant (one_scalar_tables\<lparr>table_track := [''x'' \<mapsto> 7]\<rparr>)"
proof -
  have a: "registry_invariant car_and_tracks"
    by (auto simp: registry_invariant_def car_and_tracks_def n_ocurrences_def count_entry_def)
  have b: "optimal_laptime plain_collaborators car_and_tracks ''car'' ''monza'' 2 [0, 1]
         (Some laptime_output_document)
       = (car_and_tracks\<lparr>table_scalar := [''run/laptime'' \<mapsto> 90]\<rparr>, None)"
    by (simp add: optimal_laptime_def car_and_tracks_def count_entry_def at_entry_def
        compute_optimal_laptime_def vehicle_table_def update_vehicle_def plain_collaborators_def
        steady_state_seed_speed_def Optimal_laptime_configuration_def laptime_output_document_def
        empty_document_def read_if_def read_xml_file_name_def read_output_variables_def
        read_steady_state_speed_def read_initial_condition_def read_control_variables_def
        read_integral_constraints_def default_configuration_def save_variable_def
        insert_scalar_def insert_entry_def)
  have c: "n_ocurrences (car_and_tracks\<lparr>table_scalar := [''run/laptime'' \<mapsto> 90]\<rparr>) ''run/laptime'' = 2"
    by (simp add: car_and_tracks_def n_ocurrences_def count_entry_def)
  have d: "registry_invariant one_scalar_tables"
    by (auto simp: registry_invariant_def one_scalar_tables_def n_ocurrences_def count_entry_def)
  have e: "circuit_preprocessor plain_collaborators one_scalar_tables preprocessor_document
       = (one_scalar_tables\<lparr>table_track := [''x'' \<mapsto> 7]\<rparr>, None)"
    by (simp add: circuit_preprocessor_def Circuit_preprocessor_configuration_def
        preprocessor_document_def empty_document_def mandatory_def read_if_def read_mode_def
        check_open_mode_def read_mesh_def read_optimization_def read_table_outputs_def
        default_circuit_preprocessor_configuration_def plain_collaborators_def construct_circuit_def
        save_track_to_table_def save_circuit_variables_def one_scalar_tables_def count_entry_def
        insert_entry_def)
  have f: "n_ocurrences (one_scalar_tables\<lparr>table_track := [''x'' \<mapsto> 7]\<rparr>) ''x'' = 2"
    by (simp add: one_scalar_tables_def n_ocurrences_def count_entry_def)
  have "\<not> registry_invariant (car_and_tracks\<lparr>table_scalar := [''run/laptime'' \<mapsto> 90]\<rparr>)"
    unfolding registry_invariant_def using c by (metis numeral_le_one_iff semiring_norm(69))
  moreover have "\<not> registry_invariant (one_scalar_tables\<lparr>table_track := [''x'' \<mapsto> 7]\<rparr>)"
    unfolding registry_invariant_def using f by (metis numeral_le_one_iff semiring_norm(69))
  ultimately show ?thesis using a b c d e f by blast
qed

section \<open>The recomputed time and the lap time\<close>

lemma fold_unchanged:
  assumes "\<And>x c. v (f x c) = v c"
  shows "v (fold f xs c) = v c"
  by (induction xs arbitrary: c) (simp_all add: assms)

lemma length_q_load_first_node: "length (fg_q (load_first_node d clo F)) = length (fg_q F)"
  by (simp add: load_first_node_def copy_first_def)

lemma length_q_load_direct: "length (fg_q (load_direct d clo F x)) = length (fg_q F)"
proof -
  have "length (fg_q (snd (fold (load_node_direct d x) is c))) = length (fg_q (snd c))" for "is" c
    by (rule fold_unchanged) (simp add: load_node_direct_def Let_def)
  then show ?thesis by (simp add: load_direct_def length_q_load_first_node)
qed

lemma length_q_load_derivative: "length (fg_q (load_derivative d clo F x)) = length (fg_q F)"
proof -
  have "length (fg_q (snd (fold (load_node_derivative d x) is c))) = length (fg_q (snd c))" for "is" c
    by (rule fold_unchanged) (simp add: load_node_derivative_def Let_def)
  then show ?thesis
    by (simp add: load_derivative_def load_first_node_derivative_def length_q_load_first_node)
qed

lemma length_q_FG_direct_call:
  "length (fg_q (fst (FG_direct_call d clo F x))) = length (fg_q F)"
  by (simp add: FG_direct_call_def Let_def length_q_load_direct)

lemma length_q_FG_derivative_call:
  "length (fg_q (fst (FG_derivative_call d clo F x))) = length (fg_q F)"
  by (simp add: FG_derivative_call_def Let_def length_q_load_derivative)

lemma set_position_simps:
  "opt_q (set_position i p ol) = opt_q ol" "opt_s (set_position i p ol) = opt_s ol"
  "opt_laptime (set_position i p ol) = opt_laptime ol"
  by (simp_all add: set_position_def)

lemma recover_node_simps:
  "fst (recover_node d F i st) = dtimeds d F (opt_s (snd st)) i"
  "opt_s (snd (recover_node d F i st)) = opt_s (snd st)"
  "opt_q (snd (recover_node d F i st)) =
     (opt_q (snd st))[i := (opt_q (snd st) ! i)[ITIME d := opt_q (snd st) ! (i - 1) ! ITIME d
        + 0.5 * (opt_s (snd st) ! i - opt_s (snd st) ! (i - 1)) * (dtimeds d F (opt_s (snd st)) i + fst st)]]"
  by (simp_all add: recover_node_def Let_def set_position_simps)

lemma recover_loop:
  fixes d F ol
  defines "init \<equiv> (dtimeds_first d F, set_position 0 (road_position d (fg_q F ! 0) (fg_qa F ! 0) (fg_u F ! 0) 0) ol)"
  assumes len: "\<And>i. i < length (opt_q ol) \<Longrightarrow> ITIME d < length (opt_q ol ! i)"
    and m: "m \<le> length (opt_q ol)"
  shows "fst (fold (recover_node d F) [1..<m] init) = dtimeds_prev_at d F (opt_s ol) m
       \<and> opt_s (snd (fold (recover_node d F) [1..<m] init)) = opt_s ol
       \<and> length (opt_q (snd (fold (recover_node d F) [1..<m] init))) = length (opt_q ol)
       \<and> (\<forall>i. m \<le> i \<longrightarrow> opt_q (snd (fold (recover_node d F) [1..<m] init)) ! i = opt_q ol ! i)
       \<and> (\<forall>i<length (opt_q ol). length (opt_q (snd (fold (recover_node d F) [1..<m] init)) ! i) = length (opt_q ol ! i))
       \<and> (\<forall>i. 1 \<le> i \<and> i < m \<longrightarrow>
            opt_q (snd (fold (recover_node d F) [1..<m] init)) ! i ! ITIME d =
            opt_q (snd (fold (recover_node d F) [1..<m] init)) ! (i - 1) ! ITIME d
              + 0.5 * (opt_s ol ! i - opt_s ol ! (i - 1))
                  * (dtimeds d F (opt_s ol) i + dtimeds_prev_at d F (opt_s ol) i))"
  using m
proof (induction m)
  case 0
  then show ?case by (simp add: init_def set_position_simps dtimeds_prev_at_def)
next
  case (Suc m)
  show ?case
  proof (cases "m = 0")
    case True
    then show ?thesis by (simp add: init_def set_position_simps dtimeds_prev_at_def)
  next
    case False
    define st where "st = fold (recover_node d F) [1..<m] init"
    have step: "fold (recover_node d F) [1..<Suc m] init = recover_node d F m st"
      using False by (simp add: st_def)
    from Suc have IH: "fst st = dtimeds_prev_at d F (opt_s ol) m"
      "opt_s (snd st) = opt_s ol" "length (opt_q (snd st)) = length (opt_q ol)"
      "\<And>i. m \<le> i \<Longrightarrow> opt_q (snd st) ! i = opt_q ol ! i"
      "\<And>i. i < length (opt_q ol) \<Longrightarrow> length (opt_q (snd st) ! i) = length (opt_q ol ! i)"
      "\<And>i. 1 \<le> i \<Longrightarrow> i < m \<Longrightarrow> opt_q (snd st) ! i ! ITIME d =
            opt_q (snd st) ! (i - 1) ! ITIME d
              + 0.5 * (opt_s ol ! i - opt_s ol ! (i - 1))
                  * (dtimeds d F (opt_s ol) i + dtimeds_prev_at d F (opt_s ol) i)"
      unfolding st_def by simp_all
    have mlt: "m < length (opt_q ol)" using Suc.prems by simp
    have tlen: "ITIME d < length (opt_q (snd st) ! m)" using IH(5)[OF mlt] len[OF mlt] by simp
    define q where "q = opt_q (snd st)"
    define v where "v = q ! (m - 1) ! ITIME d
        + 0.5 * (opt_s ol ! m - opt_s ol ! (m - 1)) * (dtimeds d F (opt_s ol) m + fst st)"
    have q': "opt_q (snd (recover_node d F m st)) = q[m := (q ! m)[ITIME d := v]]"
      by (simp add: recover_node_simps IH(2) q_def v_def)
    have qlen: "m < length q" using mlt IH(3) by (simp add: q_def)
    have c1: "fst (recover_node d F m st) = dtimeds_prev_at d F (opt_s ol) (Suc m)"
      using False by (simp add: recover_node_simps IH(2) dtimeds_prev_at_def)
    have c2: "opt_s (snd (recover_node d F m st)) = opt_s ol"
      by (simp add: recover_node_simps IH(2))
    have c3: "length (opt_q (snd (recover_node d F m st))) = length (opt_q ol)"
      by (simp add: q' IH(3)[folded q_def])
    have c4: "opt_q (snd (recover_node d F m st)) ! i = opt_q ol ! i" if "Suc m \<le> i" for i
      using that IH(4)[of i] by (simp add: q' q_def)
    have c5: "length (opt_q (snd (recover_node d F m st)) ! i) = length (opt_q ol ! i)"
      if "i < length (opt_q ol)" for i
      using that IH(5)[of i] qlen by (cases "i = m") (simp_all add: q' q_def)
    have c6: "opt_q (snd (recover_node d F m st)) ! i ! ITIME d =
            opt_q (snd (recover_node d F m st)) ! (i - 1) ! ITIME d
              + 0.5 * (opt_s ol ! i - opt_s ol ! (i - 1))
                  * (dtimeds d F (opt_s ol) i + dtimeds_prev_at d F (opt_s ol) i)"
      if "1 \<le> i" "i < Suc m" for i
    proof (cases "i = m")
      case True
      have "q[m := (q ! m)[ITIME d := v]] ! m ! ITIME d = v"
        using qlen tlen by (simp add: q_def)
      moreover have "q[m := (q ! m)[ITIME d := v]] ! (m - 1) = q ! (m - 1)"
        using False by simp
      ultimately show ?thesis
        unfolding q' True by (simp add: v_def IH(1))
    next
      case neq: False
      with that have lt: "i < m" by simp
      have "q[m := (q ! m)[ITIME d := v]] ! i = q ! i" using neq by simp
      moreover have "q[m := (q ! m)[ITIME d := v]] ! (i - 1) = q ! (i - 1)" using lt by simp
      ultimately show ?thesis
        unfolding q' using IH(6)[OF that(1) lt] by (simp add: q_def)
    qed
    show ?thesis
      unfolding step using c1 c2 c3 c4 c5 c6 by blast
  qed
qed


lemma export_solution_simps:
  "opt_s (export_solution d F ol) = opt_s ol"
  "length (opt_q (export_solution d F ol)) = opt_n_points ol"
  "i < opt_n_points ol \<Longrightarrow> length (opt_q (export_solution d F ol) ! i) = NSTATE d"
  by (simp_all add: export_solution_def)

lemma recover_time_facts:
  assumes "ITIME d < NSTATE d" and "length (fg_q F) = opt_n_points ol"
  shows "fst (recover_time d F (export_solution d F ol))
           = dtimeds_prev_at d F (opt_s ol) (opt_n_points ol)"
    and "opt_s (snd (recover_time d F (export_solution d F ol))) = opt_s ol"
    and "\<And>i. 1 \<le> i \<Longrightarrow> i < opt_n_points ol \<Longrightarrow>
           opt_q (snd (recover_time d F (export_solution d F ol))) ! i ! ITIME d =
           opt_q (snd (recover_time d F (export_solution d F ol))) ! (i - 1) ! ITIME d
             + 0.5 * (opt_s ol ! i - opt_s ol ! (i - 1))
                 * (dtimeds d F (opt_s ol) i + dtimeds_prev_at d F (opt_s ol) i)"
proof -
  let ?e = "export_solution d F ol"
  have len: "\<And>i. i < length (opt_q ?e) \<Longrightarrow> ITIME d < length (opt_q ?e ! i)"
    using assms(1) by (simp add: export_solution_simps)
  have m: "opt_n_points ol \<le> length (opt_q ?e)" by (simp add: export_solution_simps)
  note L = recover_loop[of ?e d "opt_n_points ol" F, OF len m,
      folded recover_time_def[of d F ?e, unfolded assms(2)], unfolded export_solution_simps]
  show "fst (recover_time d F ?e) = dtimeds_prev_at d F (opt_s ol) (opt_n_points ol)"
    using L by simp
  show "opt_s (snd (recover_time d F ?e)) = opt_s ol" using L by simp
  show "\<And>i. 1 \<le> i \<Longrightarrow> i < opt_n_points ol \<Longrightarrow>
           opt_q (snd (recover_time d F ?e)) ! i ! ITIME d =
           opt_q (snd (recover_time d F ?e)) ! (i - 1) ! ITIME d
             + 0.5 * (opt_s ol ! i - opt_s ol ! (i - 1))
                 * (dtimeds d F (opt_s ol) i + dtimeds_prev_at d F (opt_s ol) i)"
    using L by simp
qed

lemma laptime_direct_simps:
  "opt_q (laptime_direct d clo F st) = opt_q (snd st)"
  "opt_s (laptime_direct d clo F st) = opt_s (snd st)"
  "opt_laptime (laptime_direct d True F st) =
     last (opt_q (snd st)) ! ITIME d
       + 0.5 * (track_length d - last (opt_s (snd st))) * (fst st * dtimeds_first d F)"
  "opt_laptime (laptime_direct d False F st) = last (opt_q (snd st)) ! ITIME d"
  by (simp_all add: laptime_direct_def Let_def)

lemma laptime_derivative_simps:
  "opt_q (laptime_derivative d clo F st) = opt_q (snd st)"
  "opt_s (laptime_derivative d clo F st) = opt_s (snd st)"
  "opt_laptime (laptime_derivative d True F st) =
     last (opt_q (snd st)) ! ITIME d
       + 0.5 * (track_length d - last (opt_s (snd st))) * (fst st + dtimeds_first d F)"
  "opt_laptime (laptime_derivative d False F st) = last (opt_q (snd st)) ! ITIME d"
  by (simp_all add: laptime_derivative_def Let_def)

lemma direct_laptime:
  assumes "ITIME d < NSTATE d" and "length (fg_q F) = opt_n_points ol"
  shows "opt_laptime (finish_direct d True F x ol) =
           last (opt_q (finish_direct d True F x ol)) ! ITIME d
             + 0.5 * (track_length d - last (opt_s ol))
                 * (dtimeds_prev_at d (fst (FG_direct_call d True F x)) (opt_s ol) (opt_n_points ol)
                    * dtimeds_first d (fst (FG_direct_call d True F x)))"
proof -
  let ?F = "fst (FG_direct_call d True F x)"
  have len: "length (fg_q ?F) = opt_n_points ol"
    using assms(2) by (simp add: length_q_FG_direct_call)
  show ?thesis
    by (simp add: finish_direct_def Let_def laptime_direct_simps
        recover_time_facts(1,2)[OF assms(1) len])
qed

lemma derivative_laptime:
  assumes "ITIME d < NSTATE d" and "length (fg_q F) = opt_n_points ol"
  shows "opt_laptime (finish_derivative d True F x ol) =
           last (opt_q (finish_derivative d True F x ol)) ! ITIME d
             + 0.5 * (track_length d - last (opt_s ol))
                 * (dtimeds_prev_at d (fst (FG_derivative_call d True F x)) (opt_s ol) (opt_n_points ol)
                    + dtimeds_first d (fst (FG_derivative_call d True F x)))"
proof -
  let ?F = "fst (FG_derivative_call d True F x)"
  have len: "length (fg_q ?F) = opt_n_points ol"
    using assms(2) by (simp add: length_q_FG_derivative_call)
  show ?thesis
    by (simp add: finish_derivative_def Let_def laptime_derivative_simps
        recover_time_facts(1,2)[OF assms(1) len])
qed

lemma time_recovery_direct:
  assumes "ITIME d < NSTATE d" and "length (fg_q F) = opt_n_points ol"
    and "1 \<le> i" and "i < opt_n_points ol"
  shows "opt_q (finish_direct d clo F x ol) ! i ! ITIME d =
           opt_q (finish_direct d clo F x ol) ! (i - 1) ! ITIME d
             + 0.5 * (opt_s ol ! i - opt_s ol ! (i - 1))
                 * (dtimeds d (fst (FG_direct_call d clo F x)) (opt_s ol) i
                    + dtimeds_prev_at d (fst (FG_direct_call d clo F x)) (opt_s ol) i)"
proof -
  let ?F = "fst (FG_direct_call d clo F x)"
  have len: "length (fg_q ?F) = opt_n_points ol"
    using assms(2) by (simp add: length_q_FG_direct_call)
  show ?thesis
    using recover_time_facts(3)[OF assms(1) len assms(3,4)]
    by (simp add: finish_direct_def Let_def laptime_direct_simps)
qed

lemma time_recovery_derivative:
  assumes "ITIME d < NSTATE d" and "length (fg_q F) = opt_n_points ol"
    and "1 \<le> i" and "i < opt_n_points ol"
  shows "opt_q (finish_derivative d clo F x ol) ! i ! ITIME d =
           opt_q (finish_derivative d clo F x ol) ! (i - 1) ! ITIME d
             + 0.5 * (opt_s ol ! i - opt_s ol ! (i - 1))
                 * (dtimeds d (fst (FG_derivative_call d clo F x)) (opt_s ol) i
                    + dtimeds_prev_at d (fst (FG_derivative_call d clo F x)) (opt_s ol) i)"
proof -
  let ?F = "fst (FG_derivative_call d clo F x)"
  have len: "length (fg_q ?F) = opt_n_points ol"
    using assms(2) by (simp add: length_q_FG_derivative_call)
  show ?thesis
    using recover_time_facts(3)[OF assms(1) len assms(3,4)]
    by (simp add: finish_derivative_def Let_def laptime_derivative_simps)
qed

text \<open>
  Claim C1 says that for a closed track both transcriptions report the time of the last
  node plus \<open>0.5 * (L - s.back()) * (dtimeds_last + dtimeds_first)\<close>.  In
  \<^verbatim>\<open>compute_direct\<close> the two rates are multiplied: for every point \<open>x\<close> that the
  solver returns, the lap time is the time of the last node plus
  \<open>0.5 * (L - s.back()) * (dtimeds_prev * dtimeds_first)\<close>, where \<^verbatim>\<open>dtimeds_prev\<close> is
  the rate of the last node.  \<^verbatim>\<open>compute_derivative\<close> adds them (lemma
  \<open>derivative_laptime\<close>).
\<close>

theorem direct_laptime_wraps_with_product:
  assumes "ITIME d < NSTATE d" and "length (fg_q F) = opt_n_points ol"
  shows "opt_laptime (finish_direct d True F x ol) =
           last (opt_q (finish_direct d True F x ol)) ! ITIME d
             + 0.5 * (track_length d - last (opt_s ol))
                 * (dtimeds_prev_at d (fst (FG_direct_call d True F x)) (opt_s ol) (opt_n_points ol)
                    * dtimeds_first d (fst (FG_direct_call d True F x)))"
  using assms by (rule direct_laptime)

text \<open>
  The closed toy track with two elements, direct transcription: the nodes are at 0 and 2,
  the rates are 1 and 3, the time of the last node is 4 and the last element has length
  2.  The reported lap time is \<open>4 + 0.5 * 2 * (3 * 1) = 7\<close>; the claim gives
  \<open>4 + 0.5 * 2 * (3 + 1) = 8\<close>, which is also what the derivative transcription
  reports on the same input.
\<close>

theorem direct_laptime_wraps_with_product_witness:
  "ITIME toy_model < NSTATE toy_model
   \<and> length (fg_q (FG_direct toy_model 2 2 [0, 2] [50, 0, 1] [] [1 / 2] [1]))
       = opt_n_points two_node_object
   \<and> Optimal_laptime_uniform toy_model keep_start 2 True True [50, 0, 1] [] [1 / 2] [1]
       = Inr (finish_direct toy_model True (FG_direct toy_model 2 2 [0, 2] [50, 0, 1] [] [1 / 2] [1])
                [50, 1, 1 / 2, 50, 1, 1 / 2] two_node_object)
   \<and> opt_laptime (finish_direct toy_model True
         (FG_direct toy_model 2 2 [0, 2] [50, 0, 1] [] [1 / 2] [1])
         [50, 1, 1 / 2, 50, 1, 1 / 2] two_node_object) = 7
   \<and> last (opt_q (finish_direct toy_model True
         (FG_direct toy_model 2 2 [0, 2] [50, 0, 1] [] [1 / 2] [1])
         [50, 1, 1 / 2, 50, 1, 1 / 2] two_node_object)) ! ITIME toy_model
       + 0.5 * (track_length toy_model - last (opt_s two_node_object))
           * (dtimeds toy_model
                (fst (FG_direct_call toy_model True
                       (FG_direct toy_model 2 2 [0, 2] [50, 0, 1] [] [1 / 2] [1])
                       [50, 1, 1 / 2, 50, 1, 1 / 2])) (opt_s two_node_object) 1
              + dtimeds_first toy_model
                  (fst (FG_direct_call toy_model True
                         (FG_direct toy_model 2 2 [0, 2] [50, 0, 1] [] [1 / 2] [1])
                         [50, 1, 1 / 2, 50, 1, 1 / 2]))) = 8
   \<and> map_sum id opt_laptime
         (Optimal_laptime_uniform toy_model keep_start 2 True False [50, 0, 1] [] [1 / 2] [1])
       = Inr 8"
proof -
  let ?F = "FG_direct toy_model 2 2 [0, 2] [50, 0, 1] [] [1 / 2] [1]"
  let ?x = "[50, 1, 1 / 2, 50, 1, 1 / 2] :: real list"
  have h1: "ITIME toy_model < NSTATE toy_model" by (simp add: toy_model_def)
  have h2: "length (fg_q ?F) = opt_n_points two_node_object"
    by (simp add: FG_direct_def two_node_object_def new_object_def)
  have run: "Optimal_laptime_uniform toy_model keep_start 2 True True [50, 0, 1] [] [1 / 2] [1]
       = Inr (finish_direct toy_model True ?F ?x two_node_object)"
    by code_simp
  have last: "last (opt_q (finish_direct toy_model True ?F ?x two_node_object)) ! ITIME toy_model = 4"
    by code_simp
  have code: "opt_laptime (finish_direct toy_model True ?F ?x two_node_object) = 7"
    unfolding direct_laptime_wraps_with_product[OF h1 h2] last by code_simp
  have claim: "4 + 0.5 * (track_length toy_model - last (opt_s two_node_object))
           * (dtimeds toy_model (fst (FG_direct_call toy_model True ?F ?x)) (opt_s two_node_object) 1
              + dtimeds_first toy_model (fst (FG_direct_call toy_model True ?F ?x))) = 8"
    by code_simp
  have sibling: "map_sum id opt_laptime
         (Optimal_laptime_uniform toy_model keep_start 2 True False [50, 0, 1] [] [1 / 2] [1])
       = Inr 8"
    by code_simp
  from h1 h2 run code claim sibling show ?thesis unfolding last by blast
qed

section \<open>The constructor from a range of arclength\<close>

text \<open>
  Claim C2 says that the constructor from \<^verbatim>\<open>s_start\<close>, \<^verbatim>\<open>s_finish\<close> and \<^verbatim>\<open>n\<close> raises
  an error when \<^verbatim>\<open>s_finish\<close> exceeds the track length and builds the mesh otherwise,
  without reading the arclength vector before it is assigned.  The constructor compares
  \<^verbatim>\<open>s.back()\<close> with the track length while \<^verbatim>\<open>s\<close> is still empty: whatever
  \<^verbatim>\<open>s_finish\<close> is, a call that passes the check of \<^verbatim>\<open>s_start\<close> reads the last element
  of an empty vector, and neither the error for \<^verbatim>\<open>s_finish\<close> nor the mesh is reached.
\<close>

theorem range_constructor_reads_empty_arclength:
  "Optimal_laptime_range d ipopt s_start s_finish n direct q0 qa0 u0 diss =
     (if s_start < - (1 / 10 ^ 12) then Inl (Runtime_error ''s_start must be >= 0'')
      else Inl (Undefined_behaviour ''back() of an empty vector''))"
  by (simp add: Optimal_laptime_range_def new_object_def vector_back_def)

section \<open>A solver that does not succeed\<close>

text \<open>
  Claim C8.  In both transcriptions and for open and closed tracks: when the object holds
  at least one node and the status of the solver call is not \<open>success\<close>,
  \<^verbatim>\<open>compute\<close> throws the runtime error "Optimization did not succeed"; hence
  \<^verbatim>\<open>compute\<close> returns an object only if the status was \<open>success\<close>.
\<close>

theorem solver_failure_raises:
  assumes "vector_front (opt_q ol) = Inr q0" and "vector_front (opt_qa ol) = Inr qa0"
    and "vector_front (opt_u ol) = Inr u0"
  shows "(status (if direct
                  then call_solver_direct d ipopt clo
                         (FG_direct d (opt_n_elements ol) (opt_n_points ol) (opt_s ol) q0 qa0 u0 diss) ol
                  else call_solver_derivative d ipopt clo
                         (FG_derivative d (opt_n_elements ol) (opt_n_points ol) (opt_s ol) q0 qa0 u0 diss) ol)
            \<noteq> success
          \<longrightarrow> compute d ipopt clo direct diss ol = Inl (Runtime_error ''Optimization did not succeed''))
       \<and> (\<forall>ol'. compute d ipopt clo direct diss ol = Inr ol' \<longrightarrow>
            status (if direct
                    then call_solver_direct d ipopt clo
                           (FG_direct d (opt_n_elements ol) (opt_n_points ol) (opt_s ol) q0 qa0 u0 diss) ol
                    else call_solver_derivative d ipopt clo
                           (FG_derivative d (opt_n_elements ol) (opt_n_points ol) (opt_s ol) q0 qa0 u0 diss) ol)
              = success)"
  using assms
  by (auto simp: compute_def compute_direct_def compute_derivative_def Let_def split: if_splits)

theorem solver_failure_raises_witness:
  "vector_front (opt_q two_node_object) = Inr [50, 0, 1]
   \<and> vector_front (opt_qa two_node_object) = Inr []
   \<and> vector_front (opt_u two_node_object) = Inr [1 / 2]
   \<and> status (call_solver_direct toy_model give_up True
               (FG_direct toy_model 2 2 [0, 2] [50, 0, 1] [] [1 / 2] [1]) two_node_object)
       \<noteq> success
   \<and> compute toy_model give_up True True [1] two_node_object
       = Inl (Runtime_error ''Optimization did not succeed'')
   \<and> status (call_solver_derivative toy_model give_up False
               (FG_derivative toy_model 2 2 [0, 2] [50, 0, 1] [] [1 / 2] [1]) two_node_object)
       \<noteq> success
   \<and> compute toy_model give_up False False [1] two_node_object
       = Inl (Runtime_error ''Optimization did not succeed'')"
proof -
  have f: "vector_front (opt_q two_node_object) = Inr [50, 0, 1]"
    "vector_front (opt_qa two_node_object) = Inr []"
    "vector_front (opt_u two_node_object) = Inr [1 / 2]"
    by (simp_all add: two_node_object_def new_object_def vector_front_def)
  have o: "opt_n_elements two_node_object = 2" "opt_n_points two_node_object = 2"
    "opt_s two_node_object = [0, 2]"
    by (simp_all add: two_node_object_def new_object_def)
  have s1: "status (call_solver_direct toy_model give_up True
               (FG_direct toy_model 2 2 [0, 2] [50, 0, 1] [] [1 / 2] [1]) two_node_object)
       \<noteq> success"
    by (simp add: call_solver_direct_def give_up_def Let_def)
  have s2: "status (call_solver_derivative toy_model give_up False
               (FG_derivative toy_model 2 2 [0, 2] [50, 0, 1] [] [1 / 2] [1]) two_node_object)
       \<noteq> success"
    by (simp add: call_solver_derivative_def give_up_def Let_def)
  from solver_failure_raises[OF f, of True toy_model give_up True "[1]"] s1
  have c1: "compute toy_model give_up True True [1] two_node_object
       = Inl (Runtime_error ''Optimization did not succeed'')"
    by (simp add: o)
  from solver_failure_raises[OF f, of False toy_model give_up False "[1]"] s2
  have c2: "compute toy_model give_up False False [1] two_node_object
       = Inl (Runtime_error ''Optimization did not succeed'')"
    by (simp add: o)
  from f s1 s2 c1 c2 show ?thesis by blast
qed

section \<open>The recomputed time at the first element\<close>

text \<open>
  Claim C5 says that after every solve the exported times satisfy
  \<open>q_i[ITIME] = q_{i-1}[ITIME] + 0.5 * (s_i - s_{i-1}) * (dtimeds_{i-1} + dtimeds_i)\<close>
  at every node \<open>i \<ge> 1\<close>, with \<open>dtimeds_i\<close> the rate of the model at the solved node
  \<open>i\<close>.  What both \<^verbatim>\<open>compute\<close> functions establish, for every point \<open>x\<close> of the
  solver, is the relation with \<^verbatim>\<open>dtimeds_prev\<close> in the place of \<open>dtimeds_{i-1}\<close>: for
  \<open>i \<ge> 2\<close> that is the rate at node \<open>i - 1\<close> and arclength \<open>s_{i-1}\<close>, and for
  \<open>i = 1\<close> it is \<^verbatim>\<open>dtimeds_first\<close>, the rate at node 0 taken at the arclength
  \<^verbatim>\<open>0.0\<close> and not at \<open>s_0\<close>.
\<close>

theorem recomputed_time_relation:
  assumes "ITIME d < NSTATE d" and "length (fg_q F) = opt_n_points ol"
    and "1 \<le> i" and "i < opt_n_points ol"
  shows "opt_q (finish_direct d clo F x ol) ! i ! ITIME d =
           opt_q (finish_direct d clo F x ol) ! (i - 1) ! ITIME d
             + 0.5 * (opt_s ol ! i - opt_s ol ! (i - 1))
                 * (dtimeds d (fst (FG_direct_call d clo F x)) (opt_s ol) i
                    + dtimeds_prev_at d (fst (FG_direct_call d clo F x)) (opt_s ol) i)
         \<and> opt_q (finish_derivative d clo F x ol) ! i ! ITIME d =
           opt_q (finish_derivative d clo F x ol) ! (i - 1) ! ITIME d
             + 0.5 * (opt_s ol ! i - opt_s ol ! (i - 1))
                 * (dtimeds d (fst (FG_derivative_call d clo F x)) (opt_s ol) i
                    + dtimeds_prev_at d (fst (FG_derivative_call d clo F x)) (opt_s ol) i)"
  using time_recovery_direct[OF assms] time_recovery_derivative[OF assms] by simp

text \<open>
  The open toy track with the mesh \<open>[1, 2]\<close>, direct transcription.  The rate at node
  0 is \<open>1 + s_0 = 2\<close> and the rate at node 1 is 3, so the claim gives
  \<open>q_1[ITIME] = 0 + 0.5 * 1 * (2 + 3) = 5/2\<close>.  The program takes the rate of node 0 at
  arclength 0, which is 1, and exports \<open>q_1[ITIME] = 0 + 0.5 * 1 * (3 + 1) = 2\<close>.
\<close>

theorem recomputed_time_relation_witness:
  "ITIME toy_model < NSTATE toy_model
   \<and> length (fg_q (FG_direct toy_model 1 2 [1, 2] [50, 0, 1] [] [1 / 2] [1]))
       = opt_n_points open_two_node_object
   \<and> (1::nat) \<le> 1 \<and> 1 < opt_n_points open_two_node_object
   \<and> Optimal_laptime_mesh toy_model keep_start [1, 2] False True [50, 0, 1] [] [1 / 2] [1]
       = Inr (finish_direct toy_model False (FG_direct toy_model 1 2 [1, 2] [50, 0, 1] [] [1 / 2] [1])
                [50, 1, 1 / 2] open_two_node_object)
   \<and> opt_q (finish_direct toy_model False (FG_direct toy_model 1 2 [1, 2] [50, 0, 1] [] [1 / 2] [1])
              [50, 1, 1 / 2] open_two_node_object) ! 1 ! ITIME toy_model = 2
   \<and> opt_q (finish_direct toy_model False (FG_direct toy_model 1 2 [1, 2] [50, 0, 1] [] [1 / 2] [1])
              [50, 1, 1 / 2] open_two_node_object) ! 0 ! ITIME toy_model
       + 0.5 * (opt_s open_two_node_object ! 1 - opt_s open_two_node_object ! 0)
           * (dtimeds toy_model
                (fst (FG_direct_call toy_model False
                       (FG_direct toy_model 1 2 [1, 2] [50, 0, 1] [] [1 / 2] [1]) [50, 1, 1 / 2]))
                (opt_s open_two_node_object) 0
              + dtimeds toy_model
                  (fst (FG_direct_call toy_model False
                         (FG_direct toy_model 1 2 [1, 2] [50, 0, 1] [] [1 / 2] [1]) [50, 1, 1 / 2]))
                  (opt_s open_two_node_object) 1) = 5 / 2"
proof -
  let ?F = "FG_direct toy_model 1 2 [1, 2] [50, 0, 1] [] [1 / 2] [1]"
  let ?x = "[50, 1, 1 / 2] :: real list"
  let ?ol = "finish_direct toy_model False ?F ?x open_two_node_object"
  have h1: "ITIME toy_model < NSTATE toy_model" by (simp add: toy_model_def)
  have h2: "length (fg_q ?F) = opt_n_points open_two_node_object"
    by (simp add: FG_direct_def open_two_node_object_def new_object_def)
  have h3: "(1::nat) \<le> 1" by simp
  have h4: "1 < opt_n_points open_two_node_object"
    by (simp add: open_two_node_object_def new_object_def)
  have run: "Optimal_laptime_mesh toy_model keep_start [1, 2] False True [50, 0, 1] [] [1 / 2] [1]
       = Inr ?ol"
    by code_simp
  have q0: "opt_q ?ol ! 0 ! ITIME toy_model = 0" "opt_q ?ol ! (1 - 1) ! ITIME toy_model = 0"
    by code_simp+
  have rates: "dtimeds toy_model (fst (FG_direct_call toy_model False ?F ?x))
                 (opt_s open_two_node_object) 1 = 3"
    "dtimeds_prev_at toy_model (fst (FG_direct_call toy_model False ?F ?x))
       (opt_s open_two_node_object) 1 = 1"
    "dtimeds toy_model (fst (FG_direct_call toy_model False ?F ?x))
       (opt_s open_two_node_object) 0 = 2"
    "opt_s open_two_node_object ! 1 - opt_s open_two_node_object ! 0 = 1"
    "opt_s open_two_node_object ! 1 - opt_s open_two_node_object ! (1 - 1) = 1"
    by code_simp+
  have rel: "opt_q ?ol ! 1 ! ITIME toy_model =
           opt_q ?ol ! (1 - 1) ! ITIME toy_model
             + 0.5 * (opt_s open_two_node_object ! 1 - opt_s open_two_node_object ! (1 - 1))
                 * (dtimeds toy_model (fst (FG_direct_call toy_model False ?F ?x))
                      (opt_s open_two_node_object) 1
                    + dtimeds_prev_at toy_model (fst (FG_direct_call toy_model False ?F ?x))
                        (opt_s open_two_node_object) 1)"
    using recomputed_time_relation[OF h1 h2 h3 h4, of False ?x] by (rule conjunct1)
  have code: "opt_q ?ol ! 1 ! ITIME toy_model = 2"
    unfolding rel rates q0 by simp
  have claim: "opt_q ?ol ! 0 ! ITIME toy_model
       + 0.5 * (opt_s open_two_node_object ! 1 - opt_s open_two_node_object ! 0)
           * (dtimeds toy_model (fst (FG_direct_call toy_model False ?F ?x))
                (opt_s open_two_node_object) 0
              + dtimeds toy_model (fst (FG_direct_call toy_model False ?F ?x))
                  (opt_s open_two_node_object) 1) = 5 / 2"
    unfolding rates q0 by simp
  from h1 h2 h3 h4 run code claim show ?thesis by blast
qed

section \<open>Vectors written through a running index\<close>

lemma fold_push_map: "fold (\<lambda>j. push (f j)) js c = fold push (map f js) c"
  by (simp add: fold_map comp_def)

lemma fst_push: "fst (push v c) = Suc (fst c)"
  and snd_push: "snd (push v c) = (snd c)[fst c := v]"
  by (simp_all add: push_def)

lemma fst_fold_push: "fst (fold push vs c) = fst c + length vs"
  by (induction vs arbitrary: c) (simp_all add: fst_push)

lemma length_fold_push: "length (snd (fold push vs c)) = length (snd c)"
  by (induction vs arbitrary: c) (simp_all add: snd_push)

lemma nth_fold_push:
  "snd (fold push vs c) ! n =
     (if fst c \<le> n \<and> n < fst c + length vs \<and> n < length (snd c) then vs ! (n - fst c)
      else snd c ! n)"
proof (induction vs arbitrary: c)
  case Nil
  then show ?case by simp
next
  case (Cons v vs)
  have "snd (fold push (v # vs) c) ! n =
      (if Suc (fst c) \<le> n \<and> n < Suc (fst c) + length vs \<and> n < length (snd c)
       then vs ! (n - Suc (fst c)) else (snd c)[fst c := v] ! n)"
    by (simp add: Cons.IH fst_push snd_push)
  also have "\<dots> = (if fst c \<le> n \<and> n < fst c + length (v # vs) \<and> n < length (snd c)
       then (v # vs) ! (n - fst c) else snd c ! n)"
    by (auto simp: nth_list_update nth_Cons' Suc_diff_le list_update_beyond)
  finally show ?case .
qed

lemma fold_push_fold_push: "fold push xs (fold push ys c) = fold push (ys @ xs) c"
  by simp

lemma push_fold_push: "push v (fold push ys c) = fold push (ys @ [v]) c"
  by simp

lemma push_start: "push v (k, xs) = fold push [v] (k, xs)"
  by simp

lemma concat_blocks_length:
  assumes "\<And>i. i \<in> set xs \<Longrightarrow> length (blk i) = m"
  shows "length (concat (map blk xs)) = length xs * m"
  using assms by (induction xs) simp_all

lemma concat_blocks_nth:
  assumes "\<And>i. length (blk i) = m" and "a \<le> i" and "i < b" and "p < m"
  shows "concat (map blk [a..<b]) ! ((i - a) * m + p) = blk i ! p"
  using assms(3)
proof (induction b)
  case 0
  then show ?case by simp
next
  case (Suc b)
  have len: "length (concat (map blk [a..<b])) = (b - a) * m"
    using concat_blocks_length[of "[a..<b]" blk m] assms(1) by simp
  show ?case
  proof (cases "i < b")
    case True
    then have "(i - a) * m + p < (b - a) * m"
    proof -
      have "Suc (i - a) \<le> b - a" using True assms(2) by simp
      then have "Suc (i - a) * m \<le> (b - a) * m" by (rule mult_le_mono1)
      then show ?thesis using assms(4) by simp
    qed
    with True Suc.IH assms(2) show ?thesis
      by (cases "a \<le> b") (simp_all add: nth_append len)
  next
    case False
    with Suc.prems have "i = b" by simp
    with assms(2) show ?thesis by (simp add: nth_append len)
  qed
qed


lemma x0_set_variable: "(kx (set_variable a l u b), x0 (set_variable a l u b)) = push a (kx (b), x0 (b))"
  by (simp add: set_variable_def push_def)

lemma x0_set_constraint: "(kx (set_constraint l u b), x0 (set_constraint l u b)) = (kx (b), x0 (b))"
  by (simp add: set_constraint_def)

lemma x0_fold_both: "(kx (fold (\<lambda>j b. set_constraint 0 0 (set_variable (a j) (l j) (u j) b)) js b), x0 (fold (\<lambda>j b. set_constraint 0 0 (set_variable (a j) (l j) (u j) b)) js b)) = fold push (map a js) (kx (b), x0 (b))"
  by (induction js arbitrary: b) (simp_all add: x0_set_variable x0_set_constraint)

lemma x0_fold_variable: "(kx (fold (\<lambda>j. set_variable (a j) (l j) (u j)) js b), x0 (fold (\<lambda>j. set_variable (a j) (l j) (u j)) js b)) = fold push (map a js) (kx (b), x0 (b))"
  by (induction js arbitrary: b) (simp_all add: x0_set_variable)

lemma x0_fold_constraint: "(kx (fold (\<lambda>j. set_constraint (l j) (u j)) js b), x0 (fold (\<lambda>j. set_constraint (l j) (u j)) js b)) = (kx (b), x0 (b))"
  by (induction js arbitrary: b) (simp_all add: x0_set_constraint)

lemmas x0_view = x0_set_variable x0_set_constraint x0_fold_both x0_fold_variable x0_fold_constraint

lemma x_lb_set_variable: "(kx (set_variable a l u b), x_lb (set_variable a l u b)) = push l (kx (b), x_lb (b))"
  by (simp add: set_variable_def push_def)

lemma x_lb_set_constraint: "(kx (set_constraint l u b), x_lb (set_constraint l u b)) = (kx (b), x_lb (b))"
  by (simp add: set_constraint_def)

lemma x_lb_fold_both: "(kx (fold (\<lambda>j b. set_constraint 0 0 (set_variable (a j) (l j) (u j) b)) js b), x_lb (fold (\<lambda>j b. set_constraint 0 0 (set_variable (a j) (l j) (u j) b)) js b)) = fold push (map l js) (kx (b), x_lb (b))"
  by (induction js arbitrary: b) (simp_all add: x_lb_set_variable x_lb_set_constraint)

lemma x_lb_fold_variable: "(kx (fold (\<lambda>j. set_variable (a j) (l j) (u j)) js b), x_lb (fold (\<lambda>j. set_variable (a j) (l j) (u j)) js b)) = fold push (map l js) (kx (b), x_lb (b))"
  by (induction js arbitrary: b) (simp_all add: x_lb_set_variable)

lemma x_lb_fold_constraint: "(kx (fold (\<lambda>j. set_constraint (l j) (u j)) js b), x_lb (fold (\<lambda>j. set_constraint (l j) (u j)) js b)) = (kx (b), x_lb (b))"
  by (induction js arbitrary: b) (simp_all add: x_lb_set_constraint)

lemmas x_lb_view = x_lb_set_variable x_lb_set_constraint x_lb_fold_both x_lb_fold_variable x_lb_fold_constraint

lemma x_ub_set_variable: "(kx (set_variable a l u b), x_ub (set_variable a l u b)) = push u (kx (b), x_ub (b))"
  by (simp add: set_variable_def push_def)

lemma x_ub_set_constraint: "(kx (set_constraint l u b), x_ub (set_constraint l u b)) = (kx (b), x_ub (b))"
  by (simp add: set_constraint_def)

lemma x_ub_fold_both: "(kx (fold (\<lambda>j b. set_constraint 0 0 (set_variable (a j) (l j) (u j) b)) js b), x_ub (fold (\<lambda>j b. set_constraint 0 0 (set_variable (a j) (l j) (u j) b)) js b)) = fold push (map u js) (kx (b), x_ub (b))"
  by (induction js arbitrary: b) (simp_all add: x_ub_set_variable x_ub_set_constraint)

lemma x_ub_fold_variable: "(kx (fold (\<lambda>j. set_variable (a j) (l j) (u j)) js b), x_ub (fold (\<lambda>j. set_variable (a j) (l j) (u j)) js b)) = fold push (map u js) (kx (b), x_ub (b))"
  by (induction js arbitrary: b) (simp_all add: x_ub_set_variable)

lemma x_ub_fold_constraint: "(kx (fold (\<lambda>j. set_constraint (l j) (u j)) js b), x_ub (fold (\<lambda>j. set_constraint (l j) (u j)) js b)) = (kx (b), x_ub (b))"
  by (induction js arbitrary: b) (simp_all add: x_ub_set_constraint)

lemmas x_ub_view = x_ub_set_variable x_ub_set_constraint x_ub_fold_both x_ub_fold_variable x_ub_fold_constraint

lemma c_lb_set_variable: "(kc (set_variable a l u b), c_lb (set_variable a l u b)) = (kc (b), c_lb (b))"
  by (simp add: set_variable_def)

lemma c_lb_set_constraint: "(kc (set_constraint l u b), c_lb (set_constraint l u b)) = push l (kc (b), c_lb (b))"
  by (simp add: set_constraint_def push_def)

lemma c_lb_fold_both: "(kc (fold (\<lambda>j b. set_constraint 0 0 (set_variable (a j) (l j) (u j) b)) js b), c_lb (fold (\<lambda>j b. set_constraint 0 0 (set_variable (a j) (l j) (u j) b)) js b)) = fold push (map (\<lambda>j. 0) js) (kc (b), c_lb (b))"
  by (induction js arbitrary: b) (simp_all add: c_lb_set_variable c_lb_set_constraint)

lemma c_lb_fold_variable: "(kc (fold (\<lambda>j. set_variable (a j) (l j) (u j)) js b), c_lb (fold (\<lambda>j. set_variable (a j) (l j) (u j)) js b)) = (kc (b), c_lb (b))"
  by (induction js arbitrary: b) (simp_all add: c_lb_set_variable)

lemma c_lb_fold_constraint: "(kc (fold (\<lambda>j. set_constraint (l j) (u j)) js b), c_lb (fold (\<lambda>j. set_constraint (l j) (u j)) js b)) = fold push (map l js) (kc (b), c_lb (b))"
  by (induction js arbitrary: b) (simp_all add: c_lb_set_constraint)

lemmas c_lb_view = c_lb_set_variable c_lb_set_constraint c_lb_fold_both c_lb_fold_variable c_lb_fold_constraint

lemma c_ub_set_variable: "(kc (set_variable a l u b), c_ub (set_variable a l u b)) = (kc (b), c_ub (b))"
  by (simp add: set_variable_def)

lemma c_ub_set_constraint: "(kc (set_constraint l u b), c_ub (set_constraint l u b)) = push u (kc (b), c_ub (b))"
  by (simp add: set_constraint_def push_def)

lemma c_ub_fold_both: "(kc (fold (\<lambda>j b. set_constraint 0 0 (set_variable (a j) (l j) (u j) b)) js b), c_ub (fold (\<lambda>j b. set_constraint 0 0 (set_variable (a j) (l j) (u j) b)) js b)) = fold push (map (\<lambda>j. 0) js) (kc (b), c_ub (b))"
  by (induction js arbitrary: b) (simp_all add: c_ub_set_variable c_ub_set_constraint)

lemma c_ub_fold_variable: "(kc (fold (\<lambda>j. set_variable (a j) (l j) (u j)) js b), c_ub (fold (\<lambda>j. set_variable (a j) (l j) (u j)) js b)) = (kc (b), c_ub (b))"
  by (induction js arbitrary: b) (simp_all add: c_ub_set_variable)

lemma c_ub_fold_constraint: "(kc (fold (\<lambda>j. set_constraint (l j) (u j)) js b), c_ub (fold (\<lambda>j. set_constraint (l j) (u j)) js b)) = fold push (map u js) (kc (b), c_ub (b))"
  by (induction js arbitrary: b) (simp_all add: c_ub_set_constraint)

lemmas c_ub_view = c_ub_set_variable c_ub_set_constraint c_ub_fold_both c_ub_fold_variable c_ub_fold_constraint


lemma x0_bounds_node_direct:
  "(kx (bounds_node_direct d ol i b), x0 (bounds_node_direct d ol i b)) = fold push (node_start d True ol i) (kx (b), x0 (b))"
  by (simp add: bounds_node_direct_def bounds_states_def Let_def x0_view node_start_def
      fold_push_fold_push push_fold_push del: fold_append fold_simps)

lemma x0_bounds_direct:
  "(kx (bounds_direct d clo F ol), x0 (bounds_direct d clo F ol)) =
     fold push (concat (map (\<lambda>i. node_start d True ol i) [offset clo..<opt_n_points ol])) (kx (initial_bounds F), x0 (initial_bounds F))"
proof -
  have "(kx (fold (bounds_node_direct d ol) ns b), x0 (fold (bounds_node_direct d ol) ns b)) = fold push (concat (map (\<lambda>i. node_start d True ol i) ns)) (kx (b), x0 (b))" for ns b
    by (induction ns arbitrary: b) (simp_all add: x0_bounds_node_direct)
  then show ?thesis by (simp add: bounds_direct_def)
qed

lemma x_lb_bounds_node_direct:
  "(kx (bounds_node_direct d ol i b), x_lb (bounds_node_direct d ol i b)) = fold push (node_lower_bounds d True ol i) (kx (b), x_lb (b))"
  by (simp add: bounds_node_direct_def bounds_states_def Let_def x_lb_view node_lower_bounds_def
      fold_push_fold_push push_fold_push del: fold_append fold_simps)

lemma x_lb_bounds_direct:
  "(kx (bounds_direct d clo F ol), x_lb (bounds_direct d clo F ol)) =
     fold push (concat (map (\<lambda>i. node_lower_bounds d True ol i) [offset clo..<opt_n_points ol])) (kx (initial_bounds F), x_lb (initial_bounds F))"
proof -
  have "(kx (fold (bounds_node_direct d ol) ns b), x_lb (fold (bounds_node_direct d ol) ns b)) = fold push (concat (map (\<lambda>i. node_lower_bounds d True ol i) ns)) (kx (b), x_lb (b))" for ns b
    by (induction ns arbitrary: b) (simp_all add: x_lb_bounds_node_direct)
  then show ?thesis by (simp add: bounds_direct_def)
qed

lemma x_ub_bounds_node_direct:
  "(kx (bounds_node_direct d ol i b), x_ub (bounds_node_direct d ol i b)) = fold push (node_upper_bounds d True ol i) (kx (b), x_ub (b))"
  by (simp add: bounds_node_direct_def bounds_states_def Let_def x_ub_view node_upper_bounds_def
      fold_push_fold_push push_fold_push del: fold_append fold_simps)

lemma x_ub_bounds_direct:
  "(kx (bounds_direct d clo F ol), x_ub (bounds_direct d clo F ol)) =
     fold push (concat (map (\<lambda>i. node_upper_bounds d True ol i) [offset clo..<opt_n_points ol])) (kx (initial_bounds F), x_ub (initial_bounds F))"
proof -
  have "(kx (fold (bounds_node_direct d ol) ns b), x_ub (fold (bounds_node_direct d ol) ns b)) = fold push (concat (map (\<lambda>i. node_upper_bounds d True ol i) ns)) (kx (b), x_ub (b))" for ns b
    by (induction ns arbitrary: b) (simp_all add: x_ub_bounds_node_direct)
  then show ?thesis by (simp add: bounds_direct_def)
qed

lemma c_lb_bounds_node_direct:
  "(kc (bounds_node_direct d ol i b), c_lb (bounds_node_direct d ol i b)) = fold push (element_lower_bounds d True) (kc (b), c_lb (b))"
  by (simp add: bounds_node_direct_def bounds_states_def Let_def c_lb_view element_lower_bounds_def
      fold_push_fold_push push_fold_push del: fold_append fold_simps)

lemma c_lb_bounds_direct:
  "(kc (bounds_direct d clo F ol), c_lb (bounds_direct d clo F ol)) =
     fold push (concat (map (\<lambda>i. element_lower_bounds d True) [offset clo..<opt_n_points ol])) (kc (initial_bounds F), c_lb (initial_bounds F))"
proof -
  have "(kc (fold (bounds_node_direct d ol) ns b), c_lb (fold (bounds_node_direct d ol) ns b)) = fold push (concat (map (\<lambda>i. element_lower_bounds d True) ns)) (kc (b), c_lb (b))" for ns b
    by (induction ns arbitrary: b) (simp_all add: c_lb_bounds_node_direct)
  then show ?thesis by (simp add: bounds_direct_def)
qed

lemma c_ub_bounds_node_direct:
  "(kc (bounds_node_direct d ol i b), c_ub (bounds_node_direct d ol i b)) = fold push (element_upper_bounds d True) (kc (b), c_ub (b))"
  by (simp add: bounds_node_direct_def bounds_states_def Let_def c_ub_view element_upper_bounds_def
      fold_push_fold_push push_fold_push del: fold_append fold_simps)

lemma c_ub_bounds_direct:
  "(kc (bounds_direct d clo F ol), c_ub (bounds_direct d clo F ol)) =
     fold push (concat (map (\<lambda>i. element_upper_bounds d True) [offset clo..<opt_n_points ol])) (kc (initial_bounds F), c_ub (initial_bounds F))"
proof -
  have "(kc (fold (bounds_node_direct d ol) ns b), c_ub (fold (bounds_node_direct d ol) ns b)) = fold push (concat (map (\<lambda>i. element_upper_bounds d True) ns)) (kc (b), c_ub (b))" for ns b
    by (induction ns arbitrary: b) (simp_all add: c_ub_bounds_node_direct)
  then show ?thesis by (simp add: bounds_direct_def)
qed

lemma x0_bounds_node_derivative:
  "(kx (bounds_node_derivative d ol i b), x0 (bounds_node_derivative d ol i b)) = fold push (node_start d False ol i) (kx (b), x0 (b))"
  by (simp add: bounds_node_derivative_def bounds_states_def Let_def x0_view node_start_def
      fold_push_fold_push push_fold_push del: fold_append fold_simps)

lemma x0_bounds_derivative:
  "(kx (bounds_derivative d clo F ol), x0 (bounds_derivative d clo F ol)) =
     fold push (concat (map (\<lambda>i. node_start d False ol i) [offset clo..<opt_n_points ol])) (kx (initial_bounds F), x0 (initial_bounds F))"
proof -
  have "(kx (fold (bounds_node_derivative d ol) ns b), x0 (fold (bounds_node_derivative d ol) ns b)) = fold push (concat (map (\<lambda>i. node_start d False ol i) ns)) (kx (b), x0 (b))" for ns b
    by (induction ns arbitrary: b) (simp_all add: x0_bounds_node_derivative)
  then show ?thesis by (simp add: bounds_derivative_def)
qed

lemma x_lb_bounds_node_derivative:
  "(kx (bounds_node_derivative d ol i b), x_lb (bounds_node_derivative d ol i b)) = fold push (node_lower_bounds d False ol i) (kx (b), x_lb (b))"
  by (simp add: bounds_node_derivative_def bounds_states_def Let_def x_lb_view node_lower_bounds_def
      fold_push_fold_push push_fold_push del: fold_append fold_simps)

lemma x_lb_bounds_derivative:
  "(kx (bounds_derivative d clo F ol), x_lb (bounds_derivative d clo F ol)) =
     fold push (concat (map (\<lambda>i. node_lower_bounds d False ol i) [offset clo..<opt_n_points ol])) (kx (initial_bounds F), x_lb (initial_bounds F))"
proof -
  have "(kx (fold (bounds_node_derivative d ol) ns b), x_lb (fold (bounds_node_derivative d ol) ns b)) = fold push (concat (map (\<lambda>i. node_lower_bounds d False ol i) ns)) (kx (b), x_lb (b))" for ns b
    by (induction ns arbitrary: b) (simp_all add: x_lb_bounds_node_derivative)
  then show ?thesis by (simp add: bounds_derivative_def)
qed

lemma x_ub_bounds_node_derivative:
  "(kx (bounds_node_derivative d ol i b), x_ub (bounds_node_derivative d ol i b)) = fold push (node_upper_bounds d False ol i) (kx (b), x_ub (b))"
  by (simp add: bounds_node_derivative_def bounds_states_def Let_def x_ub_view node_upper_bounds_def
      fold_push_fold_push push_fold_push del: fold_append fold_simps)

lemma x_ub_bounds_derivative:
  "(kx (bounds_derivative d clo F ol), x_ub (bounds_derivative d clo F ol)) =
     fold push (concat (map (\<lambda>i. node_upper_bounds d False ol i) [offset clo..<opt_n_points ol])) (kx (initial_bounds F), x_ub (initial_bounds F))"
proof -
  have "(kx (fold (bounds_node_derivative d ol) ns b), x_ub (fold (bounds_node_derivative d ol) ns b)) = fold push (concat (map (\<lambda>i. node_upper_bounds d False ol i) ns)) (kx (b), x_ub (b))" for ns b
    by (induction ns arbitrary: b) (simp_all add: x_ub_bounds_node_derivative)
  then show ?thesis by (simp add: bounds_derivative_def)
qed

lemma c_lb_bounds_node_derivative:
  "(kc (bounds_node_derivative d ol i b), c_lb (bounds_node_derivative d ol i b)) = fold push (element_lower_bounds d False) (kc (b), c_lb (b))"
  by (simp add: bounds_node_derivative_def bounds_states_def Let_def c_lb_view element_lower_bounds_def
      fold_push_fold_push push_fold_push del: fold_append fold_simps)

lemma c_lb_bounds_derivative:
  "(kc (bounds_derivative d clo F ol), c_lb (bounds_derivative d clo F ol)) =
     fold push (concat (map (\<lambda>i. element_lower_bounds d False) [offset clo..<opt_n_points ol])) (kc (initial_bounds F), c_lb (initial_bounds F))"
proof -
  have "(kc (fold (bounds_node_derivative d ol) ns b), c_lb (fold (bounds_node_derivative d ol) ns b)) = fold push (concat (map (\<lambda>i. element_lower_bounds d False) ns)) (kc (b), c_lb (b))" for ns b
    by (induction ns arbitrary: b) (simp_all add: c_lb_bounds_node_derivative)
  then show ?thesis by (simp add: bounds_derivative_def)
qed

lemma c_ub_bounds_node_derivative:
  "(kc (bounds_node_derivative d ol i b), c_ub (bounds_node_derivative d ol i b)) = fold push (element_upper_bounds d False) (kc (b), c_ub (b))"
  by (simp add: bounds_node_derivative_def bounds_states_def Let_def c_ub_view element_upper_bounds_def
      fold_push_fold_push push_fold_push del: fold_append fold_simps)

lemma c_ub_bounds_derivative:
  "(kc (bounds_derivative d clo F ol), c_ub (bounds_derivative d clo F ol)) =
     fold push (concat (map (\<lambda>i. element_upper_bounds d False) [offset clo..<opt_n_points ol])) (kc (initial_bounds F), c_ub (initial_bounds F))"
proof -
  have "(kc (fold (bounds_node_derivative d ol) ns b), c_ub (fold (bounds_node_derivative d ol) ns b)) = fold push (concat (map (\<lambda>i. element_upper_bounds d False) ns)) (kc (b), c_ub (b))" for ns b
    by (induction ns arbitrary: b) (simp_all add: c_ub_bounds_node_derivative)
  then show ?thesis by (simp add: bounds_derivative_def)
qed


lemma nth_blocks:
  assumes "\<And>i. length (blk i) = m" and "a \<le> i" and "i < b" and "p < m"
    and "(b - a) * m \<le> length xs"
  shows "snd (fold push (concat (map blk [a..<b])) (0, xs)) ! ((i - a) * m + p) = blk i ! p"
proof -
  have len: "length (concat (map blk [a..<b])) = (b - a) * m"
    using concat_blocks_length[of "[a..<b]" blk m] assms(1) by simp
  have "Suc (i - a) \<le> b - a" using assms(2,3) by simp
  then have "Suc (i - a) * m \<le> (b - a) * m" by (rule mult_le_mono1)
  then have lt: "(i - a) * m + p < (b - a) * m" using assms(4) by simp
  show ?thesis
    using lt assms(5) by (simp add: nth_fold_push len concat_blocks_nth[OF assms(1-4)])
qed

lemma position_without_time_less:
  assumes "ITIME d < NSTATE d" and "j < NSTATE d" and "j \<noteq> ITIME d"
  shows "position_without_time d j < NSTATE d - 1"
  using assms by (auto simp: position_without_time_def)

lemma length_node_blocks:
  assumes "IN d = ITIME d + 1" and "IN d < NSTATE d"
  shows "length (node_start d direct ol i) = variables_per_node d direct"
    and "length (node_lower_bounds d direct ol i) = variables_per_node d direct"
    and "length (node_upper_bounds d direct ol i) = variables_per_node d direct"
    and "length (element_lower_bounds d direct) = constraints_per_element d direct"
    and "length (element_upper_bounds d direct) = constraints_per_element d direct"
  using assms
  by (auto simp: node_start_def node_lower_bounds_def node_upper_bounds_def
      element_lower_bounds_def element_upper_bounds_def variables_per_node_def
      constraints_per_element_def)

lemma nth_state_part:
  assumes "IN d = ITIME d + 1" and "IN d < NSTATE d" and "j < NSTATE d" and "j \<noteq> ITIME d"
  shows "(map f [0..<ITIME d] @ v # map f [IN d + 1..<NSTATE d] @ rest)
           ! position_without_time d j = (if j = IN d then v else f j)"
proof -
  consider "j < ITIME d" | "j = IN d" | "IN d < j" using assms(1,4) by linarith
  then show ?thesis
  proof cases
    case 1
    then show ?thesis using assms(1) by (simp add: position_without_time_def nth_append)
  next
    case 2
    then show ?thesis using assms(1) by (simp add: position_without_time_def nth_append)
  next
    case 3
    define t where "t = j - (IN d + 1)"
    define A where "A = map f [0..<ITIME d] @ [v]"
    define B where "B = map f [IN d + 1..<NSTATE d]"
    have pos: "position_without_time d j = length A + t"
      using 3 assms(1) by (simp add: position_without_time_def t_def A_def)
    have t: "t < length B" using 3 assms(3) by (simp add: t_def B_def)
    have "(map f [0..<ITIME d] @ v # map f [IN d + 1..<NSTATE d] @ rest) = A @ (B @ rest)"
      by (simp add: A_def B_def)
    then have "(map f [0..<ITIME d] @ v # map f [IN d + 1..<NSTATE d] @ rest)
                 ! position_without_time d j = (B @ rest) ! t"
      unfolding pos by (simp only: nth_append_length_plus)
    also have "\<dots> = B ! t" using t by (simp add: nth_append)
    also have "\<dots> = f j" using 3 assms(3) by (simp add: B_def t_def)
    finally show ?thesis using 3 by simp
  qed
qed

lemma nth_state_part_single:
  assumes "IN d = ITIME d + 1" and "IN d < NSTATE d" and "j < NSTATE d" and "j \<noteq> ITIME d"
  shows "(map f [0..<ITIME d] @ [v] @ map f [IN d + 1..<NSTATE d] @ rest)
           ! position_without_time d j = (if j = IN d then v else f j)"
  using nth_state_part[OF assms, of f v rest] by simp

lemma nth_node_blocks:
  assumes "IN d = ITIME d + 1" and "IN d < NSTATE d" and "j < NSTATE d" and "j \<noteq> ITIME d"
  shows "node_start d direct ol i ! position_without_time d j = opt_q ol ! i ! j"
    and "node_lower_bounds d direct ol i ! position_without_time d j =
           (if j = IN d then - get_left_track_limit d (opt_s ol ! i)
            else fst (optimal_laptime_state_bounds d) ! j)"
    and "node_upper_bounds d direct ol i ! position_without_time d j =
           (if j = IN d then get_right_track_limit d (opt_s ol ! i)
            else snd (optimal_laptime_state_bounds d) ! j)"
    and "element_lower_bounds d direct ! position_without_time d j = 0"
    and "element_upper_bounds d direct ! position_without_time d j = 0"
  unfolding node_start_def node_lower_bounds_def node_upper_bounds_def
    element_lower_bounds_def element_upper_bounds_def
  by (simp_all only: nth_state_part_single[OF assms] if_cancel) auto


lemma initial_bounds_simps:
  "(kx (initial_bounds F), x0 (initial_bounds F)) = (0, replicate (fg_n_variables F) 0)"
  "(kx (initial_bounds F), x_lb (initial_bounds F)) = (0, replicate (fg_n_variables F) (- (10 ^ 24)))"
  "(kx (initial_bounds F), x_ub (initial_bounds F)) = (0, replicate (fg_n_variables F) (10 ^ 24))"
  "(kc (initial_bounds F), c_lb (initial_bounds F)) = (0, replicate (fg_n_constraints F) 0)"
  "(kc (initial_bounds F), c_ub (initial_bounds F)) = (0, replicate (fg_n_constraints F) 0)"
  by (simp_all add: initial_bounds_def)

lemma snd_pair_eq: "(a, b) = c \<Longrightarrow> b = snd c"
  by auto

lemma variable_bounds_direct:
  assumes "IN d = ITIME d + 1" and "IN d < NSTATE d"
    and "fg_n_variables F = (opt_n_points ol - offset clo) * variables_per_node d True"
    and "offset clo \<le> i" and "i < opt_n_points ol" and "j < NSTATE d" and "j \<noteq> ITIME d"
  shows "x0 (bounds_direct d clo F ol) ! variable_index d clo True i j = opt_q ol ! i ! j"
    and "x_lb (bounds_direct d clo F ol) ! variable_index d clo True i j =
           (if j = IN d then - get_left_track_limit d (opt_s ol ! i)
            else fst (optimal_laptime_state_bounds d) ! j)"
    and "x_ub (bounds_direct d clo F ol) ! variable_index d clo True i j =
           (if j = IN d then get_right_track_limit d (opt_s ol ! i)
            else snd (optimal_laptime_state_bounds d) ! j)"
proof -
  have p: "position_without_time d j < variables_per_node d True"
    using position_without_time_less[of d j] assms(1,2,6,7) by (simp add: variables_per_node_def)
  note len = length_node_blocks[OF assms(1,2)]
  note nth = nth_node_blocks[OF assms(1,2,6,7)]
  have fits: "(opt_n_points ol - offset clo) * variables_per_node d True \<le> length (replicate (fg_n_variables F) v)"
    for v :: real
    using assms(3) by simp
  show "x0 (bounds_direct d clo F ol) ! variable_index d clo True i j = opt_q ol ! i ! j"
    unfolding variable_index_def
      x0_bounds_direct[of d clo F ol, unfolded initial_bounds_simps, THEN snd_pair_eq]
    using nth_blocks[of "\<lambda>i. node_start d True ol i", OF len(1) assms(4,5) p fits] nth(1)
    by simp
  show "x_lb (bounds_direct d clo F ol) ! variable_index d clo True i j =
           (if j = IN d then - get_left_track_limit d (opt_s ol ! i)
            else fst (optimal_laptime_state_bounds d) ! j)"
    unfolding variable_index_def
      x_lb_bounds_direct[of d clo F ol, unfolded initial_bounds_simps, THEN snd_pair_eq]
    using nth_blocks[of "\<lambda>i. node_lower_bounds d True ol i", OF len(2) assms(4,5) p fits] nth(2)
    by simp
  show "x_ub (bounds_direct d clo F ol) ! variable_index d clo True i j =
           (if j = IN d then get_right_track_limit d (opt_s ol ! i)
            else snd (optimal_laptime_state_bounds d) ! j)"
    unfolding variable_index_def
      x_ub_bounds_direct[of d clo F ol, unfolded initial_bounds_simps, THEN snd_pair_eq]
    using nth_blocks[of "\<lambda>i. node_upper_bounds d True ol i", OF len(3) assms(4,5) p fits] nth(3)
    by simp
qed

lemma constraint_bounds_direct:
  assumes "IN d = ITIME d + 1" and "IN d < NSTATE d"
    and "fg_n_constraints F = (opt_n_points ol - offset clo) * constraints_per_element d True"
    and "1 \<le> i" and "i < opt_n_points ol" and "j < NSTATE d" and "j \<noteq> ITIME d"
  shows "c_lb (bounds_direct d clo F ol) ! constraint_index d True i j = 0"
    and "c_ub (bounds_direct d clo F ol) ! constraint_index d True i j = 0"
proof -
  define i' where "i' = i - 1 + offset clo"
  have i': "offset clo \<le> i'" "i' < opt_n_points ol" "i' - offset clo = i - 1"
    using assms(4,5) by (auto simp: i'_def offset_def)
  have p: "position_without_time d j < constraints_per_element d True"
    using position_without_time_less[of d j] assms(1,2,6,7) by (simp add: constraints_per_element_def)
  note len = length_node_blocks[OF assms(1,2)]
  note nth = nth_node_blocks[OF assms(1,2,6,7)]
  have fits: "(opt_n_points ol - offset clo) * constraints_per_element d True
                \<le> length (replicate (fg_n_constraints F) (0::real))"
    using assms(3) by simp
  show "c_lb (bounds_direct d clo F ol) ! constraint_index d True i j = 0"
    unfolding constraint_index_def
      c_lb_bounds_direct[of d clo F ol, unfolded initial_bounds_simps, THEN snd_pair_eq]
    using nth_blocks[of "\<lambda>i. element_lower_bounds d True", OF len(4) i'(1,2) p fits] nth(4)
    by (simp add: i'(3))
  show "c_ub (bounds_direct d clo F ol) ! constraint_index d True i j = 0"
    unfolding constraint_index_def
      c_ub_bounds_direct[of d clo F ol, unfolded initial_bounds_simps, THEN snd_pair_eq]
    using nth_blocks[of "\<lambda>i. element_upper_bounds d True", OF len(5) i'(1,2) p fits] nth(5)
    by (simp add: i'(3))
qed

lemma variable_bounds_derivative:
  assumes "IN d = ITIME d + 1" and "IN d < NSTATE d"
    and "fg_n_variables F = (opt_n_points ol - offset clo) * variables_per_node d False"
    and "offset clo \<le> i" and "i < opt_n_points ol" and "j < NSTATE d" and "j \<noteq> ITIME d"
  shows "x0 (bounds_derivative d clo F ol) ! variable_index d clo False i j = opt_q ol ! i ! j"
    and "x_lb (bounds_derivative d clo F ol) ! variable_index d clo False i j =
           (if j = IN d then - get_left_track_limit d (opt_s ol ! i)
            else fst (optimal_laptime_state_bounds d) ! j)"
    and "x_ub (bounds_derivative d clo F ol) ! variable_index d clo False i j =
           (if j = IN d then get_right_track_limit d (opt_s ol ! i)
            else snd (optimal_laptime_state_bounds d) ! j)"
proof -
  have p: "position_without_time d j < variables_per_node d False"
    using position_without_time_less[of d j] assms(1,2,6,7) by (simp add: variables_per_node_def)
  note len = length_node_blocks[OF assms(1,2)]
  note nth = nth_node_blocks[OF assms(1,2,6,7)]
  have fits: "(opt_n_points ol - offset clo) * variables_per_node d False \<le> length (replicate (fg_n_variables F) v)"
    for v :: real
    using assms(3) by simp
  show "x0 (bounds_derivative d clo F ol) ! variable_index d clo False i j = opt_q ol ! i ! j"
    unfolding variable_index_def
      x0_bounds_derivative[of d clo F ol, unfolded initial_bounds_simps, THEN snd_pair_eq]
    using nth_blocks[of "\<lambda>i. node_start d False ol i", OF len(1) assms(4,5) p fits] nth(1)
    by simp
  show "x_lb (bounds_derivative d clo F ol) ! variable_index d clo False i j =
           (if j = IN d then - get_left_track_limit d (opt_s ol ! i)
            else fst (optimal_laptime_state_bounds d) ! j)"
    unfolding variable_index_def
      x_lb_bounds_derivative[of d clo F ol, unfolded initial_bounds_simps, THEN snd_pair_eq]
    using nth_blocks[of "\<lambda>i. node_lower_bounds d False ol i", OF len(2) assms(4,5) p fits] nth(2)
    by simp
  show "x_ub (bounds_derivative d clo F ol) ! variable_index d clo False i j =
           (if j = IN d then get_right_track_limit d (opt_s ol ! i)
            else snd (optimal_laptime_state_bounds d) ! j)"
    unfolding variable_index_def
      x_ub_bounds_derivative[of d clo F ol, unfolded initial_bounds_simps, THEN snd_pair_eq]
    using nth_blocks[of "\<lambda>i. node_upper_bounds d False ol i", OF len(3) assms(4,5) p fits] nth(3)
    by simp
qed

lemma constraint_bounds_derivative:
  assumes "IN d = ITIME d + 1" and "IN d < NSTATE d"
    and "fg_n_constraints F = (opt_n_points ol - offset clo) * constraints_per_element d False"
    and "1 \<le> i" and "i < opt_n_points ol" and "j < NSTATE d" and "j \<noteq> ITIME d"
  shows "c_lb (bounds_derivative d clo F ol) ! constraint_index d False i j = 0"
    and "c_ub (bounds_derivative d clo F ol) ! constraint_index d False i j = 0"
proof -
  define i' where "i' = i - 1 + offset clo"
  have i': "offset clo \<le> i'" "i' < opt_n_points ol" "i' - offset clo = i - 1"
    using assms(4,5) by (auto simp: i'_def offset_def)
  have p: "position_without_time d j < constraints_per_element d False"
    using position_without_time_less[of d j] assms(1,2,6,7) by (simp add: constraints_per_element_def)
  note len = length_node_blocks[OF assms(1,2)]
  note nth = nth_node_blocks[OF assms(1,2,6,7)]
  have fits: "(opt_n_points ol - offset clo) * constraints_per_element d False
                \<le> length (replicate (fg_n_constraints F) (0::real))"
    using assms(3) by simp
  show "c_lb (bounds_derivative d clo F ol) ! constraint_index d False i j = 0"
    unfolding constraint_index_def
      c_lb_bounds_derivative[of d clo F ol, unfolded initial_bounds_simps, THEN snd_pair_eq]
    using nth_blocks[of "\<lambda>i. element_lower_bounds d False", OF len(4) i'(1,2) p fits] nth(4)
    by (simp add: i'(3))
  show "c_ub (bounds_derivative d clo F ol) ! constraint_index d False i j = 0"
    unfolding constraint_index_def
      c_ub_bounds_derivative[of d clo F ol, unfolded initial_bounds_simps, THEN snd_pair_eq]
    using nth_blocks[of "\<lambda>i. element_upper_bounds d False", OF len(5) i'(1,2) p fits] nth(5)
    by (simp add: i'(3))
qed

section \<open>The constraints written by \<^verbatim>\<open>operator()\<close>\<close>

lemma fst_add_to_objective: "fst (add_to_objective v c) = fst c"
  by (simp add: add_to_objective_def)

lemma view_add_to_objective: "constraints_view (add_to_objective v c) = constraints_view c"
  by (cases "snd c") (simp_all add: constraints_view_def add_to_objective_def)

lemma view_push:
  assumes "1 \<le> fst c"
  shows "constraints_view (push v c) = push v (constraints_view c)"
proof (cases "snd c")
  case Nil
  then show ?thesis using assms by (simp add: constraints_view_def push_def)
next
  case (Cons a as)
  obtain k where k: "fst c = Suc k" using assms by (cases "fst c") simp_all
  show ?thesis by (simp add: constraints_view_def push_def Cons k)
qed

lemma view_fold_push:
  assumes "1 \<le> fst c"
  shows "constraints_view (fold push vs c) = fold push vs (constraints_view c)"
  using assms
proof (induction vs arbitrary: c)
  case Nil
  then show ?case by simp
next
  case (Cons v vs)
  have "1 \<le> fst (push v c)" by (simp add: fst_push)
  from Cons.IH[OF this] show ?case by (simp add: view_push[OF Cons.prems])
qed

lemma view_fold_add:
  "constraints_view (fold (\<lambda>j. add_to_objective (f j)) js c) = constraints_view c"
  by (induction js arbitrary: c) (simp_all add: view_add_to_objective)

lemma fst_fold_add: "fst (fold (\<lambda>j. add_to_objective (f j)) js c) = fst c"
  by (induction js arbitrary: c) (simp_all add: fst_add_to_objective)

lemma node_direct_closed:
  "node_direct d F i c =
     fold push (element_constraints d True F i)
       (add_to_objective (0.5 * (fg_s F ! i - fg_s F ! (i - 1))
                            * (dqdt d F (i - 1) ! ITIME d + dqdt d F i ! ITIME d)) c)"
  by (simp add: node_direct_def Let_def element_constraints_def fold_map comp_def)

lemma node_derivative_closed:
  "node_derivative d F i c =
     fold push (element_constraints d False F i)
       (add_to_objective (0.5 * (fg_s F ! i - fg_s F ! (i - 1))
                            * (dqdt d F (i - 1) ! ITIME d + dqdt d F i ! ITIME d)) c)"
  by (simp add: node_derivative_def push_tire_slips_def Let_def element_constraints_def
      fold_map comp_def)

lemma node_view:
  assumes "1 \<le> fst c"
  shows "constraints_view (node_direct d F i c)
           = fold push (element_constraints d True F i) (constraints_view c)"
    and "constraints_view (node_derivative d F i c)
           = fold push (element_constraints d False F i) (constraints_view c)"
    and "1 \<le> fst (node_direct d F i c)" and "1 \<le> fst (node_derivative d F i c)"
  using assms
  by (simp_all add: node_direct_closed node_derivative_closed view_fold_push
      fst_add_to_objective view_add_to_objective fst_fold_push del: fold_append fold_simps)

lemma view_node_loop:
  assumes "\<And>i c. 1 \<le> fst c \<Longrightarrow> constraints_view (node i c) = fold push (blk i) (constraints_view c)"
    and "\<And>i c. 1 \<le> fst c \<Longrightarrow> 1 \<le> fst (node i c)"
    and "1 \<le> fst c"
  shows "constraints_view (fold node ns c) = fold push (concat (map blk ns)) (constraints_view c)
           \<and> 1 \<le> fst (fold node ns c)"
  using assms(3)
proof (induction ns arbitrary: c)
  case Nil
  then show ?case by simp
next
  case (Cons n ns)
  from Cons.IH[OF assms(2)[OF Cons.prems]] show ?case
    by (simp add: assms(1)[OF Cons.prems])
qed

lemma penalise_view:
  "constraints_view (fold (penalise_direct d F) ns c) = constraints_view c"
  "fst (fold (penalise_direct d F) ns c) = fst c"
  "constraints_view (fold (penalise_derivative d F) ns c) = constraints_view c"
  "fst (fold (penalise_derivative d F) ns c) = fst c"
  by (induction ns arbitrary: c)
    (simp_all add: penalise_direct_def penalise_derivative_def Let_def view_fold_add fst_fold_add)

lemma periodic_direct_view:
  assumes "1 \<le> fst c"
  shows "\<exists>ws. constraints_view (periodic_direct d F c) = fold push ws (constraints_view c)"
proof -
  have "periodic_direct d F c =
      fold (\<lambda>j. add_to_objective
                   (fg_dissipations F ! j
                      * ((hd (fg_u F) ! j - last (fg_u F) ! j) / (track_length d - last (fg_s F))
                         * ((hd (fg_u F) ! j - last (fg_u F) ! j) / (track_length d - last (fg_s F))))
                      * (track_length d - last (fg_s F))))
        [0..<NCONTROL d]
        (fold push
           (map (periodic_state_defect d F) [0..<ITIME d]
              @ map (periodic_state_defect d F) [ITIME d + 1..<NSTATE d]
              @ map (\<lambda>j. dqa d F 0 ! j) [0..<NALGEBRAIC d]
              @ map (\<lambda>j. optimal_laptime_extra_constraints d (fg_q F ! 0) (fg_qa F ! 0)
                            (fg_u F ! 0) (fg_s F ! 0) ! j) [0..<N_OL_EXTRA_CONSTRAINTS d])
           (add_to_objective
              (0.5 * (track_length d - last (fg_s F))
                 * (dqdt d F 0 ! ITIME d + dqdt d F (fg_n_points F - 1) ! ITIME d)) c))"
    by (simp add: periodic_direct_def Let_def fold_map comp_def)
  then show ?thesis
    using assms
    by (simp add: view_fold_add view_fold_push fst_add_to_objective view_add_to_objective
        del: fold_append fold_simps) blast
qed

lemma periodic_derivative_view:
  assumes "1 \<le> fst c"
  shows "\<exists>ws. constraints_view (periodic_derivative d F c) = fold push ws (constraints_view c)"
proof -
  have "periodic_derivative d F c =
      fold (\<lambda>j. add_to_objective
                   (fg_dissipations F ! j * (fg_dudt F ! 0 ! j * fg_dudt F ! 0 ! j)
                      * (track_length d - last (fg_s F))))
        [0..<NCONTROL d]
        (fold push
           (map (periodic_state_defect d F) [0..<ITIME d]
              @ map (periodic_state_defect d F) [ITIME d + 1..<NSTATE d]
              @ map (\<lambda>j. dqa d F 0 ! j) [0..<NALGEBRAIC d]
              @ map (\<lambda>j. tire_slips d (fg_q F ! 0) (fg_qa F ! 0) (fg_u F ! 0) (fg_s F ! 0) ! j) [0..<6]
              @ map (periodic_control_defect d F) [0..<NCONTROL d])
           (add_to_objective
              (0.5 * (track_length d - last (fg_s F))
                 * (dqdt d F 0 ! ITIME d + dqdt d F (fg_n_points F - 1) ! ITIME d)) c))"
    by (simp add: periodic_derivative_def push_tire_slips_def Let_def fold_map comp_def)
  then show ?thesis
    using assms
    by (simp add: view_fold_add view_fold_push fst_add_to_objective view_add_to_objective
        del: fold_append fold_simps) blast
qed

lemma fg_layout:
  assumes c: "constraints_view c = fold push (concat (map blk [1..<n]) @ ws) (0, replicate nc 0)"
    and len: "\<And>i. length (blk i) = m"
    and i: "1 \<le> i" "i < n" and p: "p < m" and fits: "(n - 1) * m \<le> nc"
  shows "snd c ! Suc ((i - 1) * m + p) = blk i ! p"
proof -
  let ?k = "(i - 1) * m + p"
  have blocks: "length (concat (map blk [1..<n])) = (n - 1) * m"
    using concat_blocks_length[of "[1..<n]" blk m] len by simp
  have "Suc (i - 1) \<le> n - 1" using i by simp
  then have "Suc (i - 1) * m \<le> (n - 1) * m" by (rule mult_le_mono1)
  then have k: "?k < (n - 1) * m" using p by simp
  have tl: "tl (snd c) = snd (fold push (concat (map blk [1..<n]) @ ws) (0, replicate nc 0))"
    using c by (simp add: constraints_view_def prod_eq_iff)
  have "length (tl (snd c)) = nc" unfolding tl by (simp add: length_fold_push)
  then have "snd c ! Suc ?k = tl (snd c) ! ?k" using k fits by (simp add: nth_tl)
  also have "\<dots> = (concat (map blk [1..<n]) @ ws) ! ?k"
    unfolding tl using k fits blocks by (simp add: nth_fold_push del: fold_append)
  also have "\<dots> = concat (map blk [1..<n]) ! ?k" using k blocks by (simp add: nth_append)
  also have "\<dots> = blk i ! p" using concat_blocks_nth[of blk m 1 i n p] len i p by simp
  finally show ?thesis .
qed

lemma length_element_constraints:
  assumes "ITIME d < NSTATE d"
  shows "length (element_constraints d True F i) = constraints_per_element d True"
    and "N_OL_EXTRA_CONSTRAINTS d = 6 \<Longrightarrow>
           length (element_constraints d False F i) = constraints_per_element d False"
  using assms by (simp_all add: element_constraints_def constraints_per_element_def)

lemma nth_element_constraints:
  assumes "ITIME d < NSTATE d" and "j < NSTATE d" and "j \<noteq> ITIME d"
  shows "element_constraints d direct F i ! position_without_time d j = state_defect d F i j"
proof (cases "j < ITIME d")
  case True
  then show ?thesis
    by (simp add: element_constraints_def position_without_time_def nth_append)
next
  case False
  with assms have "ITIME d < j" by simp
  then obtain k where k: "j = Suc (ITIME d + k)" by (metis less_iff_Suc_add)
  with assms(2) have "k < NSTATE d - Suc (ITIME d)" by simp
  then show ?thesis
    by (simp add: element_constraints_def position_without_time_def nth_append k)
qed

lemma load_keeps_sizes:
  "fg_n_points (load_direct d clo F x) = fg_n_points F"
  "fg_n_constraints (load_direct d clo F x) = fg_n_constraints F"
  "fg_s (load_direct d clo F x) = fg_s F"
  "fg_n_points (load_derivative d clo F x) = fg_n_points F"
  "fg_n_constraints (load_derivative d clo F x) = fg_n_constraints F"
  "fg_s (load_derivative d clo F x) = fg_s F"
proof -
  have a: "fg_n_points (snd (fold (load_node_direct d x) ns kF)) = fg_n_points (snd kF)
         \<and> fg_n_constraints (snd (fold (load_node_direct d x) ns kF)) = fg_n_constraints (snd kF)
         \<and> fg_s (snd (fold (load_node_direct d x) ns kF)) = fg_s (snd kF)" for ns kF
    by (induction ns arbitrary: kF) (simp_all add: load_node_direct_def Let_def)
  have b: "fg_n_points (snd (fold (load_node_derivative d x) ns kF)) = fg_n_points (snd kF)
         \<and> fg_n_constraints (snd (fold (load_node_derivative d x) ns kF)) = fg_n_constraints (snd kF)
         \<and> fg_s (snd (fold (load_node_derivative d x) ns kF)) = fg_s (snd kF)" for ns kF
    by (induction ns arbitrary: kF) (simp_all add: load_node_derivative_def Let_def)
  show "fg_n_points (load_direct d clo F x) = fg_n_points F"
    "fg_n_constraints (load_direct d clo F x) = fg_n_constraints F"
    "fg_s (load_direct d clo F x) = fg_s F"
    by (simp_all add: load_direct_def a load_first_node_def)
  show "fg_n_points (load_derivative d clo F x) = fg_n_points F"
    "fg_n_constraints (load_derivative d clo F x) = fg_n_constraints F"
    "fg_s (load_derivative d clo F x) = fg_s F"
    by (simp_all add: load_derivative_def b load_first_node_derivative_def load_first_node_def)
qed

lemma node_loop_direct:
  assumes "1 \<le> fst c"
  shows "constraints_view (fold (node_direct d F) ns c)
           = fold push (concat (map (element_constraints d True F) ns)) (constraints_view c)
         \<and> 1 \<le> fst (fold (node_direct d F) ns c)"
  by (rule view_node_loop[where node = "node_direct d F" and blk = "element_constraints d True F",
        OF node_view(1) node_view(3) assms])

lemma node_loop_derivative:
  assumes "1 \<le> fst c"
  shows "constraints_view (fold (node_derivative d F) ns c)
           = fold push (concat (map (element_constraints d False F) ns)) (constraints_view c)
         \<and> 1 \<le> fst (fold (node_derivative d F) ns c)"
  by (rule view_node_loop[where node = "node_derivative d F"
        and blk = "element_constraints d False F", OF node_view(2) node_view(4) assms])

lemma fg_direct_entry:
  assumes "ITIME d < NSTATE d"
    and "(fg_n_points F0 - 1) * constraints_per_element d True \<le> fg_n_constraints F0"
    and "1 \<le> i" and "i < fg_n_points F0" and "j < NSTATE d" and "j \<noteq> ITIME d"
  shows "snd (FG_direct_call d clo F0 x) ! Suc (constraint_index d True i j)
           = state_defect d (fst (FG_direct_call d clo F0 x)) i j"
proof -
  define F where "F = load_direct d clo F0 x"
  define c1 where "c1 = fold (node_direct d F) [1..<fg_n_points F]
                          (1, (replicate (1 + fg_n_constraints F) 0)[0 := 0])"
  define c2 where "c2 = fold (penalise_direct d F) [1..<fg_n_points F] c1"
  define c3 where "c3 = (if clo then periodic_direct d F c2 else c2)"
  have call: "FG_direct_call d clo F0 x = (F, snd c3)"
    by (simp add: FG_direct_call_def Let_def F_def c1_def c2_def c3_def)
  have sizes: "fg_n_points F = fg_n_points F0" "fg_n_constraints F = fg_n_constraints F0"
    by (simp_all add: F_def load_keeps_sizes)
  have v1: "constraints_view c1 =
              fold push (concat (map (element_constraints d True F) [1..<fg_n_points F]))
                (0, replicate (fg_n_constraints F) 0)"
    and f1: "1 \<le> fst c1"
    using node_loop_direct[of "(1, (replicate (1 + fg_n_constraints F) 0)[0 := 0])" d F
        "[1..<fg_n_points F]"]
    by (simp_all add: c1_def constraints_view_def)
  have v2: "constraints_view c2 = constraints_view c1" and f2: "1 \<le> fst c2"
    using f1 by (simp_all add: c2_def penalise_view)
  obtain ws where "constraints_view c3 = fold push ws (constraints_view c2)"
  proof (cases clo)
    case True
    with periodic_direct_view[OF f2, of d F] that show ?thesis by (auto simp: c3_def)
  next
    case False
    with that[of "[]"] show ?thesis by (simp add: c3_def)
  qed
  then have v3: "constraints_view c3 =
      fold push (concat (map (element_constraints d True F) [1..<fg_n_points F]) @ ws)
        (0, replicate (fg_n_constraints F) 0)"
    by (simp add: v2 v1)
  have "snd c3 ! Suc ((i - 1) * constraints_per_element d True + position_without_time d j)
          = element_constraints d True F i ! position_without_time d j"
    using assms position_without_time_less[of d j]
    by (intro fg_layout[OF v3])
      (simp_all add: length_element_constraints sizes constraints_per_element_def)
  then show ?thesis
    by (simp add: call constraint_index_def nth_element_constraints[OF assms(1,5,6)])
qed

lemma fg_derivative_entry:
  assumes "ITIME d < NSTATE d" and "N_OL_EXTRA_CONSTRAINTS d = 6"
    and "(fg_n_points F0 - 1) * constraints_per_element d False \<le> fg_n_constraints F0"
    and "1 \<le> i" and "i < fg_n_points F0" and "j < NSTATE d" and "j \<noteq> ITIME d"
  shows "snd (FG_derivative_call d clo F0 x) ! Suc (constraint_index d False i j)
           = state_defect d (fst (FG_derivative_call d clo F0 x)) i j"
proof -
  define F where "F = load_derivative d clo F0 x"
  define c1 where "c1 = fold (node_derivative d F) [1..<fg_n_points F]
                          (1, (replicate (1 + fg_n_constraints F) 0)[0 := 0])"
  define c2 where "c2 = fold (penalise_derivative d F) [1..<fg_n_points F] c1"
  define c3 where "c3 = (if clo then periodic_derivative d F c2 else c2)"
  have call: "FG_derivative_call d clo F0 x = (F, snd c3)"
    by (simp add: FG_derivative_call_def Let_def F_def c1_def c2_def c3_def)
  have sizes: "fg_n_points F = fg_n_points F0" "fg_n_constraints F = fg_n_constraints F0"
    by (simp_all add: F_def load_keeps_sizes)
  have v1: "constraints_view c1 =
              fold push (concat (map (element_constraints d False F) [1..<fg_n_points F]))
                (0, replicate (fg_n_constraints F) 0)"
    and f1: "1 \<le> fst c1"
    using node_loop_derivative[of "(1, (replicate (1 + fg_n_constraints F) 0)[0 := 0])" d F
        "[1..<fg_n_points F]"]
    by (simp_all add: c1_def constraints_view_def)
  have v2: "constraints_view c2 = constraints_view c1" and f2: "1 \<le> fst c2"
    using f1 by (simp_all add: c2_def penalise_view)
  obtain ws where "constraints_view c3 = fold push ws (constraints_view c2)"
  proof (cases clo)
    case True
    with periodic_derivative_view[OF f2, of d F] that show ?thesis by (auto simp: c3_def)
  next
    case False
    with that[of "[]"] show ?thesis by (simp add: c3_def)
  qed
  then have v3: "constraints_view c3 =
      fold push (concat (map (element_constraints d False F) [1..<fg_n_points F]) @ ws)
        (0, replicate (fg_n_constraints F) 0)"
    by (simp add: v2 v1)
  have "snd c3 ! Suc ((i - 1) * constraints_per_element d False + position_without_time d j)
          = element_constraints d False F i ! position_without_time d j"
    using assms position_without_time_less[of d j]
    by (intro fg_layout[OF v3])
      (simp_all add: length_element_constraints sizes constraints_per_element_def)
  then show ?thesis
    by (simp add: call constraint_index_def nth_element_constraints[OF assms(1,6,7)])
qed

section \<open>The variables loaded by \<^verbatim>\<open>operator()\<close>\<close>

lemma read_into_snoc:
  "read_into (js @ [j]) x c =
     (Suc (fst (read_into js x c)), (snd (read_into js x c))[j := x ! fst (read_into js x c)])"
  by (simp add: read_into_def)

lemma read_into_upt:
  "fst (read_into [a..<b] x c) = fst c + (b - a)
   \<and> length (snd (read_into [a..<b] x c)) = length (snd c)
   \<and> (\<forall>j. snd (read_into [a..<b] x c) ! j =
          (if a \<le> j \<and> j < b \<and> j < length (snd c) then x ! (fst c + (j - a)) else snd c ! j))"
proof (induction b)
  case 0
  then show ?case by (simp add: read_into_def)
next
  case (Suc b)
  show ?case
  proof (cases "a \<le> b")
    case True
    then have upt: "[a..<Suc b] = [a..<b] @ [b]" by simp
    have nth: "xs[b := v] ! j = (if j = b \<and> b < length xs then v else xs ! j)"
      for xs :: vec and v j
      by (cases "b < length xs") (auto simp: nth_list_update list_update_beyond)
    show ?thesis
      unfolding upt read_into_snoc using Suc True
      by (auto simp: nth Suc_diff_le)
  next
    case False
    then show ?thesis by (simp add: read_into_def)
  qed
qed

lemma read_states:
  assumes "ITIME d < NSTATE d"
  shows "fst (read_into [ITIME d + 1..<NSTATE d] x (read_into [0..<ITIME d] x (k, r)))
           = k + (NSTATE d - 1)"
    and "j < NSTATE d \<Longrightarrow> j \<noteq> ITIME d \<Longrightarrow> j < length r \<Longrightarrow>
         snd (read_into [ITIME d + 1..<NSTATE d] x (read_into [0..<ITIME d] x (k, r))) ! j
           = x ! (k + position_without_time d j)"
  using assms
  by (auto simp: read_into_upt position_without_time_def)

lemma load_node_step:
  assumes "ITIME d < NSTATE d"
  shows "fst (load_node_direct d x i kF) = fst kF + variables_per_node d True"
    and "fg_q (snd (load_node_direct d x i kF)) =
           (fg_q (snd kF))[i := snd (read_into [ITIME d + 1..<NSTATE d] x
                                   (read_into [0..<ITIME d] x (fst kF, fg_q (snd kF) ! i)))]"
    and "fst (load_node_derivative d x i kF) = fst kF + variables_per_node d False"
    and "fg_q (snd (load_node_derivative d x i kF)) =
           (fg_q (snd kF))[i := snd (read_into [ITIME d + 1..<NSTATE d] x
                                   (read_into [0..<ITIME d] x (fst kF, fg_q (snd kF) ! i)))]"
  using assms
  by (simp_all add: load_node_direct_def load_node_derivative_def Let_def read_into_upt
      variables_per_node_def)

lemma load_loop:
  assumes step_k: "\<And>i kF. fst (step i kF) = fst kF + m"
    and step_q: "\<And>i kF. fg_q (snd (step i kF)) =
           (fg_q (snd kF))[i := snd (read_into [ITIME d + 1..<NSTATE d] x
                                   (read_into [0..<ITIME d] x (fst kF, fg_q (snd kF) ! i)))]"
    and itime: "ITIME d < NSTATE d"
  shows "fst (fold step [a..<b] (0, F1)) = (b - a) * m
     \<and> length (fg_q (snd (fold step [a..<b] (0, F1)))) = length (fg_q F1)
     \<and> (\<forall>i\<ge>b. fg_q (snd (fold step [a..<b] (0, F1))) ! i = fg_q F1 ! i)
     \<and> (\<forall>i j. a \<le> i \<and> i < b \<and> i < length (fg_q F1) \<and> j < NSTATE d \<and> j \<noteq> ITIME d
                \<and> j < length (fg_q F1 ! i)
            \<longrightarrow> fg_q (snd (fold step [a..<b] (0, F1))) ! i ! j
                  = x ! ((i - a) * m + position_without_time d j))"
proof (induction b)
  case 0
  then show ?case by simp
next
  case (Suc b)
  show ?case
  proof (cases "a \<le> b")
    case False
    then show ?thesis by simp
  next
    case True
    define kF where "kF = fold step [a..<b] (0, F1)"
    have upt: "fold step [a..<Suc b] (0, F1) = step b kF"
      using True by (simp add: kF_def)
    note IH = Suc.IH[folded kF_def]
    have k: "fst kF = (b - a) * m" and len: "length (fg_q (snd kF)) = length (fg_q F1)"
      and above: "\<And>i. b \<le> i \<Longrightarrow> fg_q (snd kF) ! i = fg_q F1 ! i"
      and below: "\<And>i j. a \<le> i \<Longrightarrow> i < b \<Longrightarrow> i < length (fg_q F1) \<Longrightarrow> j < NSTATE d
                    \<Longrightarrow> j \<noteq> ITIME d \<Longrightarrow> j < length (fg_q F1 ! i)
                    \<Longrightarrow> fg_q (snd kF) ! i ! j = x ! ((i - a) * m + position_without_time d j)"
      using IH by simp_all
    have c1: "fst (step b kF) = (Suc b - a) * m"
      using True by (simp add: step_k k Suc_diff_le)
    have c2: "length (fg_q (snd (step b kF))) = length (fg_q F1)"
      by (simp add: step_q len)
    have c3: "fg_q (snd (step b kF)) ! i = fg_q F1 ! i" if "Suc b \<le> i" for i
      using that by (simp add: step_q above)
    have c4: "fg_q (snd (step b kF)) ! i ! j = x ! ((i - a) * m + position_without_time d j)"
      if "a \<le> i" "i < Suc b" "i < length (fg_q F1)" "j < NSTATE d" "j \<noteq> ITIME d"
        "j < length (fg_q F1 ! i)" for i j
    proof (cases "i = b")
      case True
      have "fg_q (snd (step b kF)) ! b ! j
              = snd (read_into [ITIME d + 1..<NSTATE d] x
                       (read_into [0..<ITIME d] x (fst kF, fg_q F1 ! b))) ! j"
        using that True by (simp add: step_q len above)
      also have "\<dots> = x ! (fst kF + position_without_time d j)"
        using that True by (intro read_states(2)[OF itime]) simp_all
      finally show ?thesis by (simp add: True k)
    next
      case False
      with that have "i < b" by simp
      with that False show ?thesis by (simp add: step_q below)
    qed
    show ?thesis unfolding upt using c1 c2 c3 c4 by blast
  qed
qed

lemma first_node_rows:
  assumes "offset clo \<le> i"
  shows "fg_q (load_first_node d clo F) ! i = fg_q F ! i"
    and "fg_q (load_first_node_derivative d clo F) ! i = fg_q F ! i"
    and "length (fg_q (load_first_node d clo F)) = length (fg_q F)"
    and "length (fg_q (load_first_node_derivative d clo F)) = length (fg_q F)"
    and "fg_n_points (load_first_node d clo F) = fg_n_points F"
    and "fg_n_points (load_first_node_derivative d clo F) = fg_n_points F"
  using assms
  by (auto simp: load_first_node_def load_first_node_derivative_def copy_first_def offset_def)

lemma loaded_state_direct:
  assumes "ITIME d < NSTATE d" and "offset clo \<le> i" and "i < fg_n_points F0"
    and "i < length (fg_q F0)" and "j < NSTATE d" and "j \<noteq> ITIME d"
    and "j < length (fg_q F0 ! i)"
  shows "fg_q (load_direct d clo F0 x) ! i ! j = x ! variable_index d clo True i j"
  using load_loop[of "load_node_direct d x" "variables_per_node d True" d x "offset clo"
      "fg_n_points F0" "load_first_node d clo F0", OF load_node_step(1,2)[OF assms(1)] assms(1)]
    assms
  by (simp add: load_direct_def variable_index_def first_node_rows)

lemma loaded_state_derivative:
  assumes "ITIME d < NSTATE d" and "offset clo \<le> i" and "i < fg_n_points F0"
    and "i < length (fg_q F0)" and "j < NSTATE d" and "j \<noteq> ITIME d"
    and "j < length (fg_q F0 ! i)"
  shows "fg_q (load_derivative d clo F0 x) ! i ! j = x ! variable_index d clo False i j"
  using load_loop[of "load_node_derivative d x" "variables_per_node d False" d x "offset clo"
      "fg_n_points F0" "load_first_node_derivative d clo F0",
      OF load_node_step(3,4)[OF assms(1)] assms(1)]
    assms
  by (simp add: load_derivative_def variable_index_def first_node_rows)

section \<open>The bounds of the lateral offset\<close>

lemma FG_sizes:
  "fg_n_points (FG_direct d ne np s q0 qa0 u0 diss) = np"
  "fg_n_points (FG_derivative d ne np s q0 qa0 u0 diss) = np"
  "fg_s (FG_direct d ne np s q0 qa0 u0 diss) = s"
  "fg_s (FG_derivative d ne np s q0 qa0 u0 diss) = s"
  "fg_n_variables (FG_direct d ne np s q0 qa0 u0 diss) = ne * variables_per_node d True"
  "fg_n_variables (FG_derivative d ne np s q0 qa0 u0 diss) = ne * variables_per_node d False"
  "fg_n_constraints (FG_direct d ne np s q0 qa0 u0 diss) = ne * constraints_per_element d True"
  "fg_n_constraints (FG_derivative d ne np s q0 qa0 u0 diss) = ne * constraints_per_element d False"
  "length (fg_q (FG_direct d ne np s q0 qa0 u0 diss)) = np"
  "length (fg_q (FG_derivative d ne np s q0 qa0 u0 diss)) = np"
  "i < np \<Longrightarrow> length (fg_q (FG_direct d ne np s q0 qa0 u0 diss) ! i) = NSTATE d"
  "i < np \<Longrightarrow> length (fg_q (FG_derivative d ne np s q0 qa0 u0 diss) ! i) = NSTATE d"
  by (simp_all add: FG_direct_def FG_derivative_def variables_per_node_def
      constraints_per_element_def)

lemma FG_call_fst:
  "fst (FG_direct_call d clo F x) = load_direct d clo F x"
  "fst (FG_derivative_call d clo F x) = load_derivative d clo F x"
  by (simp_all add: FG_direct_call_def FG_derivative_call_def Let_def)

lemma elements_fit:
  "(np - 1) * m \<le> (np - offset clo) * m"
  by (simp add: offset_def)

text \<open>
  Claim C7.  In both transcriptions (\<open>direct\<close> or not), for open and closed tracks, and
  for every node \<open>i\<close> that holds variables and every state \<open>j\<close> other than the time:
  the state \<open>j\<close> of node \<open>i\<close> is the entry \<open>variable_index d clo direct i j\<close> of the
  vector of the variables (that is the entry which \<^verbatim>\<open>operator()\<close> loads into
  \<^verbatim>\<open>_q[i][j]\<close>); its bounds are \<open>- get_left_track_limit(s_i)\<close> and
  \<open>get_right_track_limit(s_i)\<close> when \<open>j\<close> is the lateral offset \<^verbatim>\<open>IN\<close>, and the
  entries \<open>j\<close> of the state bounds of the model, which do not depend on the node,
  otherwise.  The hypotheses are the assertion \<^verbatim>\<open>ITIME == IN - 1\<close> of the sources and the
  relation between the numbers of elements and of nodes that the constructors establish.
\<close>

theorem lateral_offset_bounded_by_track_limits:
  assumes "IN d = ITIME d + 1" and "IN d < NSTATE d"
    and "opt_n_elements ol = opt_n_points ol - offset clo"
    and "offset clo \<le> i" and "i < opt_n_points ol" and "j < NSTATE d" and "j \<noteq> ITIME d"
  shows
    "(let F0 = (if direct
                then FG_direct d (opt_n_elements ol) (opt_n_points ol) (opt_s ol) q0 qa0 u0 diss
                else FG_derivative d (opt_n_elements ol) (opt_n_points ol) (opt_s ol) q0 qa0 u0 diss);
          F = fst (if direct then FG_direct_call d clo F0 x else FG_derivative_call d clo F0 x);
          b = (if direct then bounds_direct d clo F0 ol else bounds_derivative d clo F0 ol);
          k = variable_index d clo direct i j
      in fg_q F ! i ! j = x ! k
         \<and> x_lb b ! k = (if j = IN d then - get_left_track_limit d (opt_s ol ! i)
                         else fst (optimal_laptime_state_bounds d) ! j)
         \<and> x_ub b ! k = (if j = IN d then get_right_track_limit d (opt_s ol ! i)
                         else snd (optimal_laptime_state_bounds d) ! j))"
proof -
  have itime: "ITIME d < NSTATE d" using assms(1,2) by simp
  show ?thesis
  proof (cases direct)
    case True
    let ?F0 = "FG_direct d (opt_n_elements ol) (opt_n_points ol) (opt_s ol) q0 qa0 u0 diss"
    have n: "fg_n_variables ?F0 = (opt_n_points ol - offset clo) * variables_per_node d True"
      by (simp add: FG_sizes assms(3))
    have "fg_q (load_direct d clo ?F0 x) ! i ! j = x ! variable_index d clo True i j"
      using assms by (intro loaded_state_direct[OF itime]) (simp_all add: FG_sizes)
    with variable_bounds_direct(2,3)[OF assms(1,2) n assms(4-7)] True show ?thesis
      by (simp add: Let_def FG_call_fst)
  next
    case False
    let ?F0 = "FG_derivative d (opt_n_elements ol) (opt_n_points ol) (opt_s ol) q0 qa0 u0 diss"
    have n: "fg_n_variables ?F0 = (opt_n_points ol - offset clo) * variables_per_node d False"
      by (simp add: FG_sizes assms(3))
    have "fg_q (load_derivative d clo ?F0 x) ! i ! j = x ! variable_index d clo False i j"
      using assms by (intro loaded_state_derivative[OF itime]) (simp_all add: FG_sizes)
    with variable_bounds_derivative(2,3)[OF assms(1,2) n assms(4-7)] False show ?thesis
      by (simp add: Let_def FG_call_fst)
  qed
qed

theorem lateral_offset_bounded_by_track_limits_witness:
  "IN toy_model = ITIME toy_model + 1 \<and> IN toy_model < NSTATE toy_model
   \<and> opt_n_elements two_node_object = opt_n_points two_node_object - offset True
   \<and> offset True \<le> 1 \<and> 1 < opt_n_points two_node_object
   \<and> 2 < NSTATE toy_model \<and> 2 \<noteq> ITIME toy_model \<and> IN toy_model = 2
   \<and> variable_index toy_model True True 1 2 = 4
   \<and> fg_q (fst (FG_direct_call toy_model True
                   (FG_direct toy_model 2 2 [0, 2] [50, 0, 1] [] [1 / 2] [1])
                   [50, 1, 1 / 2, 53, 2, 3 / 4])) ! 1 ! 2 = 2
   \<and> x_lb (bounds_direct toy_model True
              (FG_direct toy_model 2 2 [0, 2] [50, 0, 1] [] [1 / 2] [1]) two_node_object) ! 4 = - 4
   \<and> x_ub (bounds_direct toy_model True
              (FG_direct toy_model 2 2 [0, 2] [50, 0, 1] [] [1 / 2] [1]) two_node_object) ! 4 = 5
   \<and> variable_index toy_model True False 1 2 = 5
   \<and> fg_q (fst (FG_derivative_call toy_model True
                   (FG_derivative toy_model 2 2 [0, 2] [50, 0, 1] [] [1 / 2] [1])
                   [50, 1, 1 / 2, 0, 53, 2, 3 / 4, 0])) ! 1 ! 2 = 2
   \<and> x_lb (bounds_derivative toy_model True
              (FG_derivative toy_model 2 2 [0, 2] [50, 0, 1] [] [1 / 2] [1]) two_node_object) ! 5 = - 4
   \<and> x_ub (bounds_derivative toy_model True
              (FG_derivative toy_model 2 2 [0, 2] [50, 0, 1] [] [1 / 2] [1]) two_node_object) ! 5 = 5"
proof -
  have h: "IN toy_model = ITIME toy_model + 1" "IN toy_model < NSTATE toy_model"
    "opt_n_elements two_node_object = opt_n_points two_node_object - offset True"
    "offset True \<le> 1" "1 < opt_n_points two_node_object"
    "2 < NSTATE toy_model" "2 \<noteq> ITIME toy_model"
    by (simp_all add: toy_model_def two_node_object_def new_object_def offset_def)
  have o: "opt_n_elements two_node_object = 2" "opt_n_points two_node_object = 2"
    "opt_s two_node_object = [0, 2]" "IN toy_model = 2"
    "get_left_track_limit toy_model 2 = 4" "get_right_track_limit toy_model 2 = 5"
    by (simp_all add: two_node_object_def new_object_def toy_model_def)
  have k: "variable_index toy_model True True 1 2 = 4" "variable_index toy_model True False 1 2 = 5"
    by (simp_all add: variable_index_def variables_per_node_def position_without_time_def
        offset_def toy_model_def)
  from lateral_offset_bounded_by_track_limits[OF h, where direct = True and ?q0.0 = "[50, 0, 1]"
      and ?qa0.0 = "[]" and ?u0.0 = "[1 / 2]" and diss = "[1]" and x = "[50, 1, 1 / 2, 53, 2, 3 / 4]"]
  have a: "fg_q (fst (FG_direct_call toy_model True
                   (FG_direct toy_model 2 2 [0, 2] [50, 0, 1] [] [1 / 2] [1])
                   [50, 1, 1 / 2, 53, 2, 3 / 4])) ! 1 ! 2 = 2
     \<and> x_lb (bounds_direct toy_model True
              (FG_direct toy_model 2 2 [0, 2] [50, 0, 1] [] [1 / 2] [1]) two_node_object) ! 4 = - 4
     \<and> x_ub (bounds_direct toy_model True
              (FG_direct toy_model 2 2 [0, 2] [50, 0, 1] [] [1 / 2] [1]) two_node_object) ! 4 = 5"
    by (simp add: Let_def o k k[unfolded One_nat_def])
  from lateral_offset_bounded_by_track_limits[OF h, where direct = False and ?q0.0 = "[50, 0, 1]"
      and ?qa0.0 = "[]" and ?u0.0 = "[1 / 2]" and diss = "[1]"
      and x = "[50, 1, 1 / 2, 0, 53, 2, 3 / 4, 0]"]
  have b: "fg_q (fst (FG_derivative_call toy_model True
                   (FG_derivative toy_model 2 2 [0, 2] [50, 0, 1] [] [1 / 2] [1])
                   [50, 1, 1 / 2, 0, 53, 2, 3 / 4, 0])) ! 1 ! 2 = 2
     \<and> x_lb (bounds_derivative toy_model True
              (FG_derivative toy_model 2 2 [0, 2] [50, 0, 1] [] [1 / 2] [1]) two_node_object) ! 5 = - 4
     \<and> x_ub (bounds_derivative toy_model True
              (FG_derivative toy_model 2 2 [0, 2] [50, 0, 1] [] [1 / 2] [1]) two_node_object) ! 5 = 5"
    by (simp add: Let_def o k k[unfolded One_nat_def])
  from h o(4) k a b show ?thesis by blast
qed

section \<open>The collocation constraints\<close>

text \<open>
  Claim C6.  In both transcriptions, for open and closed tracks, for every element
  \<open>i = 1, ..., n_points - 1\<close> and every state \<open>j\<close> other than the time: the entry
  \<open>1 + constraint_index d direct i j\<close> of \<^verbatim>\<open>fg\<close> (entry 0 is the objective) is
  \<open>q_i[j] - q_{i-1}[j] - 0.5 * (s_i - s_{i-1}) * (dqds_{i-1}[j] + dqds_i[j])\<close>, with
  the states and the derivatives that the call has loaded and computed, and the bounds
  \<^verbatim>\<open>c_lb\<close> and \<^verbatim>\<open>c_ub\<close> of this constraint are both 0.  The derivative transcription
  writes six tire slips per element where the bounds loop writes
  \<^verbatim>\<open>N_OL_EXTRA_CONSTRAINTS\<close> pairs of bounds, so for it the number of extra constraints
  is taken to be six (otherwise the assertion \<^verbatim>\<open>assert(k == FG::_n_constraints+1)\<close> of
  the sources fails).
\<close>

theorem collocation_defects_are_equality_constraints:
  assumes "IN d = ITIME d + 1" and "IN d < NSTATE d"
    and "direct \<or> N_OL_EXTRA_CONSTRAINTS d = 6"
    and "opt_n_elements ol = opt_n_points ol - offset clo"
    and "1 \<le> i" and "i < opt_n_points ol" and "j < NSTATE d" and "j \<noteq> ITIME d"
  shows
    "(let F0 = (if direct
                then FG_direct d (opt_n_elements ol) (opt_n_points ol) (opt_s ol) q0 qa0 u0 diss
                else FG_derivative d (opt_n_elements ol) (opt_n_points ol) (opt_s ol) q0 qa0 u0 diss);
          call = (if direct then FG_direct_call d clo F0 x else FG_derivative_call d clo F0 x);
          F = fst call;
          fg = snd call;
          b = (if direct then bounds_direct d clo F0 ol else bounds_derivative d clo F0 ol);
          k = constraint_index d direct i j
      in fg ! (1 + k) =
           fg_q F ! i ! j - fg_q F ! (i - 1) ! j
             - 0.5 * (opt_s ol ! i - opt_s ol ! (i - 1)) * (dqdt d F (i - 1) ! j + dqdt d F i ! j)
         \<and> c_lb b ! k = 0 \<and> c_ub b ! k = 0)"
proof -
  have itime: "ITIME d < NSTATE d" using assms(1,2) by simp
  show ?thesis
  proof (cases direct)
    case True
    let ?F0 = "FG_direct d (opt_n_elements ol) (opt_n_points ol) (opt_s ol) q0 qa0 u0 diss"
    have n: "fg_n_constraints ?F0 = (opt_n_points ol - offset clo) * constraints_per_element d True"
      by (simp add: FG_sizes assms(4))
    have "snd (FG_direct_call d clo ?F0 x) ! Suc (constraint_index d True i j)
           = state_defect d (fst (FG_direct_call d clo ?F0 x)) i j"
      using assms by (intro fg_direct_entry[OF itime]) (simp_all add: FG_sizes offset_def)
    with constraint_bounds_direct[OF assms(1,2) n assms(5-8)] True show ?thesis
      by (simp add: Let_def state_defect_def FG_call_fst load_keeps_sizes FG_sizes)
  next
    case False
    with assms(3) have six: "N_OL_EXTRA_CONSTRAINTS d = 6" by simp
    let ?F0 = "FG_derivative d (opt_n_elements ol) (opt_n_points ol) (opt_s ol) q0 qa0 u0 diss"
    have n: "fg_n_constraints ?F0 = (opt_n_points ol - offset clo) * constraints_per_element d False"
      by (simp add: FG_sizes assms(4))
    have "snd (FG_derivative_call d clo ?F0 x) ! Suc (constraint_index d False i j)
           = state_defect d (fst (FG_derivative_call d clo ?F0 x)) i j"
      using assms by (intro fg_derivative_entry[OF itime six]) (simp_all add: FG_sizes offset_def)
    with constraint_bounds_derivative[OF assms(1,2) n assms(5-8)] False show ?thesis
      by (simp add: Let_def state_defect_def FG_call_fst load_keeps_sizes FG_sizes)
  qed
qed

theorem collocation_defects_are_equality_constraints_witness:
  "IN toy_model = ITIME toy_model + 1 \<and> IN toy_model < NSTATE toy_model
   \<and> N_OL_EXTRA_CONSTRAINTS toy_model = 6
   \<and> opt_n_elements two_node_object = opt_n_points two_node_object - offset True
   \<and> (1::nat) \<le> 1 \<and> 1 < opt_n_points two_node_object
   \<and> 0 < NSTATE toy_model \<and> 0 \<noteq> ITIME toy_model
   \<and> constraint_index toy_model True 1 0 = 0
   \<and> snd (FG_direct_call toy_model True
             (FG_direct toy_model 2 2 [0, 2] [50, 0, 1] [] [1 / 2] [1])
             [50, 1, 1 / 2, 53, 2, 3 / 4]) ! 1 = 7 / 4
   \<and> c_lb (bounds_direct toy_model True
              (FG_direct toy_model 2 2 [0, 2] [50, 0, 1] [] [1 / 2] [1]) two_node_object) ! 0 = 0
   \<and> c_ub (bounds_direct toy_model True
              (FG_direct toy_model 2 2 [0, 2] [50, 0, 1] [] [1 / 2] [1]) two_node_object) ! 0 = 0
   \<and> constraint_index toy_model False 1 0 = 0
   \<and> snd (FG_derivative_call toy_model True
             (FG_derivative toy_model 2 2 [0, 2] [50, 0, 1] [] [1 / 2] [1])
             [50, 1, 1 / 2, 0, 53, 2, 3 / 4, 0]) ! 1 = 7 / 4
   \<and> c_lb (bounds_derivative toy_model True
              (FG_derivative toy_model 2 2 [0, 2] [50, 0, 1] [] [1 / 2] [1]) two_node_object) ! 0 = 0
   \<and> c_ub (bounds_derivative toy_model True
              (FG_derivative toy_model 2 2 [0, 2] [50, 0, 1] [] [1 / 2] [1]) two_node_object) ! 0 = 0"
proof -
  let ?Fd = "FG_direct toy_model 2 2 [0, 2] [50, 0, 1] [] [1 / 2] [1]"
  let ?Fr = "FG_derivative toy_model 2 2 [0, 2] [50, 0, 1] [] [1 / 2] [1]"
  let ?xd = "[50, 1, 1 / 2, 53, 2, 3 / 4] :: real list"
  let ?xr = "[50, 1, 1 / 2, 0, 53, 2, 3 / 4, 0] :: real list"
  have h1: "IN toy_model = ITIME toy_model + 1" and h2: "IN toy_model < NSTATE toy_model"
    and six: "N_OL_EXTRA_CONSTRAINTS toy_model = 6"
    and h4: "opt_n_elements two_node_object = opt_n_points two_node_object - offset True"
    and h5: "(1::nat) \<le> 1" and h6: "1 < opt_n_points two_node_object"
    and h7: "0 < NSTATE toy_model" and h8: "0 \<noteq> ITIME toy_model"
    by (simp_all add: toy_model_def two_node_object_def new_object_def offset_def)
  have o: "opt_n_elements two_node_object = 2" "opt_n_points two_node_object = 2"
    "opt_s two_node_object = [0, 2]"
    by (simp_all add: two_node_object_def new_object_def)
  have k: "constraint_index toy_model True 1 0 = 0" "constraint_index toy_model False 1 0 = 0"
    by (simp_all add: constraint_index_def position_without_time_def toy_model_def)
  have qd: "fg_q (fst (FG_direct_call toy_model True ?Fd ?xd)) = [[50, 0, 1], [53, 0, 2]]"
    "dqdt toy_model (fst (FG_direct_call toy_model True ?Fd ?xd)) 0 = [1 / 2, 1, 0]"
    "dqdt toy_model (fst (FG_direct_call toy_model True ?Fd ?xd)) 1 = [3 / 4, 3, 0]"
    by code_simp+
  have qr: "fg_q (fst (FG_derivative_call toy_model True ?Fr ?xr)) = [[50, 0, 1], [53, 0, 2]]"
    "dqdt toy_model (fst (FG_derivative_call toy_model True ?Fr ?xr)) 0 = [1 / 2, 1, 0]"
    "dqdt toy_model (fst (FG_derivative_call toy_model True ?Fr ?xr)) 1 = [3 / 4, 3, 0]"
    by code_simp+
  from collocation_defects_are_equality_constraints[OF h1 h2 disjI1 h4 h5 h6 h7 h8,
      where direct = True and ?q0.0 = "[50, 0, 1]" and ?qa0.0 = "[]" and ?u0.0 = "[1 / 2]"
      and diss = "[1]" and x = ?xd]
  have a: "snd (FG_direct_call toy_model True ?Fd ?xd) ! 1 = 7 / 4
     \<and> c_lb (bounds_direct toy_model True ?Fd two_node_object) ! 0 = 0
     \<and> c_ub (bounds_direct toy_model True ?Fd two_node_object) ! 0 = 0"
    by (simp add: Let_def o k[unfolded One_nat_def] qd qd[unfolded One_nat_def])
  from collocation_defects_are_equality_constraints[OF h1 h2 disjI2 h4 h5 h6 h7 h8,
      where direct = False and ?q0.0 = "[50, 0, 1]" and ?qa0.0 = "[]" and ?u0.0 = "[1 / 2]"
      and diss = "[1]" and x = ?xr, OF six]
  have b: "snd (FG_derivative_call toy_model True ?Fr ?xr) ! 1 = 7 / 4
     \<and> c_lb (bounds_derivative toy_model True ?Fr two_node_object) ! 0 = 0
     \<and> c_ub (bounds_derivative toy_model True ?Fr two_node_object) ! 0 = 0"
    by (simp add: Let_def o k[unfolded One_nat_def] qr qr[unfolded One_nat_def])
  from h1 h2 six h4 h5 h6 h7 h8 k a b show ?thesis by blast
qed

end
